theory Spec2Isabelle
  imports Complex_Main "HOL-Library.Char_ord" "HOL-Library.List_Lexorder"
    "HOL-Library.Product_Lexorder"
begin

section \<open>Embedding model load: TransformersEmbedding.initialize\<close>

text \<open>
  The configuration of \<^verbatim>\<open>TransformersEmbedding\<close> after the constructor has filled in the
  defaults (\<^verbatim>\<open>Required<TransformersEmbeddingConfig>\<close>). \<^verbatim>\<open>maxRetries\<close> and
  \<^verbatim>\<open>retryDelay\<close> are natural numbers (the configuration declares them as integers).
\<close>

datatype device = wasm | webgpu

record TransformersEmbeddingConfig =
  model_e :: string
  device_e :: device
  cache_e :: bool
  quantized :: bool
  maxRetries :: nat
  retryDelay :: nat

text \<open>
  What one pass through the \<^verbatim>\<open>try\<close> block does is decided outside the program: the
  call of \<^verbatim>\<open>pipeline(...)\<close> in \<^verbatim>\<open>loadPipeline\<close> rejects, or it resolves and the test
  embedding \<^verbatim>\<open>generateEmbedding('test')\<close> throws, or both succeed and the test embedding
  has some length. The environment maps the value of \<^verbatim>\<open>attempt\<close> at the call and the
  device passed to \<^verbatim>\<open>loadPipeline\<close> to that outcome.
\<close>

datatype outcome = LoadRejects string | TestThrows string | Loaded nat


text \<open>The effects of \<^verbatim>\<open>initialize\<close> that can be seen from outside, in order.\<close>

datatype event =
    LoadPipeline device
  | Sleep nat
  | Warn string







definition loads :: "event list \<Rightarrow> device list" where
  "loads es = concat (map (\<lambda>e. case e of LoadPipeline d \<Rightarrow> [d] | _ \<Rightarrow> []) es)"

definition sleeps :: "event list \<Rightarrow> nat list" where
  "sleeps es = concat (map (\<lambda>e. case e of Sleep n \<Rightarrow> [n] | _ \<Rightarrow> []) es)"


definition backoff :: "TransformersEmbeddingConfig \<Rightarrow> nat \<Rightarrow> nat" where
  "backoff c a = retryDelay c * 2 ^ (a - 1)"






section \<open>The vector database: data model\<close>

text \<open>
  A \<^verbatim>\<open>Float32Array\<close> is the list of the numbers it holds. \<^verbatim>\<open>Array.from\<close> on a
  \<^verbatim>\<open>Float32Array\<close> and \<^verbatim>\<open>new Float32Array\<close> on the array it gave are exact, so
  both are the identity here; no operation of the coordinator computes with the entries.
  Metadata is a plain JavaScript object: its properties in insertion order, every key once.
\<close>

type_synonym vec = "real list"

datatype json =
    JUndefined
  | JNull
  | JBool bool
  | JNum real
  | JStr string
  | JArr "json list"
  | JObj "(string \<times> json) list"

type_synonym metadata = "(string \<times> json) list"

record VectorRecord =
  id_r :: string
  vector :: vec
  metadata :: metadata
  timestamp :: nat

text \<open>
  Assignment to a property keeps the place of a key the object already has and appends a
  new one; \<^verbatim>\<open>{...a, ...b}\<close> assigns the properties of \<open>b\<close> in order onto a copy of
  \<open>a\<close>; reading a missing property gives \<^verbatim>\<open>undefined\<close>. (A JavaScript object
  enumerates keys that are array indices before the others; the list here keeps them in
  the order of assignment. Which value a key has does not depend on that order, and the
  statements below read metadata by key, with \<open>map_of\<close>.)
\<close>

fun setProp :: "string \<Rightarrow> json \<Rightarrow> metadata \<Rightarrow> metadata" where
  "setProp k v [] = [(k, v)]"
| "setProp k v (p # ps) = (if fst p = k then (k, v) # ps else p # setProp k v ps)"

fun spread :: "metadata \<Rightarrow> metadata \<Rightarrow> metadata" where
  "spread a [] = a"
| "spread a (p # ps) = spread (setProp (fst p) (snd p) a) ps"

definition getProp :: "metadata \<Rightarrow> string \<Rightarrow> json" where
  "getProp m k = (case map_of m k of None \<Rightarrow> JUndefined | Some v \<Rightarrow> v)"

text \<open>
  Thrown values. \<^verbatim>\<open>VectorDBError\<close> carries its code; \<^verbatim>\<open>DimensionMismatchError\<close> and
  \<^verbatim>\<open>IndexCorruptedError\<close> are its subclasses in \<^verbatim>\<open>../errors\<close> (the tests expect a
  dimension mismatch to pass the \<^verbatim>\<open>instanceof VectorDBError\<close> rethrow of \<^verbatim>\<open>import\<close>);
  \<open>OtherError\<close> is any other thrown value (a \<^verbatim>\<open>TypeError\<close>, an \<^verbatim>\<open>Error\<close> of the
  embedding pipeline).
\<close>

datatype error =
    VectorDBError string
  | DimensionMismatchError
  | IndexCorruptedError
  | OtherError string

definition isVectorDBError :: "error \<Rightarrow> bool" where
  "isVectorDBError e = (case e of OtherError _ \<Rightarrow> False | _ \<Rightarrow> True)"

datatype metric = cosine | l2 | dot

text \<open>
  The configuration, flattened to the fields the coordinator reads: \<^verbatim>\<open>storage.dbName\<close>,
  \<^verbatim>\<open>index.dimensions\<close> (0 when absent), \<^verbatim>\<open>index.metric\<close>, \<^verbatim>\<open>embedding.model\<close>, and of
  \<^verbatim>\<open>performance\<close> the chunk size (0 when absent), the lazy loading of models, the
  cache bounds, and whether the optimizer has a \<^verbatim>\<open>batchOptimizer\<close>.
\<close>

record VectorDBConfig =
  dbName :: string
  dimensions :: nat
  metric :: metric
  model :: string
  chunkSize :: nat
  lazyLoadModels :: bool
  cacheBytes :: nat
  embeddingCacheEntries :: nat
  batchOptimizer :: bool

record InsertData =
  vector_d :: "vec option"
  text_d :: "string option"
  metadata_d :: "metadata option"

record SearchQuery =
  vector_q :: "vec option"
  text_q :: "string option"
  k_q :: nat
  filter_q :: "(metadata \<Rightarrow> bool) option"
  includeVectors :: bool

record SearchResult =
  id_s :: string
  score :: real
  metadata_s :: metadata
  vector_s :: "vec option"

text \<open>
  The export envelope as \<^verbatim>\<open>import\<close> may receive it: any field may be missing or of the
  wrong type. \<open>None\<close> stands for a missing (\<^verbatim>\<open>undefined\<close>) field, and for the two
  counts also for a value that is no number; an empty \<^verbatim>\<open>id\<close> and a \<^verbatim>\<open>timestamp\<close> of 0
  are the falsy values. A \<^verbatim>\<open>vectors\<close> field that is present is an array, as the type
  \<^verbatim>\<open>ExportData\<close> declares it: an envelope whose \<^verbatim>\<open>vectors\<close> is some other value is not
  among the envelopes described here.
\<close>

record ExportVector =
  id_x :: string
  vector_x :: "vec option"
  metadata_x :: "metadata option"
  timestamp_x :: nat

record ExportMetadata =
  exportedAt :: nat
  vectorCount :: "int option"
  dimensions_x :: "int option"

record ExportData =
  version :: "string option"
  config_x :: VectorDBConfig
  vectors :: "ExportVector list option"
  index :: string
  metadata_e :: "ExportMetadata option"

record ExportOptions =
  includeIndex :: bool

record ImportOptions =
  validateSchema :: bool
  clearExisting :: bool

text \<open>
  What lies outside the sources read here and is taken as given: the validators of
  \<^verbatim>\<open>InputValidator\<close> for metadata and for \<open>k\<close>, the embedding generator (its
  \<^verbatim>\<open>initialize\<close> followed by \<^verbatim>\<open>getDimensions\<close>, and \<^verbatim>\<open>embed\<close>), the similarity score
  of the index's metric, the length of \<^verbatim>\<open>JSON.stringify(metadata)\<close>, and the opaque
  string format of the serialized index.
\<close>

record Env =
  validateAndSanitizeMetadata :: "metadata option \<Rightarrow> error + metadata"
  validateSearchQuery :: "nat \<Rightarrow> error option"
  generatorInitialize :: "error + nat"
  embed :: "string \<Rightarrow> error + vec"
  similarity :: "vec \<Rightarrow> vec \<Rightarrow> real"
  jsonLength :: "metadata \<Rightarrow> nat"
  encodeIndex :: "nat \<times> VectorRecord list \<Rightarrow> string"
  decodeIndex :: "string \<Rightarrow> (nat \<times> VectorRecord list) option"

text \<open>
  The calls the coordinator makes on Storage, the BatchCoalescer, the AnnIndex and the
  VectorCache, and its console warnings, in the order they happen.
\<close>

datatype call =
    StorageGet string
  | StoragePut string
  | StoragePutBatch "string list"
  | StorageDelete string
  | StorageGetAll
  | StorageCount
  | StorageClear
  | StorageScan
  | CoalescerPut string
  | CoalescerDelete string
  | CoalescerFlush
  | IndexAdd string
  | IndexAddBatch "string list"
  | IndexRemove string
  | IndexSearch
  | IndexClear
  | IndexSerialize
  | IndexDeserialize
  | CacheSet string
  | CacheGet string
  | CacheDelete string
  | ClearCaches
  | ConsoleWarn string

text \<open>
  The state of a \<^verbatim>\<open>VectorDB\<close>: the records in Storage in scan order, the members of the
  index in insertion order, the vector cache (least recently used first, each entry with
  its size in bytes), the embedding cache (least recently used first), whether the
  embedding model is loaded, and the calls made so far.
\<close>

record VectorDB =
  initialized :: bool
  storage :: "VectorRecord list"
  indexManager :: "VectorRecord list"
  vectorCache :: "(string \<times> VectorRecord \<times> nat) list"
  embeddingCache :: "(string \<times> vec) list"
  modelsLoaded :: bool
  calls :: "call list"

type_synonym 'a action = "VectorDB \<Rightarrow> (error + 'a) \<times> VectorDB"

text \<open>
  Sequencing of awaited steps: a step that throws ends the sequence with the state it left.
\<close>

definition andThen :: "'a action \<Rightarrow> ('a \<Rightarrow> 'b action) \<Rightarrow> 'b action" where
  "andThen m f db = (case m db of (Inl e, db1) \<Rightarrow> (Inl e, db1) | (Inr x, db1) \<Rightarrow> f x db1)"

definition return :: "'a \<Rightarrow> 'a action" where
  "return x db = (Inr x, db)"

definition throw :: "error \<Rightarrow> 'a action" where
  "throw e db = (Inl e, db)"

definition lift :: "error + 'a \<Rightarrow> 'a action" where
  "lift r db = (r, db)"

definition logCall :: "call \<Rightarrow> VectorDB \<Rightarrow> VectorDB" where
  "logCall c db = db\<lparr>calls := calls db @ [c]\<rparr>"

text \<open>
  \<^verbatim>\<open>catch (error) { if (error instanceof VectorDBError) throw error; throw new
  VectorDBError(..., code) }\<close>, and the handlers of \<^verbatim>\<open>delete\<close>, \<^verbatim>\<open>clear\<close> and
  \<^verbatim>\<open>export\<close>, which wrap whatever was thrown.
\<close>

definition rethrow :: "string \<Rightarrow> 'a action \<Rightarrow> 'a action" where
  "rethrow code m db =
     (case m db of
        (Inl e, db1) \<Rightarrow> (Inl (if isVectorDBError e then e else VectorDBError code), db1)
      | (Inr x, db1) \<Rightarrow> (Inr x, db1))"

definition wrapAll :: "string \<Rightarrow> 'a action \<Rightarrow> 'a action" where
  "wrapAll code m db =
     (case m db of
        (Inl e, db1) \<Rightarrow> (Inl (VectorDBError code), db1)
      | (Inr x, db1) \<Rightarrow> (Inr x, db1))"

section \<open>The collaborators of the coordinator\<close>

text \<open>
  Modelled from the spec: Storage (\<^verbatim>\<open>IndexedDBStorage\<close> is not among the sources). Section
  4.1: \<^verbatim>\<open>put\<close> and \<^verbatim>\<open>putBatch\<close> are idempotent upserts, \<^verbatim>\<open>get\<close> returns the record or
  none, \<^verbatim>\<open>delete\<close> tells whether the id existed, \<^verbatim>\<open>getAll\<close> and \<^verbatim>\<open>scan\<close> deliver all
  records, \<^verbatim>\<open>count\<close> their number, \<^verbatim>\<open>clear\<close> removes them. An upsert keeps the place of
  a record whose id is already stored.
\<close>

fun st_put :: "VectorRecord \<Rightarrow> VectorRecord list \<Rightarrow> VectorRecord list" where
  "st_put r [] = [r]"
| "st_put r (x # xs) = (if id_r x = id_r r then r # xs else x # st_put r xs)"

fun st_putBatch :: "VectorRecord list \<Rightarrow> VectorRecord list \<Rightarrow> VectorRecord list" where
  "st_putBatch [] s = s"
| "st_putBatch (r # rs) s = st_putBatch rs (st_put r s)"

definition st_get :: "string \<Rightarrow> VectorRecord list \<Rightarrow> VectorRecord option" where
  "st_get i s = find (\<lambda>r. id_r r = i) s"

definition st_delete :: "string \<Rightarrow> VectorRecord list \<Rightarrow> VectorRecord list" where
  "st_delete i s = filter (\<lambda>r. id_r r \<noteq> i) s"

definition storage_put :: "VectorRecord \<Rightarrow> unit action" where
  "storage_put r db = (Inr (), logCall (StoragePut (id_r r)) (db\<lparr>storage := st_put r (storage db)\<rparr>))"

definition storage_putBatch :: "VectorRecord list \<Rightarrow> unit action" where
  "storage_putBatch rs db =
     (Inr (), logCall (StoragePutBatch (map id_r rs)) (db\<lparr>storage := st_putBatch rs (storage db)\<rparr>))"

definition storage_get :: "string \<Rightarrow> VectorRecord option action" where
  "storage_get i db = (Inr (st_get i (storage db)), logCall (StorageGet i) db)"

definition storage_delete :: "string \<Rightarrow> bool action" where
  "storage_delete i db =
     (Inr (st_get i (storage db) \<noteq> None),
      logCall (StorageDelete i) (db\<lparr>storage := st_delete i (storage db)\<rparr>))"

definition storage_getAll :: "VectorRecord list action" where
  "storage_getAll db = (Inr (storage db), logCall StorageGetAll db)"

definition storage_count :: "nat action" where
  "storage_count db = (Inr (length (storage db)), logCall StorageCount db)"

definition storage_clear :: "unit action" where
  "storage_clear db = (Inr (), logCall StorageClear (db\<lparr>storage := []\<rparr>))"

text \<open>
  Modelled from the spec: the BatchCoalescer (the optimizer's \<^verbatim>\<open>batchOptimizer\<close> is not
  among the sources). Section 4.5: \<^verbatim>\<open>put\<close> resolves when the record is durable,
  \<^verbatim>\<open>delete\<close> resolves with the pre-existence of the id once flushed, \<^verbatim>\<open>flush\<close> drains the
  queue. The coordinator awaits every call, so at each resolution the queue is empty and
  Storage holds the effect.
\<close>

definition batch_put :: "VectorRecord \<Rightarrow> unit action" where
  "batch_put r db = (Inr (), logCall (CoalescerPut (id_r r)) (db\<lparr>storage := st_put r (storage db)\<rparr>))"

definition batch_delete :: "string \<Rightarrow> bool action" where
  "batch_delete i db =
     (Inr (st_get i (storage db) \<noteq> None),
      logCall (CoalescerDelete i) (db\<lparr>storage := st_delete i (storage db)\<rparr>))"

definition batch_flush :: "unit action" where
  "batch_flush db = (Inr (), logCall CoalescerFlush db)"

text \<open>
  Modelled from the spec: the ProgressiveLoader (not among the sources). Section 4.6:
  \<^verbatim>\<open>streamProcess\<close> drives the scan and calls the visitor once per record, in order, so
  its effect on the visitor's variables is a fold over the records returned here;
  \<^verbatim>\<open>importInBatches\<close> chunks by the chunk size (default 100) and performs one
  \<^verbatim>\<open>putBatch\<close> per chunk. Progress callbacks are the caller's and are not modelled.
\<close>

definition effectiveChunkSize :: "VectorDBConfig \<Rightarrow> nat" where
  "effectiveChunkSize cfg = (if chunkSize cfg = 0 then 100 else chunkSize cfg)"

function chunked :: "nat \<Rightarrow> 'a list \<Rightarrow> 'a list list" where
  "chunked n xs =
     (if xs = [] then [] else if n = 0 then [xs] else take n xs # chunked n (drop n xs))"
  by pat_completeness auto
termination
  by (relation "measure (\<lambda>(n, xs). length xs)") auto

declare chunked.simps [simp del]

definition streamProcess :: "VectorRecord list action" where
  "streamProcess db = (Inr (storage db), logCall StorageScan db)"

fun putChunks :: "VectorRecord list list \<Rightarrow> unit action" where
  "putChunks [] db = (Inr (), db)"
| "putChunks (c # cs) db = andThen (storage_putBatch c) (\<lambda>_. putChunks cs) db"

definition importInBatches :: "VectorDBConfig \<Rightarrow> VectorRecord list \<Rightarrow> unit action" where
  "importInBatches cfg records = putChunks (chunked (effectiveChunkSize cfg) records)"

text \<open>
  Modelled from the spec: the AnnIndex (\<^verbatim>\<open>IndexManager\<close> is not among the sources; its
  tests are). Section 4.2: \<^verbatim>\<open>add\<close> and \<^verbatim>\<open>addBatch\<close> give immediate membership and fail
  with \<^verbatim>\<open>DimensionMismatch\<close> on a vector of the wrong length, leaving the index
  unchanged; \<^verbatim>\<open>remove\<close> of an absent id is a no-op; \<^verbatim>\<open>search\<close> returns at most \<open>k\<close>
  results, filtered before truncation, sorted by score (descending for cosine and dot,
  ascending for l2), ties by id ascending and then in insertion order; \<^verbatim>\<open>serialize\<close>
  captures membership and dimensions; \<^verbatim>\<open>deserialize\<close> restores them and fails with
  \<^verbatim>\<open>IndexCorrupted\<close> on malformed input and with \<^verbatim>\<open>DimensionMismatch\<close> on other
  dimensions.
\<close>

definition ix_add :: "nat \<Rightarrow> VectorRecord \<Rightarrow> VectorRecord list \<Rightarrow> error + VectorRecord list" where
  "ix_add D r ix = (if length (vector r) \<noteq> D then Inl DimensionMismatchError else Inr (ix @ [r]))"

definition ix_addBatch ::
  "nat \<Rightarrow> VectorRecord list \<Rightarrow> VectorRecord list \<Rightarrow> error + VectorRecord list" where
  "ix_addBatch D rs ix =
     (if list_ex (\<lambda>r. length (vector r) \<noteq> D) rs then Inl DimensionMismatchError
      else Inr (ix @ rs))"

definition ix_remove :: "string \<Rightarrow> VectorRecord list \<Rightarrow> VectorRecord list" where
  "ix_remove i ix = filter (\<lambda>r. id_r r \<noteq> i) ix"

definition rank :: "metric \<Rightarrow> real \<Rightarrow> real" where
  "rank m s = (case m of l2 \<Rightarrow> s | _ \<Rightarrow> - s)"

definition toResult :: "Env \<Rightarrow> vec \<Rightarrow> VectorRecord \<Rightarrow> SearchResult" where
  "toResult env q r =
     \<lparr>id_s = id_r r, score = similarity env q (vector r), metadata_s = metadata r,
      vector_s = None\<rparr>"

definition passes :: "(metadata \<Rightarrow> bool) option \<Rightarrow> SearchResult \<Rightarrow> bool" where
  "passes f r = (case f of None \<Rightarrow> True | Some p \<Rightarrow> p (metadata_s r))"

definition ix_search ::
  "Env \<Rightarrow> metric \<Rightarrow> VectorRecord list \<Rightarrow> vec \<Rightarrow> nat \<Rightarrow> (metadata \<Rightarrow> bool) option \<Rightarrow>
   SearchResult list" where
  "ix_search env m ix q n f =
     take n (sort_key (\<lambda>r. (rank m (score r), id_s r)) (filter (passes f) (map (toResult env q) ix)))"

definition index_add :: "VectorDBConfig \<Rightarrow> VectorRecord \<Rightarrow> unit action" where
  "index_add cfg r db =
     (case ix_add (dimensions cfg) r (indexManager db) of
        Inl e \<Rightarrow> (Inl e, logCall (IndexAdd (id_r r)) db)
      | Inr ix \<Rightarrow> (Inr (), logCall (IndexAdd (id_r r)) (db\<lparr>indexManager := ix\<rparr>)))"

definition index_addBatch :: "VectorDBConfig \<Rightarrow> VectorRecord list \<Rightarrow> unit action" where
  "index_addBatch cfg rs db =
     (case ix_addBatch (dimensions cfg) rs (indexManager db) of
        Inl e \<Rightarrow> (Inl e, logCall (IndexAddBatch (map id_r rs)) db)
      | Inr ix \<Rightarrow> (Inr (), logCall (IndexAddBatch (map id_r rs)) (db\<lparr>indexManager := ix\<rparr>)))"

definition index_remove :: "string \<Rightarrow> unit action" where
  "index_remove i db =
     (Inr (), logCall (IndexRemove i) (db\<lparr>indexManager := ix_remove i (indexManager db)\<rparr>))"

definition index_clear :: "unit action" where
  "index_clear db = (Inr (), logCall IndexClear (db\<lparr>indexManager := []\<rparr>))"

definition index_search ::
  "Env \<Rightarrow> VectorDBConfig \<Rightarrow> vec \<Rightarrow> nat \<Rightarrow> (metadata \<Rightarrow> bool) option \<Rightarrow> SearchResult list action"
  where
  "index_search env cfg q n f db =
     (if length q \<noteq> dimensions cfg then (Inl DimensionMismatchError, logCall IndexSearch db)
      else (Inr (ix_search env (metric cfg) (indexManager db) q n f), logCall IndexSearch db))"

definition index_serialize :: "Env \<Rightarrow> VectorDBConfig \<Rightarrow> string action" where
  "index_serialize env cfg db =
     (Inr (encodeIndex env (dimensions cfg, indexManager db)), logCall IndexSerialize db)"

definition index_deserialize :: "Env \<Rightarrow> VectorDBConfig \<Rightarrow> string \<Rightarrow> unit action" where
  "index_deserialize env cfg s db =
     (case decodeIndex env s of
        None \<Rightarrow> (Inl IndexCorruptedError, logCall IndexDeserialize db)
      | Some (d, rs) \<Rightarrow>
          if d \<noteq> dimensions cfg then (Inl DimensionMismatchError, logCall IndexDeserialize db)
          else (Inr (), logCall IndexDeserialize (db\<lparr>indexManager := rs\<rparr>)))"

text \<open>
  Modelled from the spec: the VectorCache and the EmbeddingCache of the
  \<^verbatim>\<open>PerformanceOptimizer\<close> (not among the sources). Section 4.3: a size-bounded LRU with
  byte accounting; \<^verbatim>\<open>set\<close> evicts least recently used entries until the new entry fits
  and does not cache a record larger than the bound; \<^verbatim>\<open>get\<close> marks the entry most
  recently used; \<^verbatim>\<open>delete\<close> is idempotent. Section 4.4: an LRU from text to vector,
  bounded by an entry count. The size estimate of a record is
  \<^verbatim>\<open>vector.byteLength + 2 * len(json(metadata)) + 100\<close>.
\<close>

definition vc_bytes :: "(string \<times> VectorRecord \<times> nat) list \<Rightarrow> nat" where
  "vc_bytes c = sum_list (map (\<lambda>e. snd (snd e)) c)"

fun vc_evict ::
  "nat \<Rightarrow> nat \<Rightarrow> (string \<times> VectorRecord \<times> nat) list \<Rightarrow> (string \<times> VectorRecord \<times> nat) list" where
  "vc_evict B need [] = []"
| "vc_evict B need (e # es) =
     (if vc_bytes (e # es) + need > B then vc_evict B need es else e # es)"

definition vc_delete ::
  "string \<Rightarrow> (string \<times> VectorRecord \<times> nat) list \<Rightarrow> (string \<times> VectorRecord \<times> nat) list" where
  "vc_delete i c = filter (\<lambda>e. fst e \<noteq> i) c"

definition vc_set ::
  "nat \<Rightarrow> string \<Rightarrow> VectorRecord \<Rightarrow> nat \<Rightarrow> (string \<times> VectorRecord \<times> nat) list \<Rightarrow>
   (string \<times> VectorRecord \<times> nat) list" where
  "vc_set B i r n c = (if n > B then c else vc_evict B n (vc_delete i c) @ [(i, r, n)])"

definition recordSize :: "Env \<Rightarrow> VectorRecord \<Rightarrow> nat" where
  "recordSize env r = 4 * length (vector r) + jsonLength env (metadata r) * 2 + 100"

definition vectorCache_set :: "VectorDBConfig \<Rightarrow> string \<Rightarrow> VectorRecord \<Rightarrow> nat \<Rightarrow> unit action" where
  "vectorCache_set cfg i r n db =
     (Inr (), logCall (CacheSet i) (db\<lparr>vectorCache := vc_set (cacheBytes cfg) i r n (vectorCache db)\<rparr>))"

definition vectorCache_delete :: "string \<Rightarrow> unit action" where
  "vectorCache_delete i db =
     (Inr (), logCall (CacheDelete i) (db\<lparr>vectorCache := vc_delete i (vectorCache db)\<rparr>))"

definition getVector :: "Env \<Rightarrow> VectorDBConfig \<Rightarrow> string \<Rightarrow> VectorRecord option action" where
  "getVector env cfg i db =
     (case find (\<lambda>e. fst e = i) (vectorCache db) of
        Some e \<Rightarrow>
          (Inr (Some (fst (snd e))),
           logCall (CacheGet i) (db\<lparr>vectorCache := vc_delete i (vectorCache db) @ [e]\<rparr>))
      | None \<Rightarrow>
          andThen (storage_get i)
            (\<lambda>found. case found of
                None \<Rightarrow> return None
              | Some r \<Rightarrow> andThen (vectorCache_set cfg i r (recordSize env r)) (\<lambda>_. return (Some r)))
            (logCall (CacheGet i) db))"

definition getCachedEmbedding :: "string \<Rightarrow> VectorDB \<Rightarrow> vec option \<times> VectorDB" where
  "getCachedEmbedding t db =
     (case map_of (embeddingCache db) t of
        None \<Rightarrow> (None, db)
      | Some v \<Rightarrow>
          (Some v, db\<lparr>embeddingCache := filter (\<lambda>e. fst e \<noteq> t) (embeddingCache db) @ [(t, v)]\<rparr>))"

definition cacheEmbedding :: "VectorDBConfig \<Rightarrow> string \<Rightarrow> vec \<Rightarrow> VectorDB \<Rightarrow> VectorDB" where
  "cacheEmbedding cfg t v db =
     (let c = filter (\<lambda>e. fst e \<noteq> t) (embeddingCache db);
          kept = drop (Suc (length c) - embeddingCacheEntries cfg) c
      in db\<lparr>embeddingCache := (if embeddingCacheEntries cfg = 0 then [] else kept @ [(t, v)])\<rparr>)"

definition clearCaches :: "unit action" where
  "clearCaches db = (Inr (), logCall ClearCaches (db\<lparr>vectorCache := [], embeddingCache := []\<rparr>))"

section \<open>The coordinator: class VectorDB\<close>

definition ensureInitialized :: "unit action" where
  "ensureInitialized db =
     (if \<not> initialized db then (Inl (VectorDBError ''NOT_INITIALIZED''), db) else (Inr (), db))"

definition validateConfig :: "VectorDBConfig \<Rightarrow> error option" where
  "validateConfig cfg =
     (if dbName cfg = [] then Some (VectorDBError ''INVALID_CONFIG'')
      else if dimensions cfg = 0 then Some (VectorDBError ''INVALID_CONFIG'')
      else if model cfg = [] then Some (VectorDBError ''INVALID_CONFIG'')
      else None)"

text \<open>
  \<^verbatim>\<open>generateId\<close>: \<^verbatim>\<open>`${Date.now()}-${Math.random().toString(36).substring(2, 11)}`\<close>. The
  clock readings and the random suffix of one insertion come from outside.
\<close>

record Tick =
  idTime :: nat
  idRandom :: string
  metadataTime :: nat
  recordTime :: nat

definition digit :: "nat \<Rightarrow> char" where
  "digit n = ''0123456789'' ! n"

function decimal :: "nat \<Rightarrow> string" where
  "decimal n = (if n < 10 then [digit n] else decimal (n div 10) @ [digit (n mod 10)])"
  by pat_completeness auto
termination
  by (relation "measure (\<lambda>n. n)") auto

declare decimal.simps [simp del]

definition generateId :: "Tick \<Rightarrow> string" where
  "generateId tk = decimal (idTime tk) @ ''-'' @ idRandom tk"

text \<open>
  Modelled from the spec: \<^verbatim>\<open>InputValidator.validateVector\<close> (not among the sources).
  Section 7: a vector whose length is not \<open>D\<close> is a \<^verbatim>\<open>DimensionMismatch\<close>.
\<close>

definition validateVector :: "vec \<Rightarrow> nat \<Rightarrow> unit action" where
  "validateVector v D = (if length v \<noteq> D then throw DimensionMismatchError else return ())"

definition ensureModelsLoaded :: "Env \<Rightarrow> VectorDBConfig \<Rightarrow> unit action" where
  "ensureModelsLoaded env cfg db =
     (if \<not> modelsLoaded db then
        (case generatorInitialize env of
           Inl e \<Rightarrow> (Inl e, db)
         | Inr embeddingDimensions \<Rightarrow>
             (if embeddingDimensions \<noteq> dimensions cfg
              then (Inl DimensionMismatchError, db\<lparr>modelsLoaded := True\<rparr>)
              else (Inr (), db\<lparr>modelsLoaded := True\<rparr>)))
      else (Inr (), db))"

definition truthy :: "string option \<Rightarrow> bool" where
  "truthy t = (case t of None \<Rightarrow> False | Some s \<Rightarrow> s \<noteq> [])"

definition embedText :: "Env \<Rightarrow> VectorDBConfig \<Rightarrow> string \<Rightarrow> vec action" where
  "embedText env cfg t =
     andThen (ensureModelsLoaded env cfg) (\<lambda>_.
     andThen (lift (embed env t)) (\<lambda>v.
     andThen (validateVector v (dimensions cfg)) (\<lambda>_.
     andThen (\<lambda>db. (Inr (), cacheEmbedding cfg t v db)) (\<lambda>_.
     return v))))"

definition prepareVector :: "Env \<Rightarrow> VectorDBConfig \<Rightarrow> InsertData \<Rightarrow> vec action" where
  "prepareVector env cfg data =
     (case vector_d data of
        Some v \<Rightarrow> andThen (validateVector v (dimensions cfg)) (\<lambda>_. return v)
      | None \<Rightarrow>
          if truthy (text_d data) then
            (\<lambda>db. case getCachedEmbedding (the (text_d data)) db of
                (Some cached, db1) \<Rightarrow> (Inr cached, db1)
              | (None, db1) \<Rightarrow> embedText env cfg (the (text_d data)) db1)
          else throw (VectorDBError ''INVALID_INSERT_DATA''))"

definition textJson :: "string option \<Rightarrow> json" where
  "textJson t = (case t of None \<Rightarrow> JUndefined | Some s \<Rightarrow> JStr s)"

definition newRecord :: "metadata \<Rightarrow> InsertData \<Rightarrow> Tick \<Rightarrow> vec \<Rightarrow> VectorRecord" where
  "newRecord sanitizedMetadata data tk v =
     \<lparr>id_r = generateId tk,
      vector = v,
      metadata =
        setProp ''timestamp'' (JNum (real (metadataTime tk)))
          (setProp ''content'' (textJson (text_d data)) (spread [] sanitizedMetadata)),
      timestamp = recordTime tk\<rparr>"

definition insert_db :: "Env \<Rightarrow> VectorDBConfig \<Rightarrow> InsertData \<Rightarrow> Tick \<Rightarrow> string action" where
  "insert_db env cfg data tk =
     andThen ensureInitialized (\<lambda>_.
     rethrow ''INSERT_ERROR''
       (andThen (lift (validateAndSanitizeMetadata env (metadata_d data))) (\<lambda>sanitizedMetadata.
        andThen (prepareVector env cfg data) (\<lambda>v.
        andThen (return (newRecord sanitizedMetadata data tk v)) (\<lambda>record.
        andThen (if batchOptimizer cfg then batch_put record else storage_put record) (\<lambda>_.
        andThen (vectorCache_set cfg (id_r record) record (recordSize env record)) (\<lambda>_.
        andThen (index_add cfg record) (\<lambda>_.
        return (id_r record)))))))))"

fun prepareRecords ::
  "Env \<Rightarrow> VectorDBConfig \<Rightarrow> (InsertData \<times> Tick) list \<Rightarrow> VectorRecord list action" where
  "prepareRecords env cfg [] = return []"
| "prepareRecords env cfg (item # rest) =
     andThen (lift (validateAndSanitizeMetadata env (metadata_d (fst item)))) (\<lambda>sanitizedMetadata.
     andThen (prepareVector env cfg (fst item)) (\<lambda>v.
     andThen (return (newRecord sanitizedMetadata (fst item) (snd item) v)) (\<lambda>record.
     andThen (vectorCache_set cfg (id_r record) record (recordSize env record)) (\<lambda>_.
     andThen (prepareRecords env cfg rest) (\<lambda>records.
     return (record # records))))))"

definition insertBatch ::
  "Env \<Rightarrow> VectorDBConfig \<Rightarrow> (InsertData \<times> Tick) list \<Rightarrow> string list action" where
  "insertBatch env cfg data =
     andThen ensureInitialized (\<lambda>_.
     if data = [] then return []
     else rethrow ''INSERT_BATCH_ERROR''
       (andThen (prepareRecords env cfg data) (\<lambda>records.
        andThen (storage_putBatch records) (\<lambda>_.
        andThen (index_addBatch cfg records) (\<lambda>_.
        return (map id_r records))))))"

definition queryVector :: "Env \<Rightarrow> VectorDBConfig \<Rightarrow> SearchQuery \<Rightarrow> vec action" where
  "queryVector env cfg query =
     (case vector_q query of
        Some v \<Rightarrow> return v
      | None \<Rightarrow>
          if truthy (text_q query) then
            (\<lambda>db. case getCachedEmbedding (the (text_q query)) db of
                (Some cached, db1) \<Rightarrow> (Inr cached, db1)
              | (None, db1) \<Rightarrow>
                  andThen (ensureModelsLoaded env cfg) (\<lambda>_.
                  andThen (lift (embed env (the (text_q query)))) (\<lambda>v.
                  andThen (\<lambda>db. (Inr (), cacheEmbedding cfg (the (text_q query)) v db)) (\<lambda>_.
                  return v))) db1)
          else throw (VectorDBError ''INVALID_QUERY''))"

fun hydrate :: "Env \<Rightarrow> VectorDBConfig \<Rightarrow> SearchResult list \<Rightarrow> SearchResult list action" where
  "hydrate env cfg [] = return []"
| "hydrate env cfg (result # rest) =
     andThen (getVector env cfg (id_s result)) (\<lambda>found.
     andThen (hydrate env cfg rest) (\<lambda>results.
     return ((case found of
                None \<Rightarrow> result
              | Some r \<Rightarrow> result\<lparr>vector_s := Some (vector r)\<rparr>) # results)))"

definition search :: "Env \<Rightarrow> VectorDBConfig \<Rightarrow> SearchQuery \<Rightarrow> SearchResult list action" where
  "search env cfg query =
     andThen ensureInitialized (\<lambda>_.
     rethrow ''SEARCH_ERROR''
       (andThen (lift (case validateSearchQuery env (k_q query) of
                         Some e \<Rightarrow> Inl e | None \<Rightarrow> Inr ())) (\<lambda>_.
        andThen (queryVector env cfg query) (\<lambda>v.
        andThen (validateVector v (dimensions cfg)) (\<lambda>_.
        andThen (index_search env cfg v (k_q query) (filter_q query)) (\<lambda>results.
        if includeVectors query then hydrate env cfg results else return results))))))"

definition delete :: "VectorDBConfig \<Rightarrow> string \<Rightarrow> bool action" where
  "delete cfg i =
     andThen ensureInitialized (\<lambda>_.
     wrapAll ''DELETE_ERROR''
       (andThen (if batchOptimizer cfg then batch_delete i else storage_delete i) (\<lambda>deleted.
        if deleted then
          andThen (vectorCache_delete i) (\<lambda>_.
          andThen (index_remove i) (\<lambda>_.
          return deleted))
        else return deleted)))"

definition updatedRecord ::
  "string \<Rightarrow> VectorRecord \<Rightarrow> metadata \<Rightarrow> InsertData \<Rightarrow> Tick \<Rightarrow> vec \<Rightarrow> VectorRecord" where
  "updatedRecord i existing sanitizedMetadata data tk v =
     \<lparr>id_r = i,
      vector = v,
      metadata =
        setProp ''timestamp'' (JNum (real (metadataTime tk)))
          (setProp ''content''
             (case text_d data of
                None \<Rightarrow> getProp (metadata existing) ''content''
              | Some s \<Rightarrow> JStr s)
             (spread (spread [] (metadata existing)) sanitizedMetadata)),
      timestamp = recordTime tk\<rparr>"

definition update :: "Env \<Rightarrow> VectorDBConfig \<Rightarrow> string \<Rightarrow> InsertData \<Rightarrow> Tick \<Rightarrow> bool action" where
  "update env cfg i data tk =
     andThen ensureInitialized (\<lambda>_.
     rethrow ''UPDATE_ERROR''
       (andThen (storage_get i) (\<lambda>found.
        case found of
          None \<Rightarrow> return False
        | Some existing \<Rightarrow>
            andThen (case metadata_d data of
                       Some m \<Rightarrow> lift (validateAndSanitizeMetadata env (Some m))
                     | None \<Rightarrow> return []) (\<lambda>sanitizedMetadata.
            andThen (if vector_d data \<noteq> None \<or> truthy (text_d data)
                     then prepareVector env cfg data
                     else return (vector existing)) (\<lambda>v.
            andThen (return (updatedRecord i existing sanitizedMetadata data tk v)) (\<lambda>updated.
            andThen (storage_put updated) (\<lambda>_.
            andThen (index_remove i) (\<lambda>_.
            andThen (index_add cfg updated) (\<lambda>_.
            return True)))))))))"

definition clear :: "VectorDBConfig \<Rightarrow> unit action" where
  "clear cfg =
     andThen ensureInitialized (\<lambda>_.
     wrapAll ''CLEAR_ERROR''
       (andThen (if batchOptimizer cfg then batch_flush else return ()) (\<lambda>_.
        andThen storage_clear (\<lambda>_.
        andThen index_clear (\<lambda>_.
        clearCaches)))))"

definition size_db :: "nat action" where
  "size_db = andThen ensureInitialized (\<lambda>_. wrapAll ''SIZE_ERROR'' storage_count)"

definition toExport :: "VectorRecord \<Rightarrow> ExportVector" where
  "toExport r =
     \<lparr>id_x = id_r r, vector_x = Some (vector r), metadata_x = Some (metadata r),
      timestamp_x = timestamp r\<rparr>"

definition export :: "Env \<Rightarrow> VectorDBConfig \<Rightarrow> ExportOptions \<Rightarrow> nat \<Rightarrow> ExportData action" where
  "export env cfg options now =
     andThen ensureInitialized (\<lambda>_.
     wrapAll ''EXPORT_ERROR''
       (andThen (if batchOptimizer cfg then batch_flush else return ()) (\<lambda>_.
        andThen storage_count (\<lambda>count.
        andThen streamProcess (\<lambda>scanned.
        andThen (return (foldl (\<lambda>allRecords record. allRecords @ [record]) [] scanned)) (\<lambda>allRecords.
        andThen (if includeIndex options then index_serialize env cfg else return []) (\<lambda>serializedIndex.
        return
          \<lparr>version = Some ''1.0.0'',
           config_x = cfg,
           vectors = Some (map toExport allRecords),
           index = serializedIndex,
           metadata_e = Some \<lparr>exportedAt = now, vectorCount = Some (int count),
                              dimensions_x = Some (int (dimensions cfg))\<rparr>\<rparr>)))))))"

text \<open>
  \<^verbatim>\<open>exportStream\<close> is a generator; its result here is the sequence of the items it yields.
  The visitor passed to \<^verbatim>\<open>streamProcess\<close> pushes every record onto \<^verbatim>\<open>chunk\<close> and counts
  it; when the chunk has reached the chunk size it only reports progress. After the scan
  the generator yields \<^verbatim>\<open>chunk\<close> if it is not empty.
\<close>

datatype StreamItem =
    MetadataItem string VectorDBConfig ExportMetadata
  | VectorsItem "ExportVector list"
  | IndexItem string

definition visit :: "ExportVector list \<times> nat \<Rightarrow> VectorRecord \<Rightarrow> ExportVector list \<times> nat" where
  "visit acc record = (fst acc @ [toExport record], snd acc + 1)"

definition exportStream ::
  "Env \<Rightarrow> VectorDBConfig \<Rightarrow> ExportOptions \<Rightarrow> nat \<Rightarrow> StreamItem list action" where
  "exportStream env cfg options now =
     andThen ensureInitialized (\<lambda>_.
     wrapAll ''EXPORT_STREAM_ERROR''
       (andThen (if batchOptimizer cfg then batch_flush else return ()) (\<lambda>_.
        andThen storage_count (\<lambda>count.
        andThen (return [MetadataItem ''1.0.0'' cfg
                           \<lparr>exportedAt = now, vectorCount = Some (int count),
                            dimensions_x = Some (int (dimensions cfg))\<rparr>]) (\<lambda>yielded1.
        andThen streamProcess (\<lambda>scanned.
        andThen (return (fst (foldl visit ([], 0) scanned))) (\<lambda>chunk.
        andThen (return (if chunk \<noteq> [] then yielded1 @ [VectorsItem chunk] else yielded1)) (\<lambda>yielded2.
        if includeIndex options then
          andThen (index_serialize env cfg) (\<lambda>serializedIndex.
          return (yielded2 @ [IndexItem serializedIndex]))
        else return yielded2))))))))"

definition validateExportData :: "ExportData \<Rightarrow> unit action" where
  "validateExportData data =
     (if \<not> truthy (version data) then throw (VectorDBError ''INVALID_EXPORT_DATA'')
      else if vectors data = None then throw (VectorDBError ''INVALID_EXPORT_DATA'')
      else case metadata_e data of
        None \<Rightarrow> throw (VectorDBError ''INVALID_EXPORT_DATA'')
      | Some m \<Rightarrow>
          if (case dimensions_x m of None \<Rightarrow> True | Some d \<Rightarrow> d \<le> 0)
          then throw (VectorDBError ''INVALID_EXPORT_DATA'')
          else if (case vectorCount m of None \<Rightarrow> True | Some c \<Rightarrow> c < 0)
          then throw (VectorDBError ''INVALID_EXPORT_DATA'')
          else return ())"

text \<open>
  \<^verbatim>\<open>String.prototype.split\<close> with a one-character separator, and \<^verbatim>\<open>parseInt(s, 10)\<close>:
  leading white space is skipped, a sign is read, then the longest run of decimal digits;
  the result is \<^verbatim>\<open>NaN\<close> (here \<open>None\<close>) when there is no digit. A string is a list of
  8-bit characters, the code units below 256; of these, the white space and line
  terminators that \<^verbatim>\<open>parseInt\<close> trims are TAB, LF, VT, FF, CR, the space and the
  no-break space U+00A0 (the others, U+FEFF, U+2028, U+2029 and the rest of the category
  Zs, are code units above 255).
\<close>

fun split :: "char \<Rightarrow> string \<Rightarrow> string list" where
  "split sep [] = [[]]"
| "split sep (c # cs) =
     (if c = sep then [] # split sep cs
      else (case split sep cs of [] \<Rightarrow> [[c]] | p # ps \<Rightarrow> (c # p) # ps))"

definition isWhiteSpace :: "char \<Rightarrow> bool" where
  "isWhiteSpace c =
     (c \<in> set [CHR '' '', CHR 0x09, CHR 0x0A, CHR 0x0B, CHR 0x0C, CHR 0x0D, CHR 0xA0])"

definition isDigit :: "char \<Rightarrow> bool" where
  "isDigit c = (c \<in> set ''0123456789'')"

definition digitValue :: "char \<Rightarrow> nat" where
  "digitValue c = of_char c - 48"

definition parseInt :: "string \<Rightarrow> int option" where
  "parseInt s =
     (let s1 = dropWhile isWhiteSpace s;
          negative = (case s1 of [] \<Rightarrow> False | c # _ \<Rightarrow> c = CHR ''-'');
          s2 = (case s1 of [] \<Rightarrow> [] | c # cs \<Rightarrow> if c = CHR ''-'' \<or> c = CHR ''+'' then cs else s1);
          digits = takeWhile isDigit s2
      in if digits = [] then None
         else Some ((if negative then - 1 else 1) *
                    int (foldl (\<lambda>n c. 10 * n + digitValue c) 0 digits)))"

definition validateVersionCompatibility :: "string \<Rightarrow> unit action" where
  "validateVersionCompatibility v =
     (let parts = split CHR ''.'' v in
      if length parts < 2 then throw (VectorDBError ''INVALID_VERSION'')
      else
        (let major = parseInt (parts ! 0); minor = parseInt (parts ! 1);
             currentMajor = 1; currentMinor = 0
         in if major \<noteq> Some currentMajor then throw (VectorDBError ''VERSION_INCOMPATIBLE'')
            else if (case minor of None \<Rightarrow> False | Some n \<Rightarrow> n > currentMinor)
            then (\<lambda>db. (Inr (), logCall (ConsoleWarn ''Export data is from a newer version'') db))
            else return ()))"

definition rebuildIndex :: "VectorDBConfig \<Rightarrow> unit action" where
  "rebuildIndex cfg =
     andThen storage_getAll (\<lambda>allRecords.
     andThen index_clear (\<lambda>_.
     if allRecords \<noteq> [] then index_addBatch cfg allRecords else return ()))"

text \<open>
  The conversion loop of \<^verbatim>\<open>import\<close>; \<open>clock i\<close> is the reading of \<^verbatim>\<open>Date.now()\<close> while
  record \<open>i\<close> is converted.
\<close>

fun toRecords :: "nat \<Rightarrow> (nat \<Rightarrow> nat) \<Rightarrow> nat \<Rightarrow> ExportVector list \<Rightarrow> error + VectorRecord list" where
  "toRecords D clock i [] = Inr []"
| "toRecords D clock i (v # vs) =
     (case (vector_x v, metadata_x v) of
        (Some vec, Some md) \<Rightarrow>
          if id_x v = [] then Inl (VectorDBError ''INVALID_VECTOR_RECORD'')
          else if length vec \<noteq> D then Inl DimensionMismatchError
          else (case toRecords D clock (Suc i) vs of
                  Inl e \<Rightarrow> Inl e
                | Inr records \<Rightarrow>
                    Inr (\<lparr>id_r = id_x v, vector = vec, metadata = md,
                          timestamp = (if timestamp_x v = 0 then clock i else timestamp_x v)\<rparr>
                         # records))
      | _ \<Rightarrow> Inl (VectorDBError ''INVALID_VECTOR_RECORD''))"

definition restoreIndex :: "Env \<Rightarrow> VectorDBConfig \<Rightarrow> string \<Rightarrow> unit action" where
  "restoreIndex env cfg serialized db =
     (if serialized \<noteq> [] then
        (case index_deserialize env cfg serialized db of
           (Inl e, db1) \<Rightarrow>
             rebuildIndex cfg
               (logCall (ConsoleWarn ''Failed to deserialize index, rebuilding from vectors...'') db1)
         | (Inr u, db1) \<Rightarrow> (Inr u, db1))
      else rebuildIndex cfg db)"

definition importData ::
  "Env \<Rightarrow> VectorDBConfig \<Rightarrow> ExportData \<Rightarrow> ImportOptions \<Rightarrow> (nat \<Rightarrow> nat) \<Rightarrow> unit action" where
  "importData env cfg data options clock =
     andThen (case metadata_e data of
                None \<Rightarrow> throw (OtherError ''TypeError'')
              | Some m \<Rightarrow>
                  if dimensions_x m \<noteq> Some (int (dimensions cfg))
                  then throw DimensionMismatchError else return m) (\<lambda>m.
     andThen (case vectors data of
                None \<Rightarrow> throw (OtherError ''TypeError'')
              | Some vs \<Rightarrow>
                  if Some (int (length vs)) \<noteq> vectorCount m
                  then throw (VectorDBError ''INVALID_EXPORT_DATA'') else return vs) (\<lambda>vs.
     andThen (if clearExisting options then clear cfg else return ()) (\<lambda>_.
     andThen (lift (toRecords (dimensions cfg) clock 0 vs)) (\<lambda>records.
     andThen (importInBatches cfg records) (\<lambda>_.
     restoreIndex env cfg (index data))))))"

text \<open>
  \<^verbatim>\<open>import\<close>: the schema and version checks, then \<open>importData\<close>, the rest of the
  \<^verbatim>\<open>try\<close> block (the dimension and count checks, the optional \<^verbatim>\<open>clear\<close>, the conversion
  loop, the batched write and the restoration of the index). A missing field read with
  schema validation switched off is a \<^verbatim>\<open>TypeError\<close>.
\<close>

definition import ::
  "Env \<Rightarrow> VectorDBConfig \<Rightarrow> ExportData \<Rightarrow> ImportOptions \<Rightarrow> (nat \<Rightarrow> nat) \<Rightarrow> unit action" where
  "import env cfg data options clock =
     andThen ensureInitialized (\<lambda>_.
     rethrow ''IMPORT_ERROR''
       (andThen (if validateSchema options then validateExportData data else return ()) (\<lambda>_.
        andThen (case version data of
                   None \<Rightarrow> throw (OtherError ''TypeError'')
                 | Some v \<Rightarrow> validateVersionCompatibility v) (\<lambda>_.
        importData env cfg data options clock))))"

text \<open>
  \<^verbatim>\<open>initialize\<close> on a backing store that holds no records: Storage and the index start
  empty. Unless models are loaded lazily the new embedding generator is initialized and
  the optimizer is told so (\<^verbatim>\<open>markModelsLoaded\<close>); then, if the optimizer reports the models
  loaded, the generator's dimensions are compared with the configured ones. With lazy
  loading the new generator is not initialized, so that \<^verbatim>\<open>getDimensions\<close> throws when the
  optimizer already reports the models loaded. Any failure is surfaced as \<^verbatim>\<open>INIT_ERROR\<close>
  after \<^verbatim>\<open>cleanup\<close>, which does not touch the optimizer.
\<close>

definition newVectorDB :: VectorDB where
  "newVectorDB =
     \<lparr>initialized = False, storage = [], indexManager = [], vectorCache = [],
      embeddingCache = [], modelsLoaded = False, calls = []\<rparr>"

definition initialize_db :: "Env \<Rightarrow> VectorDBConfig \<Rightarrow> unit action" where
  "initialize_db env cfg db =
     (if initialized db then (Inr (), db)
      else if lazyLoadModels cfg then
        (if modelsLoaded db then (Inl (VectorDBError ''INIT_ERROR''), db)
         else (Inr (), db\<lparr>initialized := True\<rparr>))
      else (case generatorInitialize env of
              Inl e \<Rightarrow> (Inl (VectorDBError ''INIT_ERROR''), db)
            | Inr embeddingDimensions \<Rightarrow>
                if embeddingDimensions \<noteq> dimensions cfg
                then (Inl (VectorDBError ''INIT_ERROR''), db\<lparr>modelsLoaded := True\<rparr>)
                else (Inr (), db\<lparr>modelsLoaded := True, initialized := True\<rparr>)))"

text \<open>
  The conditions under which \<^verbatim>\<open>validateExportData\<close> lets an envelope pass, and the parts
  of a version string as \<^verbatim>\<open>validateVersionCompatibility\<close> splits it.
\<close>

definition schemaValid :: "ExportData \<Rightarrow> bool" where
  "schemaValid data =
     (truthy (version data) \<and> vectors data \<noteq> None \<and>
      (case metadata_e data of
         None \<Rightarrow> False
       | Some m \<Rightarrow>
           (case dimensions_x m of None \<Rightarrow> False | Some d \<Rightarrow> 0 < d) \<and>
           (case vectorCount m of None \<Rightarrow> False | Some c \<Rightarrow> 0 \<le> c)))"

definition versionParts :: "string \<Rightarrow> string list" where
  "versionParts v = split CHR ''.'' v"

text \<open>
  What a caller can observe of the state: the stored records, the members of the index
  and the two caches.
\<close>

definition observable ::
  "VectorDB \<Rightarrow> VectorRecord list \<times> VectorRecord list \<times> (string \<times> VectorRecord \<times> nat) list \<times>
   (string \<times> vec) list" where
  "observable db = (storage db, indexManager db, vectorCache db, embeddingCache db)"

text \<open>
  In \<^verbatim>\<open>update\<close>: the sanitized metadata of the partial document (\<^verbatim>\<open>{}\<close> when it has
  none), and whether the vector is prepared anew (\<^verbatim>\<open>data.vector || data.text\<close>).
\<close>

definition sanitizedFor :: "Env \<Rightarrow> InsertData \<Rightarrow> error + metadata" where
  "sanitizedFor env data =
     (case metadata_d data of
        Some m \<Rightarrow> validateAndSanitizeMetadata env (Some m)
      | None \<Rightarrow> Inr [])"

definition regenerates :: "InsertData \<Rightarrow> bool" where
  "regenerates data = (vector_d data \<noteq> None \<or> truthy (text_d data))"

text \<open>
  The two reserved metadata fields of a record: \<^verbatim>\<open>content\<close> holds \<open>c\<close> and
  \<^verbatim>\<open>timestamp\<close> holds the time \<open>t\<close>.
\<close>

definition systemFields :: "VectorRecord \<Rightarrow> json \<Rightarrow> nat \<Rightarrow> bool" where
  "systemFields r c t =
     (map_of (metadata r) ''content'' = Some c \<and>
      map_of (metadata r) ''timestamp'' = Some (JNum (real t)))"

text \<open>
  Conditions on the inputs of \<^verbatim>\<open>import\<close> and \<^verbatim>\<open>insertBatch\<close>: a version string that
  passes \<^verbatim>\<open>validateVersionCompatibility\<close>, and the state after that check (with the
  warning logged when the minor version is newer); an envelope record that passes the
  check \<^verbatim>\<open>!v.id || !v.vector || !v.metadata\<close>, and one whose vector has the wrong length;
  a batch item that carries a vector, one whose vector has the wrong length, and one whose
  metadata the validator accepts.
\<close>

definition versionAccepted :: "string \<Rightarrow> bool" where
  "versionAccepted v =
     (2 \<le> length (versionParts v) \<and> parseInt (versionParts v ! 0) = Some 1)"

definition afterVersionCheck :: "string \<Rightarrow> VectorDB \<Rightarrow> VectorDB" where
  "afterVersionCheck v db =
     (if (case parseInt (versionParts v ! 1) of None \<Rightarrow> False | Some n \<Rightarrow> 0 < n)
      then logCall (ConsoleWarn ''Export data is from a newer version'') db else db)"

definition wellFormedVector :: "ExportVector \<Rightarrow> bool" where
  "wellFormedVector v = (id_x v \<noteq> [] \<and> vector_x v \<noteq> None \<and> metadata_x v \<noteq> None)"

definition wrongLength :: "nat \<Rightarrow> ExportVector \<Rightarrow> bool" where
  "wrongLength D v = (case vector_x v of None \<Rightarrow> False | Some x \<Rightarrow> length x \<noteq> D)"

definition hasVector :: "InsertData \<times> Tick \<Rightarrow> bool" where
  "hasVector item = (vector_d (fst item) \<noteq> None)"

definition wrongVector :: "nat \<Rightarrow> InsertData \<times> Tick \<Rightarrow> bool" where
  "wrongVector D item = (case vector_d (fst item) of None \<Rightarrow> False | Some x \<Rightarrow> length x \<noteq> D)"

definition sanitizes :: "Env \<Rightarrow> InsertData \<times> Tick \<Rightarrow> bool" where
  "sanitizes env item =
     (case validateAndSanitizeMetadata env (metadata_d (fst item)) of
        Inl _ \<Rightarrow> False | Inr _ \<Rightarrow> True)"

text \<open>
  A serialized index that \<^verbatim>\<open>deserialize\<close> rejects; a record of the configured dimension;
  and the state \<^verbatim>\<open>import\<close> works on after its optional \<^verbatim>\<open>clear()\<close>.
\<close>

definition deserializeFails :: "Env \<Rightarrow> VectorDBConfig \<Rightarrow> string \<Rightarrow> bool" where
  "deserializeFails env cfg s =
     (case decodeIndex env s of None \<Rightarrow> True | Some (d, rs) \<Rightarrow> d \<noteq> dimensions cfg)"

definition hasDimension :: "nat \<Rightarrow> VectorRecord \<Rightarrow> bool" where
  "hasDimension D r = (length (vector r) = D)"

definition afterClear :: "VectorDBConfig \<Rightarrow> ImportOptions \<Rightarrow> VectorDB \<Rightarrow> VectorDB" where
  "afterClear cfg options db =
     (if clearExisting options then snd (clear cfg db) else db)"

section \<open>States reachable by insertion\<close>

text \<open>
  A stored record as \<^verbatim>\<open>insert\<close> and \<^verbatim>\<open>insertBatch\<close> write it: a non-empty id, a vector
  of the configured dimension, a timestamp that is not 0. The vector cache is coherent
  when an entry under the id of a stored record holds that record; the embedding cache
  is sound when every entry is what the generator returns for its text, which it only
  can be once the models are loaded.
\<close>

definition storedWell :: "nat \<Rightarrow> VectorRecord \<Rightarrow> bool" where
  "storedWell D r = (id_r r \<noteq> [] \<and> length (vector r) = D \<and> timestamp r \<noteq> 0)"

definition cacheCoherent :: "VectorDB \<Rightarrow> bool" where
  "cacheCoherent db =
     (\<forall>e\<in>set (vectorCache db). \<forall>r\<in>set (storage db). id_r r = fst e \<longrightarrow> r = fst (snd e))"

definition embeddingsSound :: "Env \<Rightarrow> VectorDBConfig \<Rightarrow> VectorDB \<Rightarrow> bool" where
  "embeddingsSound env cfg db =
     (\<forall>e\<in>set (embeddingCache db).
        length (snd e) = dimensions cfg \<and> embed env (fst e) = Inr (snd e) \<and> modelsLoaded db)"

text \<open>
  The invariant of the coordinator between operations: Storage holds one record per id,
  each well-formed, and the index holds exactly the stored records.
\<close>

definition invariant :: "Env \<Rightarrow> VectorDBConfig \<Rightarrow> VectorDB \<Rightarrow> bool" where
  "invariant env cfg db =
     (initialized db \<and> 0 < dimensions cfg \<and> distinct (map id_r (storage db)) \<and>
      list_all (storedWell (dimensions cfg)) (storage db) \<and>
      indexManager db = storage db \<and> cacheCoherent db \<and> embeddingsSound env cfg db)"

text \<open>
  The readings an insertion takes from outside: \<^verbatim>\<open>Date.now()\<close> is positive, and the id
  built from the clock and \<^verbatim>\<open>Math.random()\<close> is new, to Storage and to the vector cache
  (within a batch the ids differ from each other). The reachable states are those that
  \<^verbatim>\<open>initialize\<close> produces on a valid configuration and an empty backing store, closed
  under \<^verbatim>\<open>insert\<close> and \<^verbatim>\<open>insertBatch\<close> with such readings, whether the call succeeds or
  throws.
\<close>

definition freshTick :: "VectorDB \<Rightarrow> Tick \<Rightarrow> bool" where
  "freshTick db tk =
     (0 < recordTime tk \<and> generateId tk \<notin> id_r ` set (storage db) \<and>
      generateId tk \<notin> fst ` set (vectorCache db))"

definition freshTicks :: "VectorDB \<Rightarrow> Tick list \<Rightarrow> bool" where
  "freshTicks db tks = (list_all (freshTick db) tks \<and> distinct (map generateId tks))"

inductive reachable :: "Env \<Rightarrow> VectorDBConfig \<Rightarrow> VectorDB \<Rightarrow> bool" for env cfg where
  start: "validateConfig cfg = None \<Longrightarrow> initialize_db env cfg newVectorDB = (Inr (), db) \<Longrightarrow>
            reachable env cfg db"
| insert: "reachable env cfg db \<Longrightarrow> freshTick db tk \<Longrightarrow>
            insert_db env cfg data tk db = (r, db') \<Longrightarrow> reachable env cfg db'"
| insertBatch: "reachable env cfg db \<Longrightarrow> freshTicks db (map snd items) \<Longrightarrow>
            insertBatch env cfg items db = (rs, db') \<Longrightarrow> reachable env cfg db'"

section \<open>Concrete databases\<close>

text \<open>
  A three-dimensional cosine database as in scenario S1, with identity sanitization, a
  generator that embeds every text as \<open>(1,0,0)\<close>, the dot product as similarity, an
  index format whose only well-formed string is \<open>''idx''\<close>, and 16 as the length of the
  JSON text of any metadata (that of \<^verbatim>\<open>{"timestamp":17}\<close>, the metadata of a record
  inserted without text or metadata).
\<close>

definition tick1 :: Tick where
  "tick1 = \<lparr>idTime = 17, idRandom = ''abc'', metadataTime = 17, recordTime = 18\<rparr>"

definition tick2 :: Tick where
  "tick2 = \<lparr>idTime = 19, idRandom = ''abd'', metadataTime = 19, recordTime = 19\<rparr>"

definition tick3 :: Tick where
  "tick3 = \<lparr>idTime = 20, idRandom = ''abe'', metadataTime = 20, recordTime = 20\<rparr>"

definition byVector :: "vec \<Rightarrow> InsertData" where
  "byVector v = \<lparr>vector_d = Some v, text_d = None, metadata_d = None\<rparr>"

definition demoRecord :: "Tick \<Rightarrow> vec \<Rightarrow> VectorRecord" where
  "demoRecord tk v = newRecord [] (byVector v) tk v"

definition demoEnv :: Env where
  "demoEnv =
     \<lparr>validateAndSanitizeMetadata = (\<lambda>m. Inr (case m of None \<Rightarrow> [] | Some x \<Rightarrow> x)),
      validateSearchQuery = (\<lambda>n. if n = 0 then Some (VectorDBError ''VALIDATION_ERROR'') else None),
      generatorInitialize = Inr 3,
      embed = (\<lambda>t. Inr [1, 0, 0]),
      similarity = (\<lambda>a b. sum_list (map2 (*) a b)),
      jsonLength = (\<lambda>m. 16),
      encodeIndex = (\<lambda>x. ''idx''),
      decodeIndex = (\<lambda>s. if s = ''idx'' then Some (3, [demoRecord tick1 [1, 0, 0]]) else None)\<rparr>"

definition demoConfig :: VectorDBConfig where
  "demoConfig =
     \<lparr>dbName = ''test'', dimensions = 3, metric = cosine, model = ''m'', chunkSize = 2,
      lazyLoadModels = False, cacheBytes = 1000, embeddingCacheEntries = 10,
      batchOptimizer = True\<rparr>"

definition emptyDB :: VectorDB where
  "emptyDB = newVectorDB\<lparr>modelsLoaded := True, initialized := True\<rparr>"

definition queryBy :: "vec \<Rightarrow> nat \<Rightarrow> SearchQuery" where
  "queryBy v n = \<lparr>vector_q = Some v, text_q = None, k_q = n, filter_q = None, includeVectors = False\<rparr>"

definition defaultImport :: ImportOptions where
  "defaultImport = \<lparr>validateSchema = True, clearExisting = True\<rparr>"

definition defaultExport :: ExportOptions where
  "defaultExport = \<lparr>includeIndex = True\<rparr>"

definition envelope :: "string \<Rightarrow> nat \<Rightarrow> ExportVector list \<Rightarrow> string \<Rightarrow> ExportData" where
  "envelope v d vs ix =
     \<lparr>version = Some v, config_x = demoConfig, vectors = Some vs, index = ix,
      metadata_e = Some \<lparr>exportedAt = 50, vectorCount = Some (int (length vs)),
                         dimensions_x = Some (int d)\<rparr>\<rparr>"

definition fixedClock :: "nat \<Rightarrow> nat" where
  "fixedClock i = 77"

text \<open>
  The database after one insertion, and after a batch of the three unit vectors of
  scenario S1 (more records than the configured chunk size of 2).
\<close>

definition oneDB :: VectorDB where
  "oneDB = snd (insert_db demoEnv demoConfig (byVector [1, 0, 0]) tick1 emptyDB)"

definition threeDB :: VectorDB where
  "threeDB =
     snd (insertBatch demoEnv demoConfig
       [(byVector [1, 0, 0], tick1), (byVector [0, 1, 0], tick2), (byVector [0, 0, 1], tick3)]
       emptyDB)"

definition retitle :: InsertData where
  "retitle = \<lparr>vector_d = None, text_d = None,
     metadata_d = Some [(''title'', JStr ''Updated''), (''content'', JStr ''mine'')]\<rparr>"

text \<open>
  A document whose metadata tries to set the reserved fields, and a database that has
  imported a record whose metadata carries a \<^verbatim>\<open>content\<close> of the exporter's choosing.
\<close>

definition mine :: InsertData where
  "mine = \<lparr>vector_d = Some [1, 0, 0], text_d = Some ''hello'',
     metadata_d = Some [(''content'', JStr ''mine''), (''timestamp'', JNum 1)]\<rparr>"

definition foreignVector :: ExportVector where
  "foreignVector = \<lparr>id_x = ''a'', vector_x = Some [1, 0, 0],
     metadata_x = Some [(''content'', JStr ''from-envelope'')], timestamp_x = 5\<rparr>"

definition importedDB :: VectorDB where
  "importedDB =
     snd (import demoEnv demoConfig (envelope ''1.0.0'' 3 [foreignVector] []) defaultImport
            fixedClock emptyDB)"

text \<open>Inputs with a two-dimensional vector for the three-dimensional database.\<close>

definition shortVector :: ExportVector where
  "shortVector = \<lparr>id_x = ''b'', vector_x = Some [0, 1], metadata_x = Some [], timestamp_x = 5\<rparr>"

definition keepExisting :: ImportOptions where
  "keepExisting = \<lparr>validateSchema = True, clearExisting = False\<rparr>"

definition mixedBatch :: "(InsertData \<times> Tick) list" where
  "mixedBatch = [(byVector [0, 1, 0], tick2), (byVector [0, 1], tick3)]"

definition byText :: "string \<Rightarrow> InsertData" where
  "byText t = \<lparr>vector_d = None, text_d = Some t, metadata_d = None\<rparr>"

definition textBatch :: "(InsertData \<times> Tick) list" where
  "textBatch = [(byText ''hello'', tick2), (byVector [0, 1], tick3)]"

text \<open>
  Scenario S6: the export of \<open>oneDB\<close> with its \<^verbatim>\<open>index\<close> field overwritten by garbage.
\<close>

definition corruptedExport :: ExportData where
  "corruptedExport =
     envelope ''1.0.0'' 3 [toExport (demoRecord tick1 [1, 0, 0])] ''corrupted-index-data''"

section \<open>Properties of the embedding model load\<close>


lemma loads_append [simp]: "loads (xs @ ys) = loads xs @ loads ys" by (simp add: loads_def)
lemma sleeps_append [simp]: "sleeps (xs @ ys) = sleeps xs @ sleeps ys" by (simp add: sleeps_def)
lemma loads_Cons [simp]: "loads [] = []" "loads (LoadPipeline d # es) = d # loads es"
  "loads (Sleep n # es) = loads es" "loads (Warn w # es) = loads es"
  by (simp_all add: loads_def)
lemma sleeps_Cons [simp]: "sleeps [] = []" "sleeps (LoadPipeline d # es) = sleeps es"
  "sleeps (Sleep n # es) = n # sleeps es" "sleeps (Warn w # es) = sleeps es"
  by (simp_all add: sleeps_def)










lemma backoff_device [simp]: "backoff (c\<lparr>device_e := d\<rparr>) = backoff c"
  by (rule ext) (simp add: backoff_def)




section \<open>Properties of the coordinator\<close>

lemma andThen_Inr: "m db = (Inr x, db1) \<Longrightarrow> andThen m f db = f x db1"
  by (simp add: andThen_def)

lemma andThen_Inl: "m db = (Inl e, db1) \<Longrightarrow> andThen m f db = (Inl e, db1)"
  by (simp add: andThen_def)

lemma andThen_return [simp]: "andThen (return x) f = f x"
  by (rule ext) (simp add: andThen_def return_def)

lemma andThen_throw [simp]: "andThen (throw e) f = throw e"
  by (rule ext) (simp add: andThen_def throw_def)

lemma rethrow_Inr: "m db = (Inr x, db1) \<Longrightarrow> rethrow c m db = (Inr x, db1)"
  by (simp add: rethrow_def)

lemma rethrow_Inl:
  "m db = (Inl e, db1) \<Longrightarrow> isVectorDBError e \<Longrightarrow> rethrow c m db = (Inl e, db1)"
  by (simp add: rethrow_def)

lemma ensureInitialized_ok [simp]: "initialized db \<Longrightarrow> ensureInitialized db = (Inr (), db)"
  by (simp add: ensureInitialized_def)

lemma bindI: "m db = (Inr x, db1) \<Longrightarrow> f x db1 = r \<Longrightarrow> andThen m f db = r"
  by (simp add: andThen_def)

text \<open>Objects: assignment and spread, seen through lookup.\<close>

lemma map_of_setProp: "map_of (setProp k v m) = (map_of m)(k \<mapsto> v)"
  by (induction m) (auto simp: fun_eq_iff)

lemma map_of_spread: "map_of (spread a b) = map_of a ++ map_of (rev b)"
proof (induction b arbitrary: a)
  case Nil
  then show ?case by simp
next
  case (Cons p ps)
  have "map_of (spread a (p # ps)) = map_of (setProp (fst p) (snd p) a) ++ map_of (rev ps)"
    using Cons.IH by simp
  also have "\<dots> = map_of a ++ (map_of [p] ++ map_of (rev ps))"
    by (cases p) (simp add: map_of_setProp map_add_def fun_eq_iff split: option.splits)
  finally show ?case by (simp add: map_of_append)
qed

text \<open>What the steps of an insertion leave alone, and what a successful operation did.\<close>

lemma getCachedEmbedding_frame:
  "getCachedEmbedding t db = (r, db1) \<Longrightarrow>
     storage db1 = storage db \<and> indexManager db1 = indexManager db \<and>
     vectorCache db1 = vectorCache db \<and> calls db1 = calls db \<and>
     initialized db1 = initialized db \<and> modelsLoaded db1 = modelsLoaded db"
  by (auto simp: getCachedEmbedding_def split: option.splits)

lemma ensureModelsLoaded_frame:
  "ensureModelsLoaded env cfg db = (r, db1) \<Longrightarrow>
     storage db1 = storage db \<and> indexManager db1 = indexManager db \<and>
     vectorCache db1 = vectorCache db \<and> calls db1 = calls db \<and>
     initialized db1 = initialized db \<and> embeddingCache db1 = embeddingCache db"
  by (auto simp: ensureModelsLoaded_def split: sum.splits if_splits)

lemma embedText_frame:
  "embedText env cfg t db = (r, db1) \<Longrightarrow>
     storage db1 = storage db \<and> indexManager db1 = indexManager db \<and>
     vectorCache db1 = vectorCache db \<and> calls db1 = calls db \<and>
     initialized db1 = initialized db"
  by (auto simp: embedText_def andThen_def lift_def validateVector_def throw_def return_def
      cacheEmbedding_def Let_def
      dest!: ensureModelsLoaded_frame split: sum.splits prod.splits if_splits)

lemma prepareVector_frame:
  "prepareVector env cfg data db = (r, db1) \<Longrightarrow>
     storage db1 = storage db \<and> indexManager db1 = indexManager db \<and>
     vectorCache db1 = vectorCache db \<and> calls db1 = calls db \<and>
     initialized db1 = initialized db"
  by (auto simp: prepareVector_def andThen_def validateVector_def throw_def return_def
      dest!: embedText_frame getCachedEmbedding_frame
      split: option.splits sum.splits prod.splits if_splits)

lemma insert_db_Inr:
  assumes "insert_db env cfg data tk db = (Inr i, db')"
  shows "\<exists>sm v db1. validateAndSanitizeMetadata env (metadata_d data) = Inr sm \<and>
     prepareVector env cfg data db = (Inr v, db1) \<and> length v = dimensions cfg \<and>
     initialized db \<and> i = generateId tk \<and>
     db' = db1\<lparr>
       storage := st_put (newRecord sm data tk v) (storage db1),
       vectorCache := vc_set (cacheBytes cfg) i (newRecord sm data tk v)
          (recordSize env (newRecord sm data tk v)) (vectorCache db1),
       indexManager := indexManager db1 @ [newRecord sm data tk v],
       calls := calls db1 @
         [if batchOptimizer cfg then CoalescerPut i else StoragePut i, CacheSet i, IndexAdd i]\<rparr>"
  using assms
  apply (simp add: insert_db_def andThen_def rethrow_def ensureInitialized_def lift_def
      split: if_splits sum.splits prod.splits)
  apply (auto simp: batch_put_def storage_put_def vectorCache_set_def index_add_def ix_add_def
      logCall_def return_def newRecord_def split: if_splits sum.splits prod.splits)
  done


lemma prepareRecords_frame:
  "prepareRecords env cfg items db = (r, db1) \<Longrightarrow>
     storage db1 = storage db \<and> indexManager db1 = indexManager db \<and>
     initialized db1 = initialized db"
proof (induction items arbitrary: db r db1)
  case Nil
  then show ?case by (simp add: return_def)
next
  case (Cons item rest)
  then show ?case
    by (auto simp: andThen_def lift_def return_def vectorCache_set_def logCall_def
        dest!: prepareVector_frame split: sum.splits prod.splits)
qed

lemma systemFields_newRecord:
  "systemFields (newRecord sm data tk v) (textJson (text_d data)) (metadataTime tk)"
  by (simp add: systemFields_def newRecord_def map_of_setProp)

lemma prepareRecords_Inr:
  "prepareRecords env cfg items db = (Inr records, db1) \<Longrightarrow>
     list_all2 (\<lambda>r item. \<exists>sm v. r = newRecord sm (fst item) (snd item) v \<and>
        validateAndSanitizeMetadata env (metadata_d (fst item)) = Inr sm) records items"
proof (induction items arbitrary: db records db1)
  case Nil
  then show ?case by (simp add: return_def)
next
  case (Cons item rest)
  then show ?case
    by (auto simp: andThen_def lift_def return_def vectorCache_set_def logCall_def
        split: sum.splits prod.splits)
qed

lemma insertBatch_Inr:
  assumes "insertBatch env cfg items db = (Inr ids, db')" and "items \<noteq> []"
  shows "\<exists>records db1. prepareRecords env cfg items db = (Inr records, db1) \<and>
     ids = map id_r records \<and> initialized db \<and>
     list_all (\<lambda>r. length (vector r) = dimensions cfg) records \<and>
     db' = db1\<lparr>storage := st_putBatch records (storage db1),
               indexManager := indexManager db1 @ records,
               calls := calls db1 @ [StoragePutBatch ids, IndexAddBatch ids]\<rparr>"
  using assms
  apply (simp add: insertBatch_def andThen_def rethrow_def ensureInitialized_def
      split: if_splits sum.splits prod.splits)
  apply (auto simp: storage_putBatch_def index_addBatch_def ix_addBatch_def logCall_def
      return_def list_ex_iff list_all_iff split: if_splits sum.splits prod.splits)
  done

lemma st_get_put: "id_r r = i \<Longrightarrow> st_get i (st_put r s) = Some r"
  by (induction s) (auto simp: st_get_def)

lemma systemFields_updatedRecord:
  "systemFields (updatedRecord i existing sm data tk v)
     (case text_d data of None \<Rightarrow> getProp (metadata existing) ''content'' | Some s \<Rightarrow> JStr s)
     (metadataTime tk)"
  by (simp add: systemFields_def updatedRecord_def map_of_setProp)

lemma id_r_updatedRecord [simp]: "id_r (updatedRecord i existing sm data tk v) = i"
  by (simp add: updatedRecord_def)

lemma update_True:
  assumes "update env cfg i data tk db = (Inr True, db')"
  shows "\<exists>existing r. st_get i (storage db) = Some existing \<and>
     st_get i (storage db') = Some r \<and>
     systemFields r
       (case text_d data of None \<Rightarrow> getProp (metadata existing) ''content'' | Some s \<Rightarrow> JStr s)
       (metadataTime tk)"
  using assms
  apply (simp add: update_def andThen_def rethrow_def ensureInitialized_def storage_get_def
      split: if_split_asm sum.split_asm prod.split_asm option.split_asm)
  apply (auto simp: storage_put_def index_remove_def index_add_def ix_add_def logCall_def
      return_def lift_def st_get_put systemFields_updatedRecord
      dest!: prepareVector_frame
      split: if_split_asm sum.split_asm prod.split_asm option.split_asm)
  done

text \<open>Search: hydration keeps the results' ids; an unbounded search returns every member.\<close>

lemma getVector_ok:
  "\<exists>found db1. getVector env cfg i db = (Inr found, db1) \<and> storage db1 = storage db \<and>
     indexManager db1 = indexManager db \<and> initialized db1 = initialized db"
  by (auto simp: getVector_def andThen_def storage_get_def vectorCache_set_def return_def
      logCall_def split: option.splits)

lemma hydrate_ok:
  "\<exists>rs' db1. hydrate env cfg rs db = (Inr rs', db1) \<and> map id_s rs' = map id_s rs"
proof (induction rs arbitrary: db)
  case Nil
  then show ?case by (simp add: return_def)
next
  case (Cons r rs)
  obtain found db1 where g: "getVector env cfg (id_s r) db = (Inr found, db1)"
    using getVector_ok by blast
  obtain rs' db2 where h: "hydrate env cfg rs db1 = (Inr rs', db2)" "map id_s rs' = map id_s rs"
    using Cons.IH by blast
  show ?case
    using g h by (auto simp: andThen_def return_def split: option.splits)
qed


text \<open>Import: the checks before the data is touched, and the conversion loop.\<close>

lemma validateExportData_eq:
  "validateExportData data db =
     (if schemaValid data then (Inr (), db) else (Inl (VectorDBError ''INVALID_EXPORT_DATA''), db))"
  by (auto simp: validateExportData_def schemaValid_def throw_def return_def
      split: option.splits)

lemma validateVersionCompatibility_eq:
  "validateVersionCompatibility v db =
     (if length (versionParts v) < 2 then (Inl (VectorDBError ''INVALID_VERSION''), db)
      else if parseInt (versionParts v ! 0) \<noteq> Some 1
        then (Inl (VectorDBError ''VERSION_INCOMPATIBLE''), db)
      else if (case parseInt (versionParts v ! 1) of None \<Rightarrow> False | Some n \<Rightarrow> 0 < n)
        then (Inr (), logCall (ConsoleWarn ''Export data is from a newer version'') db)
      else (Inr (), db))"
  by (simp add: validateVersionCompatibility_def versionParts_def Let_def throw_def return_def)

lemma observable_logCall [simp]: "observable (logCall c db) = observable db"
  by (simp add: observable_def logCall_def)

lemma observable_afterVersionCheck [simp]: "observable (afterVersionCheck v db) = observable db"
  by (simp add: afterVersionCheck_def)

lemma initialized_afterVersionCheck [simp]:
  "initialized (afterVersionCheck v db) = initialized db"
  by (simp add: afterVersionCheck_def logCall_def)

lemma import_checked:
  assumes "initialized db" "validateSchema options \<longrightarrow> schemaValid data"
    "version data = Some ver" "versionAccepted ver"
  shows "import env cfg data options clock db =
     rethrow ''IMPORT_ERROR'' (importData env cfg data options clock) (afterVersionCheck ver db)"
  using assms
  by (auto simp: import_def andThen_def rethrow_def validateExportData_eq
      validateVersionCompatibility_eq versionAccepted_def afterVersionCheck_def return_def)

lemma toRecords_wrong:
  "list_all wellFormedVector vs \<Longrightarrow> list_ex (wrongLength D) vs \<Longrightarrow>
     toRecords D clock n vs = Inl DimensionMismatchError"
proof (induction vs arbitrary: n)
  case Nil
  then show ?case by simp
next
  case (Cons v vs)
  then show ?case
    by (cases "vector_x v"; cases "metadata_x v")
      (auto simp: wellFormedVector_def wrongLength_def split: sum.splits)
qed

lemma clear_ok:
  "initialized db \<Longrightarrow> clear cfg db =
     (Inr (), (if batchOptimizer cfg then logCall CoalescerFlush db else db)
        \<lparr>storage := [], indexManager := [], vectorCache := [], embeddingCache := [],
         calls := calls (if batchOptimizer cfg then logCall CoalescerFlush db else db) @
           [StorageClear, IndexClear, ClearCaches]\<rparr>)"
  by (simp add: clear_def andThen_def wrapAll_def batch_flush_def storage_clear_def
      index_clear_def clearCaches_def return_def logCall_def)

lemma importData_dimensions:
  assumes "metadata_e data = Some m" "dimensions_x m \<noteq> Some (int (dimensions cfg))"
  shows "importData env cfg data options clock db = (Inl DimensionMismatchError, db)"
  using assms by (simp add: importData_def andThen_def throw_def)

lemma importData_record:
  assumes "initialized db" "metadata_e data = Some m"
    "dimensions_x m = Some (int (dimensions cfg))"
    "vectors data = Some vs" "vectorCount m = Some (int (length vs))"
    "list_all wellFormedVector vs" "list_ex (wrongLength (dimensions cfg)) vs"
  shows "fst (importData env cfg data options clock db) = Inl DimensionMismatchError"
    and "\<not> clearExisting options \<Longrightarrow>
      importData env cfg data options clock db = (Inl DimensionMismatchError, db)"
  using assms toRecords_wrong [of vs "dimensions cfg" clock 0]
  by (simp_all add: importData_def andThen_def throw_def return_def lift_def clear_ok)

lemma prepareRecords_wrong:
  "list_all hasVector items \<Longrightarrow> list_all (sanitizes env) items \<Longrightarrow>
   list_ex (wrongVector (dimensions cfg)) items \<Longrightarrow>
     \<exists>db1. prepareRecords env cfg items db = (Inl DimensionMismatchError, db1) \<and>
       storage db1 = storage db \<and> indexManager db1 = indexManager db \<and>
       embeddingCache db1 = embeddingCache db"
proof (induction items arbitrary: db)
  case Nil
  then show ?case by simp
next
  case (Cons item rest)
  obtain v where v: "vector_d (fst item) = Some v"
    using Cons.prems(1) by (auto simp: hasVector_def)
  obtain sm where sm: "validateAndSanitizeMetadata env (metadata_d (fst item)) = Inr sm"
    using Cons.prems(2) by (auto simp: sanitizes_def split: sum.splits)
  show ?case
  proof (cases "length v = dimensions cfg")
    case False
    then show ?thesis
      using v sm
      by (simp add: andThen_def lift_def prepareVector_def validateVector_def throw_def)
  next
    case True
    then have "list_ex (wrongVector (dimensions cfg)) rest"
      using Cons.prems(3) v by (auto simp: wrongVector_def list_ex_iff)
    from Cons.IH [OF _ _ this] Cons.prems obtain db1 where
      "prepareRecords env cfg rest
         (logCall (CacheSet (generateId (snd item)))
           (db\<lparr>vectorCache := vc_set (cacheBytes cfg) (generateId (snd item))
              (newRecord sm (fst item) (snd item) v)
              (recordSize env (newRecord sm (fst item) (snd item) v)) (vectorCache db)\<rparr>)) =
        (Inl DimensionMismatchError, db1)"
      "storage db1 = storage db" "indexManager db1 = indexManager db"
      "embeddingCache db1 = embeddingCache db"
      by (fastforce simp: logCall_def)
    then show ?thesis
      using v sm True
      by (simp add: andThen_def lift_def prepareVector_def validateVector_def return_def
          vectorCache_set_def newRecord_def)
  qed
qed

text \<open>
  One step of the loop of \<^verbatim>\<open>insertBatch\<close>, by cases; a batch with a vector of the wrong
  length in some item is not prepared.
\<close>

lemma prepareRecords_Cons_cases:
  obtains (bad_metadata) e where
      "validateAndSanitizeMetadata env (metadata_d (fst item)) = Inl e"
      "prepareRecords env cfg (item # rest) db = (Inl e, db)"
  | (bad_vector) sm e dbp where
      "validateAndSanitizeMetadata env (metadata_d (fst item)) = Inr sm"
      "prepareVector env cfg (fst item) db = (Inl e, dbp)"
      "prepareRecords env cfg (item # rest) db = (Inl e, dbp)"
  | (prepared) sm v dbp res db2 where
      "validateAndSanitizeMetadata env (metadata_d (fst item)) = Inr sm"
      "prepareVector env cfg (fst item) db = (Inr v, dbp)"
      "prepareRecords env cfg rest
         (logCall (CacheSet (generateId (snd item)))
           (dbp\<lparr>vectorCache := vc_set (cacheBytes cfg) (generateId (snd item))
              (newRecord sm (fst item) (snd item) v)
              (recordSize env (newRecord sm (fst item) (snd item) v)) (vectorCache dbp)\<rparr>))
         = (res, db2)"
      "prepareRecords env cfg (item # rest) db =
         (case res of Inl e \<Rightarrow> Inl e
          | Inr records \<Rightarrow> Inr (newRecord sm (fst item) (snd item) v # records), db2)"
proof (cases "validateAndSanitizeMetadata env (metadata_d (fst item))")
  case (Inl e)
  then show ?thesis using bad_metadata by (simp add: andThen_def lift_def)
next
  case (Inr sm)
  obtain pr dbp where p: "prepareVector env cfg (fst item) db = (pr, dbp)"
    by (cases "prepareVector env cfg (fst item) db")
  show ?thesis
  proof (cases pr)
    case (Inl e)
    then show ?thesis using bad_vector [OF Inr] p Inr by (simp add: andThen_def lift_def)
  next
    case v: (Inr v)
    let ?r = "newRecord sm (fst item) (snd item) v"
    let ?db = "logCall (CacheSet (generateId (snd item)))
           (dbp\<lparr>vectorCache := vc_set (cacheBytes cfg) (generateId (snd item)) ?r
              (recordSize env ?r) (vectorCache dbp)\<rparr>)"
    obtain res db2 where q: "prepareRecords env cfg rest ?db = (res, db2)"
      by (cases "prepareRecords env cfg rest ?db")
    have "prepareRecords env cfg (item # rest) db =
         (case res of Inl e \<Rightarrow> Inl e | Inr records \<Rightarrow> Inr (?r # records), db2)"
      using Inr p v q
      by (simp add: andThen_def lift_def return_def vectorCache_set_def newRecord_def
          split: sum.splits)
    then show ?thesis using prepared [OF Inr _ q] p v by simp
  qed
qed

lemma prepareRecords_fails:
  "list_ex (wrongVector (dimensions cfg)) items \<Longrightarrow>
     \<exists>e db1. prepareRecords env cfg items db = (Inl e, db1)"
proof (induction items arbitrary: db)
  case Nil
  then show ?case by simp
next
  case (Cons item rest)
  show ?case
  proof (cases rule: prepareRecords_Cons_cases [of env item cfg rest db])
    case (bad_metadata e)
    then show ?thesis by blast
  next
    case (bad_vector sm e dbp)
    then show ?thesis by blast
  next
    case (prepared sm v dbp res db2)
    have "\<not> wrongVector (dimensions cfg) item"
      using prepared(2)
      by (auto simp: wrongVector_def prepareVector_def andThen_def validateVector_def throw_def
          return_def split: option.splits if_splits)
    then have "list_ex (wrongVector (dimensions cfg)) rest"
      using Cons.prems by simp
    from Cons.IH [OF this, of "logCall (CacheSet (generateId (snd item)))
           (dbp\<lparr>vectorCache := vc_set (cacheBytes cfg) (generateId (snd item))
              (newRecord sm (fst item) (snd item) v)
              (recordSize env (newRecord sm (fst item) (snd item) v)) (vectorCache dbp)\<rparr>)"]
      prepared(3)
    obtain e where "res = Inl e" by auto
    then show ?thesis using prepared(4) by simp
  qed
qed

text \<open>Import: the batched write and the rebuilding of the index; the top result of a search.\<close>

lemma toRecords_dims:
  "toRecords D clock n vs = Inr records \<Longrightarrow> list_all (hasDimension D) records"
proof (induction vs arbitrary: n records)
  case Nil
  then show ?case by simp
next
  case (Cons v vs)
  then show ?case
    by (auto simp: hasDimension_def split: option.splits if_splits sum.splits)
qed

lemma st_put_all: "list_all P s \<Longrightarrow> P r \<Longrightarrow> list_all P (st_put r s)"
  by (induction s) auto

lemma st_putBatch_all: "list_all P s \<Longrightarrow> list_all P rs \<Longrightarrow> list_all P (st_putBatch rs s)"
  by (induction rs arbitrary: s) (auto simp: st_put_all)

lemma st_putBatch_append: "st_putBatch (xs @ ys) s = st_putBatch ys (st_putBatch xs s)"
  by (induction xs arbitrary: s) auto

lemma putChunks_eq:
  "putChunks cs db =
     (Inr (), db\<lparr>storage := st_putBatch (concat cs) (storage db),
                 calls := calls db @ map (\<lambda>c. StoragePutBatch (map id_r c)) cs\<rparr>)"
  by (induction cs arbitrary: db)
    (simp_all add: andThen_def storage_putBatch_def logCall_def st_putBatch_append)

lemma concat_chunked: "concat (chunked n xs) = xs"
proof (induction n xs rule: chunked.induct)
  case (1 n xs)
  show ?case
  proof (cases "xs = [] \<or> n = 0")
    case True
    then show ?thesis by (subst chunked.simps) auto
  next
    case False
    then show ?thesis using 1 by (subst chunked.simps) simp
  qed
qed

lemma importInBatches_eq:
  "importInBatches cfg records db =
     (Inr (), db\<lparr>storage := st_putBatch records (storage db),
                 calls := calls db @
                   map (\<lambda>c. StoragePutBatch (map id_r c))
                     (chunked (effectiveChunkSize cfg) records)\<rparr>)"
  by (simp add: importInBatches_def putChunks_eq concat_chunked)

lemma rebuildIndex_eq:
  assumes "list_all (hasDimension (dimensions cfg)) (storage db)"
  shows "rebuildIndex cfg db =
     (Inr (), db\<lparr>indexManager := storage db,
                 calls := calls db @ [StorageGetAll, IndexClear] @
                   (if storage db = [] then [] else [IndexAddBatch (map id_r (storage db))])\<rparr>)"
  using assms
  by (auto simp: rebuildIndex_def andThen_def storage_getAll_def index_clear_def
      index_addBatch_def ix_addBatch_def logCall_def return_def list_ex_iff list_all_iff
      hasDimension_def)


lemma hydrate_scores:
  "hydrate env cfg rs db = (Inr rs', db1) \<Longrightarrow>
     map id_s rs' = map id_s rs \<and> map score rs' = map score rs"
proof (induction rs arbitrary: db rs' db1)
  case Nil
  then show ?case by (simp add: return_def)
next
  case (Cons r rs)
  obtain found db2 where g: "getVector env cfg (id_s r) db = (Inr found, db2)"
    using getVector_ok by blast
  obtain rs2 db3 where h: "hydrate env cfg rs db2 = (Inr rs2, db3)"
    using hydrate_ok by blast
  from Cons.IH [OF h] Cons.prems g h show ?case
    by (auto simp: andThen_def return_def split: option.splits)
qed

lemma sort_key_head:
  assumes "xs \<noteq> []"
  shows "\<exists>y ys. sort_key f xs = y # ys \<and> y \<in> set xs \<and> (\<forall>x\<in>set xs. f y \<le> f x)"
proof -
  have ne: "sort_key f xs \<noteq> []"
    using assms by (metis length_sort length_0_conv)
  then obtain y ys where e: "sort_key f xs = y # ys"
    by (cases "sort_key f xs") auto
  have "sorted (map f (y # ys))"
    using sorted_sort_key [of f xs] e by simp
  then have "\<forall>x\<in>set (y # ys). f y \<le> f x"
    by auto
  moreover have "set (y # ys) = set xs"
    using e set_sort [of f xs] by simp
  ultimately show ?thesis using e by auto
qed

lemma ix_search_top:
  assumes "ix \<noteq> []" "0 < n"
  shows "\<exists>top rest. ix_search env m ix q n None = top # rest \<and>
     id_s top \<in> id_r ` set ix \<and>
     (\<forall>r\<in>set ix. rank m (score top) \<le> rank m (similarity env q (vector r)))"
proof -
  let ?xs = "map (toResult env q) ix"
  let ?f = "\<lambda>r. (rank m (score r), id_s r)"
  have f: "filter (passes None) ?xs = ?xs"
    by (simp add: passes_def)
  from sort_key_head [of ?xs ?f] assms(1) obtain y ys where
    s: "sort_key ?f ?xs = y # ys" "y \<in> set ?xs" "\<forall>x\<in>set ?xs. ?f y \<le> ?f x"
    by auto
  have le: "\<forall>r\<in>set ix. rank m (score y) \<le> rank m (similarity env q (vector r))"
  proof
    fix r assume "r \<in> set ix"
    then have "?f y \<le> ?f (toResult env q r)"
      using s(3) by auto
    then show "rank m (score y) \<le> rank m (similarity env q (vector r))"
      by (auto simp: toResult_def less_eq_prod_def)
  qed
  obtain n' where n': "n = Suc n'"
    using assms(2) by (cases n) auto
  have "ix_search env m ix q n None = y # take n' ys"
    by (simp add: ix_search_def f s(1) n')
  moreover have "id_s y \<in> id_r ` set ix"
    using s(2) by (auto simp: toResult_def)
  ultimately show ?thesis using le by blast
qed

lemma search_top:
  assumes init: "initialized db"
    and q: "validateSearchQuery env (k_q query) = None" "vector_q query = Some v"
      "length v = dimensions cfg" "filter_q query = None" "0 < k_q query"
    and ne: "indexManager db \<noteq> []"
  shows "\<exists>top rest db2. search env cfg query db = (Inr (top # rest), db2) \<and>
     id_s top \<in> id_r ` set (indexManager db) \<and>
     (\<forall>r\<in>set (indexManager db).
        rank (metric cfg) (score top) \<le> rank (metric cfg) (similarity env v (vector r)))"
proof -
  let ?rs = "ix_search env (metric cfg) (indexManager db) v (k_q query) None"
  from ix_search_top [OF ne q(5), of env "metric cfg" v] obtain top rest where
    t: "?rs = top # rest" "id_s top \<in> id_r ` set (indexManager db)"
      "\<forall>r\<in>set (indexManager db).
        rank (metric cfg) (score top) \<le> rank (metric cfg) (similarity env v (vector r))"
    by blast
  have body: "andThen (index_search env cfg v (k_q query) (filter_q query))
       (\<lambda>results. if includeVectors query then hydrate env cfg results else return results) db =
       (if includeVectors query then hydrate env cfg ?rs (logCall IndexSearch db)
        else (Inr ?rs, logCall IndexSearch db))"
    using q by (simp add: andThen_def index_search_def return_def)
  obtain rs' db3 where h: "hydrate env cfg ?rs (logCall IndexSearch db) = (Inr rs', db3)"
    using hydrate_ok by blast
  from hydrate_scores [OF h] t(1) obtain top' rest' where
    h': "rs' = top' # rest'" "id_s top' = id_s top" "score top' = score top"
    by (cases rs') auto
  have "\<exists>top2 rest2 db2. andThen (index_search env cfg v (k_q query) (filter_q query))
       (\<lambda>results. if includeVectors query then hydrate env cfg results else return results) db =
       (Inr (top2 # rest2), db2) \<and> id_s top2 = id_s top \<and> score top2 = score top"
    using body h h' t(1) by (cases "includeVectors query") auto
  then obtain top2 rest2 db2 where r:
    "andThen (index_search env cfg v (k_q query) (filter_q query))
       (\<lambda>results. if includeVectors query then hydrate env cfg results else return results) db =
       (Inr (top2 # rest2), db2)" "id_s top2 = id_s top" "score top2 = score top"
    by blast
  have "search env cfg query db = (Inr (top2 # rest2), db2)"
    unfolding search_def
    apply (rule bindI, rule ensureInitialized_ok [OF init])
    apply (rule rethrow_Inr)
    apply (rule bindI [where x = "()" and ?db1.0 = db])
     apply (simp add: lift_def q)
    apply (rule bindI [where x = v and ?db1.0 = db])
     apply (simp add: queryVector_def q return_def)
    apply (rule bindI [where x = "()" and ?db1.0 = db])
     apply (simp add: validateVector_def q return_def)
    apply (rule r)
    done
  with r t show ?thesis by auto
qed


lemma restoreIndex_corrupted:
  assumes "s \<noteq> []" "deserializeFails env cfg s"
    "list_all (hasDimension (dimensions cfg)) (storage db)"
  shows "restoreIndex env cfg s db =
     (Inr (), db\<lparr>indexManager := storage db,
                 calls := calls db @
                   [IndexDeserialize,
                    ConsoleWarn ''Failed to deserialize index, rebuilding from vectors...'',
                    StorageGetAll, IndexClear] @
                   (if storage db = [] then [] else [IndexAddBatch (map id_r (storage db))])\<rparr>)"
proof -
  let ?db1 = "logCall (ConsoleWarn ''Failed to deserialize index, rebuilding from vectors...'')
     (logCall IndexDeserialize db)"
  have d: "\<exists>e. index_deserialize env cfg s db = (Inl e, logCall IndexDeserialize db)"
    using assms(2)
    by (auto simp: index_deserialize_def deserializeFails_def split: option.splits)
  have "list_all (hasDimension (dimensions cfg)) (storage ?db1)"
    using assms(3) by (simp add: logCall_def)
  from rebuildIndex_eq [OF this] d assms(1) show ?thesis
    by (auto simp: restoreIndex_def logCall_def)
qed

lemma afterClear_facts:
  assumes "initialized db"
  shows "(if clearExisting options then clear cfg else return ()) db =
           (Inr (), afterClear cfg options db)"
    and "storage (afterClear cfg options db) = (if clearExisting options then [] else storage db)"
    and "initialized (afterClear cfg options db)"
  using assms by (simp_all add: afterClear_def clear_ok return_def logCall_def)

text \<open>Unfolding for the evaluation of the operations on the concrete databases.\<close>

lemmas eval_simps =
  andThen_def rethrow_def wrapAll_def return_def throw_def lift_def logCall_def
  ensureInitialized_def isVectorDBError_def truthy_def
  demoEnv_def demoConfig_def emptyDB_def newVectorDB_def envelope_def defaultImport_def
  defaultExport_def fixedClock_def demoRecord_def queryBy_def retitle_def mine_def foreignVector_def shortVector_def keepExisting_def mixedBatch_def corruptedExport_def toExport_def
  versionParts_def parseInt_def isWhiteSpace_def isDigit_def digitValue_def Let_def
  schemaValid_def

lemmas run_simps =
  import_def importData_def clear_def batch_flush_def storage_clear_def index_clear_def
  clearCaches_def importInBatches_def chunked.simps restoreIndex_def index_deserialize_def rebuildIndex_def
  storage_getAll_def index_addBatch_def ix_addBatch_def storage_putBatch_def
  effectiveChunkSize_def validateExportData_def validateVersionCompatibility_def

lemmas insert_simps =
  insert_db_def insertBatch_def prepareRecords.simps prepareVector_def validateVector_def
  newRecord_def generateId_def decimal.simps digit_def textJson_def recordSize_def
  vectorCache_set_def vc_set_def vc_delete_def vc_bytes_def storage_put_def batch_put_def
  index_add_def ix_add_def byVector_def tick1_def tick2_def tick3_def

lemma oneDB_eq:
  "oneDB = emptyDB\<lparr>
     storage := [demoRecord tick1 [1, 0, 0]],
     indexManager := [demoRecord tick1 [1, 0, 0]],
     vectorCache := [(''17-abc'', demoRecord tick1 [1, 0, 0], 144)],
     calls := [CoalescerPut ''17-abc'', CacheSet ''17-abc'', IndexAdd ''17-abc'']\<rparr>"
  by (simp add: oneDB_def eval_simps insert_simps)

lemma threeDB_eq:
  "threeDB = emptyDB\<lparr>
     storage := [demoRecord tick1 [1, 0, 0], demoRecord tick2 [0, 1, 0], demoRecord tick3 [0, 0, 1]],
     indexManager :=
       [demoRecord tick1 [1, 0, 0], demoRecord tick2 [0, 1, 0], demoRecord tick3 [0, 0, 1]],
     vectorCache :=
       [(''17-abc'', demoRecord tick1 [1, 0, 0], 144), (''19-abd'', demoRecord tick2 [0, 1, 0], 144),
        (''20-abe'', demoRecord tick3 [0, 0, 1], 144)],
     calls :=
       [CacheSet ''17-abc'', CacheSet ''19-abd'', CacheSet ''20-abe'',
        StoragePutBatch [''17-abc'', ''19-abd'', ''20-abe''],
        IndexAddBatch [''17-abc'', ''19-abd'', ''20-abe'']]\<rparr>"
  by (simp add: threeDB_def eval_simps insert_simps run_simps)

lemma importedDB_eq:
  "importedDB = emptyDB\<lparr>
     storage := [\<lparr>id_r = ''a'', vector = [1, 0, 0],
                  metadata = [(''content'', JStr ''from-envelope'')], timestamp = 5\<rparr>],
     indexManager := [\<lparr>id_r = ''a'', vector = [1, 0, 0],
                  metadata = [(''content'', JStr ''from-envelope'')], timestamp = 5\<rparr>],
     calls := [CoalescerFlush, StorageClear, IndexClear, ClearCaches, StoragePutBatch [''a''],
               StorageGetAll, IndexClear, IndexAddBatch [''a'']]\<rparr>"
  by (simp add: importedDB_def eval_simps run_simps)

subsection \<open>Import: schema and version checks\<close>

text \<open>
  Claim C8, as the code has it. On an initialized database, with schema validation on:
  an envelope that fails the schema check (missing version, vectors or metadata, a
  dimension count that is no positive number, a vector count that is no non-negative
  number) fails with \<^verbatim>\<open>INVALID_EXPORT_DATA\<close>; a schema-valid envelope whose version
  string has fewer than two dot-separated parts fails with the code \<^verbatim>\<open>INVALID_VERSION\<close>;
  one whose major version does not parse to 1 fails with \<^verbatim>\<open>VERSION_INCOMPATIBLE\<close>; in
  these three cases the state is untouched. With major version 1 and a minor version
  greater than 0 the import logs a warning and proceeds with the rest of the import.
\<close>

theorem import_version_rules:
  assumes "initialized db" and "validateSchema options"
  shows "(\<not> schemaValid data \<longrightarrow>
            import env cfg data options clock db =
              (Inl (VectorDBError ''INVALID_EXPORT_DATA''), db)) \<and>
         (schemaValid data \<and> version data = Some v \<and> length (versionParts v) < 2 \<longrightarrow>
            import env cfg data options clock db = (Inl (VectorDBError ''INVALID_VERSION''), db)) \<and>
         (schemaValid data \<and> version data = Some v \<and> 2 \<le> length (versionParts v) \<and>
          parseInt (versionParts v ! 0) \<noteq> Some 1 \<longrightarrow>
            import env cfg data options clock db =
              (Inl (VectorDBError ''VERSION_INCOMPATIBLE''), db)) \<and>
         (schemaValid data \<and> version data = Some v \<and> 2 \<le> length (versionParts v) \<and>
          parseInt (versionParts v ! 0) = Some 1 \<and> parseInt (versionParts v ! 1) = Some n \<and>
          0 < n \<longrightarrow>
            import env cfg data options clock db =
              rethrow ''IMPORT_ERROR'' (importData env cfg data options clock)
                (logCall (ConsoleWarn ''Export data is from a newer version'') db))"
  using assms
  by (auto simp: import_def andThen_def rethrow_def validateExportData_eq
      validateVersionCompatibility_eq isVectorDBError_def schemaValid_def truthy_def
      split: option.splits)

theorem import_version_rules_witness:
  "import demoEnv demoConfig (envelope ''1.0.0'' 0 [] ''idx'') defaultImport fixedClock emptyDB =
     (Inl (VectorDBError ''INVALID_EXPORT_DATA''), emptyDB) \<and>
   import demoEnv demoConfig (envelope ''1'' 3 [] ''idx'') defaultImport fixedClock emptyDB =
     (Inl (VectorDBError ''INVALID_VERSION''), emptyDB) \<and>
   import demoEnv demoConfig (envelope ''2.0.0'' 3 [] ''idx'') defaultImport fixedClock emptyDB =
     (Inl (VectorDBError ''VERSION_INCOMPATIBLE''), emptyDB) \<and>
   import demoEnv demoConfig (envelope ''1.1.0'' 3 [] []) defaultImport fixedClock emptyDB =
     (Inr (), emptyDB\<lparr>calls := [ConsoleWarn ''Export data is from a newer version'',
        CoalescerFlush, StorageClear, IndexClear, ClearCaches, StorageGetAll, IndexClear]\<rparr>)"
proof -
  have "import demoEnv demoConfig (envelope ''1.0.0'' 0 [] ''idx'') defaultImport fixedClock
      emptyDB = (Inl (VectorDBError ''INVALID_EXPORT_DATA''), emptyDB)"
    using import_version_rules [of emptyDB defaultImport "envelope ''1.0.0'' 0 [] ''idx''"
        demoEnv demoConfig fixedClock "''1.0.0''"]
    by (simp add: eval_simps)
  moreover have "import demoEnv demoConfig (envelope ''1'' 3 [] ''idx'') defaultImport fixedClock
      emptyDB = (Inl (VectorDBError ''INVALID_VERSION''), emptyDB)"
    using import_version_rules [of emptyDB defaultImport "envelope ''1'' 3 [] ''idx''" demoEnv
        demoConfig fixedClock "''1''"]
    by (simp add: eval_simps)
  moreover have "import demoEnv demoConfig (envelope ''2.0.0'' 3 [] ''idx'') defaultImport
      fixedClock emptyDB = (Inl (VectorDBError ''VERSION_INCOMPATIBLE''), emptyDB)"
    using import_version_rules [of emptyDB defaultImport "envelope ''2.0.0'' 3 [] ''idx''"
        demoEnv demoConfig fixedClock "''2.0.0''"]
    by (simp add: eval_simps)
  moreover have "import demoEnv demoConfig (envelope ''1.1.0'' 3 [] []) defaultImport fixedClock
      emptyDB =
      (Inr (), emptyDB\<lparr>calls := [ConsoleWarn ''Export data is from a newer version'',
          CoalescerFlush, StorageClear, IndexClear, ClearCaches, StorageGetAll, IndexClear]\<rparr>)"
    using import_version_rules [of emptyDB defaultImport "envelope ''1.1.0'' 3 [] []" demoEnv
        demoConfig fixedClock "''1.1.0''" 1]
    by (simp add: eval_simps run_simps)
  ultimately show ?thesis by blast
qed

text \<open>
  Claim C8 as stated fails for a malformed version string: the well-formed envelope with
  version \<open>''1''\<close> (no dot) is rejected with the code \<^verbatim>\<open>INVALID_VERSION\<close>, which is not
  \<^verbatim>\<open>INVALID_EXPORT_DATA\<close>.
\<close>

theorem import_malformed_version_counterexample:
  "import demoEnv demoConfig (envelope ''1'' 3 [] ''idx'') defaultImport fixedClock emptyDB =
     (Inl (VectorDBError ''INVALID_VERSION''), emptyDB) \<and>
   VectorDBError ''INVALID_VERSION'' \<noteq> VectorDBError ''INVALID_EXPORT_DATA''"
  by (simp add: eval_simps run_simps)

subsection \<open>Streaming export\<close>

lemma foldl_visit:
  "foldl visit acc rs = (fst acc @ map toExport rs, snd acc + length rs)"
  by (induction rs arbitrary: acc) (simp_all add: visit_def)

lemma exportStream_items:
  assumes "initialized db"
  shows "fst (exportStream env cfg options now db) =
     Inr (MetadataItem ''1.0.0'' cfg
            \<lparr>exportedAt = now, vectorCount = Some (int (length (storage db))),
             dimensions_x = Some (int (dimensions cfg))\<rparr> #
          (if storage db = [] then [] else [VectorsItem (map toExport (storage db))]) @
          (if includeIndex options
           then [IndexItem (encodeIndex env (dimensions cfg, indexManager db))] else []))"
  using assms
  by (simp add: exportStream_def andThen_def wrapAll_def return_def batch_flush_def
      storage_count_def streamProcess_def index_serialize_def logCall_def foldl_visit)

text \<open>
  Claim C4 against the code. The database \<open>threeDB\<close> holds three records and the chunk size
  is 2, so the claim asks for a metadata item, two vector chunks of at most two records
  each, and an index item. The generator yields a metadata item, one single vectors item
  holding all three records, and the index item: the visitor never yields nor resets
  \<^verbatim>\<open>chunk\<close>, and only the chunk left after the scan is emitted.
\<close>

theorem exportStream_one_chunk:
  "chunkSize demoConfig = 2 \<and>
   fst (exportStream demoEnv demoConfig defaultExport 50 threeDB) =
     Inr [MetadataItem ''1.0.0'' demoConfig
            \<lparr>exportedAt = 50, vectorCount = Some 3, dimensions_x = Some 3\<rparr>,
          VectorsItem
            [toExport (demoRecord tick1 [1, 0, 0]), toExport (demoRecord tick2 [0, 1, 0]),
             toExport (demoRecord tick3 [0, 0, 1])],
          IndexItem ''idx'']"
proof -
  have "initialized threeDB"
    by (simp add: threeDB_eq emptyDB_def newVectorDB_def)
  from exportStream_items [OF this, of demoEnv demoConfig defaultExport 50] show ?thesis
    by (simp add: threeDB_eq emptyDB_def newVectorDB_def)
      (simp add: demoConfig_def demoEnv_def defaultExport_def)
qed

subsection \<open>Delete\<close>

lemma st_get_None_iff: "st_get i s = None \<longleftrightarrow> i \<notin> id_r ` set s"
  by (auto simp: st_get_def find_None_iff)

lemma st_delete_get: "st_get i (st_delete i s) = None"
  by (auto simp: st_get_None_iff st_delete_def)

lemma st_delete_absent: "i \<notin> id_r ` set s \<Longrightarrow> st_delete i s = s"
  by (induction s) (auto simp: st_delete_def)

text \<open>
  Claim C7. On an initialized database \<^verbatim>\<open>delete(id)\<close> returns whether the id was in
  Storage. When it was, the id is afterwards neither in Storage nor in the VectorCache nor
  in the index, and the calls made are the deletion (through the BatchCoalescer when there
  is one), then \<^verbatim>\<open>vectorCache.delete\<close>, then \<^verbatim>\<open>indexManager.remove\<close>. When it was not,
  the deletion is the only call: cache, index, Storage and embedding cache are as before.
\<close>

theorem delete_contract:
  assumes "initialized db"
  shows "\<exists>db'. delete cfg i db = (Inr (st_get i (storage db) \<noteq> None), db') \<and>
     (st_get i (storage db) \<noteq> None \<longrightarrow>
        i \<notin> fst ` set (vectorCache db') \<and> i \<notin> id_r ` set (indexManager db') \<and>
        st_get i (storage db') = None \<and>
        calls db' = calls db @
          [if batchOptimizer cfg then CoalescerDelete i else StorageDelete i,
           CacheDelete i, IndexRemove i]) \<and>
     (st_get i (storage db) = None \<longrightarrow>
        vectorCache db' = vectorCache db \<and> indexManager db' = indexManager db \<and>
        storage db' = storage db \<and> embeddingCache db' = embeddingCache db \<and>
        calls db' = calls db @
          [if batchOptimizer cfg then CoalescerDelete i else StorageDelete i])"
  using assms
  apply (simp add: delete_def andThen_def wrapAll_def return_def batch_delete_def
      storage_delete_def vectorCache_delete_def index_remove_def logCall_def vc_delete_def
      ix_remove_def)
  apply (auto simp: st_get_None_iff st_delete_absent st_delete_get)
  done

theorem delete_contract_witness:
  "delete demoConfig ''17-abc'' oneDB =
     (Inr True, emptyDB\<lparr>calls := calls oneDB @
        [CoalescerDelete ''17-abc'', CacheDelete ''17-abc'', IndexRemove ''17-abc'']\<rparr>) \<and>
   delete demoConfig ''absent'' oneDB =
     (Inr False, oneDB\<lparr>calls := calls oneDB @ [CoalescerDelete ''absent'']\<rparr>)"
proof -
  have i: "initialized oneDB"
    by (simp add: oneDB_eq emptyDB_def newVectorDB_def)
  have "delete demoConfig ''17-abc'' oneDB =
     (Inr True, emptyDB\<lparr>calls := calls oneDB @
        [CoalescerDelete ''17-abc'', CacheDelete ''17-abc'', IndexRemove ''17-abc'']\<rparr>)"
    using delete_contract [OF i, of demoConfig "''17-abc''"]
    by (simp add: oneDB_eq delete_def eval_simps insert_simps batch_delete_def st_get_def
        st_delete_def vectorCache_delete_def index_remove_def ix_remove_def)
  moreover have "delete demoConfig ''absent'' oneDB =
     (Inr False, oneDB\<lparr>calls := calls oneDB @ [CoalescerDelete ''absent'']\<rparr>)"
    using delete_contract [OF i, of demoConfig "''absent''"]
    by (simp add: oneDB_eq delete_def eval_simps insert_simps batch_delete_def st_get_def
        st_delete_def vectorCache_delete_def index_remove_def ix_remove_def)
  ultimately show ?thesis by blast
qed

subsection \<open>Update\<close>

text \<open>
  Claim C6. On an initialized database: for an id absent from Storage \<^verbatim>\<open>update\<close> returns
  false after the one \<^verbatim>\<open>storage.get\<close> and changes nothing else. For an id that is present,
  when the sanitization of the partial metadata and the preparation of the vector
  succeed: the vector is prepared anew exactly when the partial document has a vector or a
  non-empty text, and is the stored vector otherwise; the updated record has the same id,
  the new timestamp, and as metadata the stored metadata overlaid by the sanitized one,
  with \<^verbatim>\<open>content\<close> and \<^verbatim>\<open>timestamp\<close> set by the system; it is written by
  \<^verbatim>\<open>storage.put\<close> (not through the BatchCoalescer), then the index does \<^verbatim>\<open>remove(id)\<close>
  followed by \<^verbatim>\<open>add(updated)\<close>, and \<^verbatim>\<open>update\<close> returns true. (For an object, whose keys are
  distinct, \<open>map_of (rev m)\<close> is \<open>map_of m\<close>.)
\<close>

theorem update_contract:
  assumes init: "initialized db"
  shows "(st_get i (storage db) = None \<longrightarrow>
            update env cfg i data tk db = (Inr False, logCall (StorageGet i) db)) \<and>
         (st_get i (storage db) = Some existing \<and> sanitizedFor env data = Inr sm \<and>
          (if regenerates data then prepareVector env cfg data (logCall (StorageGet i) db)
           else (Inr (vector existing), logCall (StorageGet i) db)) = (Inr v, db1) \<and>
          length v = dimensions cfg \<longrightarrow>
            (\<not> regenerates data \<longrightarrow> v = vector existing) \<and>
            update env cfg i data tk db =
              (Inr True,
               db1\<lparr>storage := st_put (updatedRecord i existing sm data tk v) (storage db1),
                   indexManager :=
                     ix_remove i (indexManager db1) @ [updatedRecord i existing sm data tk v],
                   calls := calls db1 @ [StoragePut i, IndexRemove i, IndexAdd i]\<rparr>) \<and>
            id_r (updatedRecord i existing sm data tk v) = i \<and>
            vector (updatedRecord i existing sm data tk v) = v \<and>
            timestamp (updatedRecord i existing sm data tk v) = recordTime tk \<and>
            map_of (metadata (updatedRecord i existing sm data tk v)) =
              (map_of (rev (metadata existing)) ++ map_of (rev sm))
                (''content'' \<mapsto>
                   (case text_d data of
                      None \<Rightarrow> getProp (metadata existing) ''content''
                    | Some s \<Rightarrow> JStr s),
                 ''timestamp'' \<mapsto> JNum (real (metadataTime tk))))"
proof (intro conjI impI)
  assume "st_get i (storage db) = None"
  then show "update env cfg i data tk db = (Inr False, logCall (StorageGet i) db)"
    using init
    by (simp add: update_def andThen_def rethrow_def storage_get_def return_def)
next
  let ?u = "updatedRecord i existing sm data tk v"
  assume a: "st_get i (storage db) = Some existing \<and> sanitizedFor env data = Inr sm \<and>
          (if regenerates data then prepareVector env cfg data (logCall (StorageGet i) db)
           else (Inr (vector existing), logCall (StorageGet i) db)) = (Inr v, db1) \<and>
          length v = dimensions cfg"
  have u: "id_r ?u = i" "vector ?u = v" "timestamp ?u = recordTime tk"
    by (simp_all add: updatedRecord_def)
  have s: "(case metadata_d data of
              Some m \<Rightarrow> lift (validateAndSanitizeMetadata env (Some m))
            | None \<Rightarrow> return []) (logCall (StorageGet i) db) = (Inr sm, logCall (StorageGet i) db)"
    using a by (auto simp: sanitizedFor_def lift_def return_def split: option.splits)
  have p: "(if vector_d data \<noteq> None \<or> truthy (text_d data) then prepareVector env cfg data
            else return (vector existing)) (logCall (StorageGet i) db) = (Inr v, db1)"
    using a by (auto simp: regenerates_def return_def split: if_splits)
  have "update env cfg i data tk db =
      (Inr True,
       db1\<lparr>storage := st_put ?u (storage db1),
           indexManager := ix_remove i (indexManager db1) @ [?u],
           calls := calls db1 @ [StoragePut i, IndexRemove i, IndexAdd i]\<rparr>)"
    unfolding update_def
    apply (rule bindI, rule ensureInitialized_ok [OF init])
    apply (rule rethrow_Inr)
    apply (rule bindI [where x = "Some existing" and ?db1.0 = "logCall (StorageGet i) db"])
     apply (simp add: storage_get_def a)
    apply (simp only: option.case)
    apply (rule bindI, rule s)
    apply (rule bindI, rule p)
    using a u
    apply (simp add: andThen_def storage_put_def index_remove_def index_add_def ix_add_def
        return_def logCall_def)
    done
  then show "update env cfg i data tk db =
      (Inr True,
       db1\<lparr>storage := st_put ?u (storage db1),
           indexManager := ix_remove i (indexManager db1) @ [?u],
           calls := calls db1 @ [StoragePut i, IndexRemove i, IndexAdd i]\<rparr>)" .
  show "v = vector existing" if "\<not> regenerates data"
    using a that by auto
  show "id_r ?u = i" "vector ?u = v" "timestamp ?u = recordTime tk" by (rule u)+
  show "map_of (metadata ?u) =
      (map_of (rev (metadata existing)) ++ map_of (rev sm))
        (''content'' \<mapsto>
           (case text_d data of
              None \<Rightarrow> getProp (metadata existing) ''content''
            | Some s \<Rightarrow> JStr s),
         ''timestamp'' \<mapsto> JNum (real (metadataTime tk)))"
    by (simp add: updatedRecord_def map_of_setProp map_of_spread)
qed

theorem update_contract_witness:
  "update demoEnv demoConfig ''absent'' retitle tick2 oneDB =
     (Inr False, oneDB\<lparr>calls := calls oneDB @ [StorageGet ''absent'']\<rparr>) \<and>
   update demoEnv demoConfig ''17-abc'' retitle tick2 oneDB =
     (Inr True,
      oneDB\<lparr>storage :=
              [\<lparr>id_r = ''17-abc'', vector = [1, 0, 0],
                metadata = [(''content'', JUndefined), (''timestamp'', JNum 19),
                            (''title'', JStr ''Updated'')],
                timestamp = 19\<rparr>],
            indexManager :=
              [\<lparr>id_r = ''17-abc'', vector = [1, 0, 0],
                metadata = [(''content'', JUndefined), (''timestamp'', JNum 19),
                            (''title'', JStr ''Updated'')],
                timestamp = 19\<rparr>],
            calls := calls oneDB @
              [StorageGet ''17-abc'', StoragePut ''17-abc'', IndexRemove ''17-abc'',
               IndexAdd ''17-abc'']\<rparr>)"
proof -
  have i: "initialized oneDB"
    by (simp add: oneDB_eq emptyDB_def newVectorDB_def)
  have "update demoEnv demoConfig ''absent'' retitle tick2 oneDB =
     (Inr False, oneDB\<lparr>calls := calls oneDB @ [StorageGet ''absent'']\<rparr>)"
    using update_contract [OF i, of "''absent''" demoEnv demoConfig retitle tick2]
    by (simp add: oneDB_eq eval_simps insert_simps st_get_def)
  moreover have "update demoEnv demoConfig ''17-abc'' retitle tick2 oneDB =
     (Inr True,
      oneDB\<lparr>storage :=
              [\<lparr>id_r = ''17-abc'', vector = [1, 0, 0],
                metadata = [(''content'', JUndefined), (''timestamp'', JNum 19),
                            (''title'', JStr ''Updated'')],
                timestamp = 19\<rparr>],
            indexManager :=
              [\<lparr>id_r = ''17-abc'', vector = [1, 0, 0],
                metadata = [(''content'', JUndefined), (''timestamp'', JNum 19),
                            (''title'', JStr ''Updated'')],
                timestamp = 19\<rparr>],
            calls := calls oneDB @
              [StorageGet ''17-abc'', StoragePut ''17-abc'', IndexRemove ''17-abc'',
               IndexAdd ''17-abc'']\<rparr>)"
    using update_contract [OF i, of "''17-abc''" demoEnv demoConfig retitle tick2
        "demoRecord tick1 [1, 0, 0]" "[(''title'', JStr ''Updated''), (''content'', JStr ''mine'')]"
        "[1, 0, 0]" "logCall (StorageGet ''17-abc'') oneDB"]
    by (simp add: oneDB_eq eval_simps insert_simps st_get_def sanitizedFor_def regenerates_def
        updatedRecord_def getProp_def ix_remove_def)
  ultimately show ?thesis by blast
qed

subsection \<open>The reserved metadata fields\<close>

text \<open>
  Claim C10, as the code has it. A record written by a successful \<^verbatim>\<open>insert\<close> or
  \<^verbatim>\<open>insertBatch\<close> has \<^verbatim>\<open>content\<close> set to the supplied text (\<^verbatim>\<open>undefined\<close> when there is
  none) and \<^verbatim>\<open>timestamp\<close> set to the time of the write, whatever the caller's metadata
  holds under those keys. A record written by a successful \<^verbatim>\<open>update\<close> has \<^verbatim>\<open>timestamp\<close>
  set to the time of the write and \<^verbatim>\<open>content\<close> set to the supplied text when one is
  supplied, and otherwise to the \<^verbatim>\<open>content\<close> the stored record had; the values the
  caller's partial metadata holds under those keys do not survive either.
\<close>

theorem system_fields_on_write:
  "(insert_db env cfg data tk db = (Inr i, db') \<longrightarrow>
      (\<exists>r. st_get i (storage db') = Some r \<and>
           systemFields r (textJson (text_d data)) (metadataTime tk))) \<and>
   (insertBatch env cfg items db = (Inr ids, db2) \<longrightarrow>
      (\<exists>records. ids = map id_r records \<and>
           storage db2 = st_putBatch records (storage db) \<and>
           list_all2
             (\<lambda>r item. systemFields r (textJson (text_d (fst item))) (metadataTime (snd item)))
             records items)) \<and>
   (update env cfg j part tk db = (Inr True, db3) \<longrightarrow>
      (\<exists>existing r. st_get j (storage db) = Some existing \<and>
           st_get j (storage db3) = Some r \<and>
           systemFields r
             (case text_d part of
                None \<Rightarrow> getProp (metadata existing) ''content''
              | Some s \<Rightarrow> JStr s)
             (metadataTime tk)))"
proof (intro conjI impI)
  assume "insert_db env cfg data tk db = (Inr i, db')"
  from insert_db_Inr [OF this] obtain sm v db1 where
    e: "i = generateId tk" and
    d: "db' = db1\<lparr>
       storage := st_put (newRecord sm data tk v) (storage db1),
       vectorCache := vc_set (cacheBytes cfg) i (newRecord sm data tk v)
          (recordSize env (newRecord sm data tk v)) (vectorCache db1),
       indexManager := indexManager db1 @ [newRecord sm data tk v],
       calls := calls db1 @
         [if batchOptimizer cfg then CoalescerPut i else StoragePut i, CacheSet i, IndexAdd i]\<rparr>"
    by blast
  have "storage db' = st_put (newRecord sm data tk v) (storage db1)"
    by (simp add: d)
  with e show "\<exists>r. st_get i (storage db') = Some r \<and>
      systemFields r (textJson (text_d data)) (metadataTime tk)"
    by (simp add: st_get_put newRecord_def [of sm data tk v, THEN arg_cong, of id_r]
        systemFields_newRecord)
next
  assume b: "insertBatch env cfg items db = (Inr ids, db2)"
  show "\<exists>records. ids = map id_r records \<and>
      storage db2 = st_putBatch records (storage db) \<and>
      list_all2
        (\<lambda>r item. systemFields r (textJson (text_d (fst item))) (metadataTime (snd item)))
        records items"
  proof (cases "items = []")
    case True
    with b show ?thesis
      by (auto simp: insertBatch_def andThen_def ensureInitialized_def return_def
          split: if_split_asm)
  next
    case False
    from insertBatch_Inr [OF b False] obtain records db1 where
      r: "prepareRecords env cfg items db = (Inr records, db1)" "ids = map id_r records"
        "storage db2 = st_putBatch records (storage db1)"
      by auto
    from prepareRecords_Inr [OF r(1)] have
      "list_all2
        (\<lambda>r item. systemFields r (textJson (text_d (fst item))) (metadataTime (snd item)))
        records items"
      by (rule list_all2_mono) (auto simp: systemFields_newRecord)
    with r prepareRecords_frame [OF r(1)] show ?thesis by auto
  qed
next
  assume "update env cfg j part tk db = (Inr True, db3)"
  from update_True [OF this] show "\<exists>existing r. st_get j (storage db) = Some existing \<and>
      st_get j (storage db3) = Some r \<and>
      systemFields r
        (case text_d part of
           None \<Rightarrow> getProp (metadata existing) ''content''
         | Some s \<Rightarrow> JStr s)
        (metadataTime tk)" .
qed

theorem system_fields_on_write_witness:
  "(\<exists>r. st_get ''17-abc'' (storage (snd (insert_db demoEnv demoConfig mine tick1 emptyDB))) =
        Some r \<and> systemFields r (JStr ''hello'') 17) \<and>
   (\<exists>existing r. st_get ''17-abc'' (storage oneDB) = Some existing \<and>
        st_get ''17-abc'' (storage (snd (update demoEnv demoConfig ''17-abc'' retitle tick2 oneDB)))
          = Some r \<and>
        systemFields r (getProp (metadata existing) ''content'') 19)"
proof -
  have "insert_db demoEnv demoConfig mine tick1 emptyDB =
      (Inr ''17-abc'', snd (insert_db demoEnv demoConfig mine tick1 emptyDB))"
    by (simp add: prod_eq_iff eval_simps insert_simps)
  from system_fields_on_write [THEN conjunct1, rule_format, OF this]
  have 1: "\<exists>r. st_get ''17-abc'' (storage (snd (insert_db demoEnv demoConfig mine tick1 emptyDB)))
      = Some r \<and> systemFields r (JStr ''hello'') 17"
    by (simp add: mine_def textJson_def tick1_def)
  have "update demoEnv demoConfig ''17-abc'' retitle tick2 oneDB =
      (Inr True, snd (update demoEnv demoConfig ''17-abc'' retitle tick2 oneDB))"
    by (simp add: prod_eq_iff oneDB_eq update_def eval_simps insert_simps storage_get_def
        st_get_def index_remove_def updatedRecord_def)
  from system_fields_on_write [THEN conjunct2, THEN conjunct2, rule_format, OF this]
  have 2: "\<exists>existing r. st_get ''17-abc'' (storage oneDB) = Some existing \<and>
      st_get ''17-abc'' (storage (snd (update demoEnv demoConfig ''17-abc'' retitle tick2 oneDB)))
        = Some r \<and>
      systemFields r (getProp (metadata existing) ''content'') 19"
    by (simp add: retitle_def tick2_def)
  from 1 2 show ?thesis by blast
qed

text \<open>
  Claim C10 as stated fails for \<^verbatim>\<open>update\<close>. The record \<open>''a''\<close> was imported with a
  \<^verbatim>\<open>content\<close> chosen by whoever made the envelope. An update that supplies no text
  (only metadata, which itself tries to set \<^verbatim>\<open>content\<close>) writes a record whose
  \<^verbatim>\<open>content\<close> is still the imported value: it is not set to the supplied text
  (\<^verbatim>\<open>undefined\<close>), and a \<^verbatim>\<open>content\<close> that did not come from the system has survived the
  write.
\<close>

theorem update_keeps_content_counterexample:
  "fst (update demoEnv demoConfig ''a'' retitle tick2 importedDB) = Inr True \<and>
   storage (snd (update demoEnv demoConfig ''a'' retitle tick2 importedDB)) =
     [\<lparr>id_r = ''a'', vector = [1, 0, 0],
       metadata = [(''content'', JStr ''from-envelope''), (''title'', JStr ''Updated''),
                   (''timestamp'', JNum 19)],
       timestamp = 19\<rparr>] \<and>
   text_d retitle = None \<and>
   JStr ''from-envelope'' \<noteq> textJson (text_d retitle)"
  by (simp add: importedDB_eq update_def eval_simps insert_simps storage_get_def st_get_def
      index_remove_def updatedRecord_def getProp_def)

subsection \<open>A search after an insertion\<close>



subsection \<open>Vectors of the wrong dimension\<close>

text \<open>
  Claim C2, as the code has it. On an initialized database, for a vector whose length is
  not \<open>D\<close>:
  \<^item> \<^verbatim>\<open>insert\<close> of a document with that vector (and metadata the validator accepts), and
    \<^verbatim>\<open>insertBatch\<close> whose first item is such a document, fail with
    \<^verbatim>\<open>DimensionMismatch\<close> and leave the state exactly as it was;
  \<^item> \<^verbatim>\<open>insertBatch\<close> with a vector of the wrong length in any of its items fails and
    leaves the stored records and the index as they were;
  \<^item> \<^verbatim>\<open>insertBatch\<close> of documents that all carry vectors and accepted metadata, one of
    them of the wrong length, fails with \<^verbatim>\<open>DimensionMismatch\<close> and leaves the stored
    records, the index and the embedding cache as they were;
  \<^item> \<^verbatim>\<open>search\<close> by that vector (with an accepted \<open>k\<close>) fails with
    \<^verbatim>\<open>DimensionMismatch\<close> and leaves the state exactly as it was;
  \<^item> \<^verbatim>\<open>update\<close> with that vector fails with \<^verbatim>\<open>DimensionMismatch\<close> when the id is stored
    (and the partial metadata is accepted) and returns false when it is not; either way
    the observable state is as before;
  \<^item> \<^verbatim>\<open>import\<close> of an envelope that passes the schema and version checks and whose
    \<^verbatim>\<open>metadata.dimensions\<close> is not \<open>D\<close> fails with \<^verbatim>\<open>DimensionMismatch\<close> and leaves the
    observable state as before;
  \<^item> \<^verbatim>\<open>import\<close> of such an envelope with the right \<^verbatim>\<open>metadata.dimensions\<close> and count,
    whose records are well-formed and one of them has a vector of the wrong length, fails
    with \<^verbatim>\<open>DimensionMismatch\<close>, and leaves the observable state as before when
    \<^verbatim>\<open>clearExisting\<close> is false.
\<close>

theorem dimension_mismatch_rules:
  assumes init: "initialized db" and wrong: "length v \<noteq> dimensions cfg"
  shows
   "(vector_d data = Some v \<and> validateAndSanitizeMetadata env (metadata_d data) = Inr sm \<longrightarrow>
       insert_db env cfg data tk db = (Inl DimensionMismatchError, db)) \<and>
    (vector_d data = Some v \<and> validateAndSanitizeMetadata env (metadata_d data) = Inr sm \<longrightarrow>
       insertBatch env cfg ((data, tk) # rest) db = (Inl DimensionMismatchError, db)) \<and>
    (list_ex (wrongVector (dimensions cfg)) items \<longrightarrow>
       (\<exists>e db1. insertBatch env cfg items db = (Inl e, db1) \<and>
          storage db1 = storage db \<and> indexManager db1 = indexManager db)) \<and>
    (list_all hasVector items \<and> list_all (sanitizes env) items \<and>
     list_ex (wrongVector (dimensions cfg)) items \<longrightarrow>
       (\<exists>db1. insertBatch env cfg items db = (Inl DimensionMismatchError, db1) \<and>
          storage db1 = storage db \<and> indexManager db1 = indexManager db \<and>
          embeddingCache db1 = embeddingCache db)) \<and>
    (vector_q query = Some v \<and> validateSearchQuery env (k_q query) = None \<longrightarrow>
       search env cfg query db = (Inl DimensionMismatchError, db)) \<and>
    (vector_d data = Some v \<and> st_get i (storage db) = Some existing \<and>
     sanitizedFor env data = Inr sm' \<longrightarrow>
       (\<exists>db1. update env cfg i data tk db = (Inl DimensionMismatchError, db1) \<and>
          observable db1 = observable db)) \<and>
    (vector_d data = Some v \<and> st_get i (storage db) = None \<longrightarrow>
       (\<exists>db1. update env cfg i data tk db = (Inr False, db1) \<and>
          observable db1 = observable db)) \<and>
    ((validateSchema options \<longrightarrow> schemaValid envl) \<and> version envl = Some ver \<and>
     versionAccepted ver \<and> metadata_e envl = Some m \<and>
     dimensions_x m \<noteq> Some (int (dimensions cfg)) \<longrightarrow>
       (\<exists>db1. import env cfg envl options clock db = (Inl DimensionMismatchError, db1) \<and>
          observable db1 = observable db)) \<and>
    ((validateSchema options \<longrightarrow> schemaValid envl) \<and> version envl = Some ver \<and>
     versionAccepted ver \<and> metadata_e envl = Some m \<and>
     dimensions_x m = Some (int (dimensions cfg)) \<and> vectors envl = Some vs \<and>
     vectorCount m = Some (int (length vs)) \<and> list_all wellFormedVector vs \<and>
     list_ex (wrongLength (dimensions cfg)) vs \<longrightarrow>
       fst (import env cfg envl options clock db) = Inl DimensionMismatchError \<and>
       (\<not> clearExisting options \<longrightarrow>
          observable (snd (import env cfg envl options clock db)) = observable db))"
proof (intro conjI impI)
  assume a: "vector_d data = Some v \<and>
    validateAndSanitizeMetadata env (metadata_d data) = Inr sm"
  show "insert_db env cfg data tk db = (Inl DimensionMismatchError, db)"
    using init wrong a
    by (simp add: insert_db_def andThen_def rethrow_def lift_def prepareVector_def
        validateVector_def throw_def isVectorDBError_def)
  show "insertBatch env cfg ((data, tk) # rest) db = (Inl DimensionMismatchError, db)"
    using init wrong a
    by (simp add: insertBatch_def andThen_def rethrow_def lift_def prepareVector_def
        validateVector_def throw_def isVectorDBError_def)
next
  assume a: "list_ex (wrongVector (dimensions cfg)) items"
  then have ne: "items \<noteq> []" by auto
  from prepareRecords_fails [OF a, of env db] obtain e db1 where
    p: "prepareRecords env cfg items db = (Inl e, db1)"
    by blast
  note f = prepareRecords_frame [OF p]
  have "insertBatch env cfg items db =
      (Inl (if isVectorDBError e then e else VectorDBError ''INSERT_BATCH_ERROR''), db1)"
    using init ne p by (simp add: insertBatch_def andThen_def rethrow_def)
  with f show "\<exists>e db1. insertBatch env cfg items db = (Inl e, db1) \<and>
          storage db1 = storage db \<and> indexManager db1 = indexManager db"
    by blast
next
  assume a: "list_all hasVector items \<and> list_all (sanitizes env) items \<and>
     list_ex (wrongVector (dimensions cfg)) items"
  then have ne: "items \<noteq> []" by auto
  from a prepareRecords_wrong [of items env cfg db] obtain db1 where
    p: "prepareRecords env cfg items db = (Inl DimensionMismatchError, db1)"
      "storage db1 = storage db" "indexManager db1 = indexManager db"
      "embeddingCache db1 = embeddingCache db"
    by blast
  have "insertBatch env cfg items db = (Inl DimensionMismatchError, db1)"
    using init ne p(1)
    by (simp add: insertBatch_def andThen_def rethrow_def isVectorDBError_def)
  with p show "\<exists>db1. insertBatch env cfg items db = (Inl DimensionMismatchError, db1) \<and>
          storage db1 = storage db \<and> indexManager db1 = indexManager db \<and>
          embeddingCache db1 = embeddingCache db"
    by blast
next
  assume "vector_q query = Some v \<and> validateSearchQuery env (k_q query) = None"
  then show "search env cfg query db = (Inl DimensionMismatchError, db)"
    using init wrong
    by (simp add: search_def andThen_def rethrow_def lift_def queryVector_def
        validateVector_def throw_def return_def isVectorDBError_def)
next
  assume a: "vector_d data = Some v \<and> st_get i (storage db) = Some existing \<and>
     sanitizedFor env data = Inr sm'"
  have s: "(case metadata_d data of
              Some m \<Rightarrow> lift (validateAndSanitizeMetadata env (Some m))
            | None \<Rightarrow> return []) (logCall (StorageGet i) db) = (Inr sm', logCall (StorageGet i) db)"
    using a by (auto simp: sanitizedFor_def lift_def return_def split: option.splits)
  have "update env cfg i data tk db = (Inl DimensionMismatchError, logCall (StorageGet i) db)"
    unfolding update_def
    apply (rule bindI, rule ensureInitialized_ok [OF init])
    apply (rule rethrow_Inl)
     apply (rule bindI [where x = "Some existing" and ?db1.0 = "logCall (StorageGet i) db"])
      apply (simp add: storage_get_def a)
     apply (simp only: option.case)
     apply (rule bindI, rule s)
     apply (rule andThen_Inl)
     apply (simp add: a wrong prepareVector_def validateVector_def throw_def)
    apply (simp add: isVectorDBError_def)
    done
  then show "\<exists>db1. update env cfg i data tk db = (Inl DimensionMismatchError, db1) \<and>
          observable db1 = observable db"
    by simp
next
  assume "vector_d data = Some v \<and> st_get i (storage db) = None"
  then have "update env cfg i data tk db = (Inr False, logCall (StorageGet i) db)"
    using init by (simp add: update_def andThen_def rethrow_def storage_get_def return_def)
  then show "\<exists>db1. update env cfg i data tk db = (Inr False, db1) \<and>
          observable db1 = observable db"
    by simp
next
  assume a: "(validateSchema options \<longrightarrow> schemaValid envl) \<and> version envl = Some ver \<and>
     versionAccepted ver \<and> metadata_e envl = Some m \<and>
     dimensions_x m \<noteq> Some (int (dimensions cfg))"
  then have "import env cfg envl options clock db =
      (Inl DimensionMismatchError, afterVersionCheck ver db)"
    using import_checked [OF init, of options envl ver env cfg clock]
      importData_dimensions [of envl m cfg env options clock "afterVersionCheck ver db"]
    by (simp add: rethrow_def isVectorDBError_def)
  then show "\<exists>db1. import env cfg envl options clock db = (Inl DimensionMismatchError, db1) \<and>
          observable db1 = observable db"
    by simp
next
  assume a: "(validateSchema options \<longrightarrow> schemaValid envl) \<and> version envl = Some ver \<and>
     versionAccepted ver \<and> metadata_e envl = Some m \<and>
     dimensions_x m = Some (int (dimensions cfg)) \<and> vectors envl = Some vs \<and>
     vectorCount m = Some (int (length vs)) \<and> list_all wellFormedVector vs \<and>
     list_ex (wrongLength (dimensions cfg)) vs"
  have i: "import env cfg envl options clock db =
     rethrow ''IMPORT_ERROR'' (importData env cfg envl options clock) (afterVersionCheck ver db)"
    using a import_checked [OF init, of options envl ver env cfg clock] by simp
  have init': "initialized (afterVersionCheck ver db)"
    using init by simp
  have f: "fst (importData env cfg envl options clock (afterVersionCheck ver db)) =
      Inl DimensionMismatchError"
    using a importData_record(1) [OF init', of envl m cfg vs env options clock] by simp
  show "fst (import env cfg envl options clock db) = Inl DimensionMismatchError"
    using f
    by (cases "importData env cfg envl options clock (afterVersionCheck ver db)")
      (simp add: i rethrow_def isVectorDBError_def)
  show "observable (snd (import env cfg envl options clock db)) = observable db"
    if "\<not> clearExisting options"
    using a that importData_record(2) [OF init', of envl m cfg vs options env clock]
    by (simp add: i rethrow_def isVectorDBError_def)
qed

theorem dimension_mismatch_rules_witness:
  "insert_db demoEnv demoConfig (byVector [0, 1]) tick2 oneDB = (Inl DimensionMismatchError, oneDB) \<and>
   search demoEnv demoConfig (queryBy [0, 1] 5) oneDB = (Inl DimensionMismatchError, oneDB) \<and>
   (\<exists>db1. update demoEnv demoConfig ''17-abc'' (byVector [0, 1]) tick2 oneDB =
        (Inl DimensionMismatchError, db1) \<and> observable db1 = observable oneDB) \<and>
   (\<exists>e db1. insertBatch demoEnv demoConfig textBatch oneDB = (Inl e, db1) \<and>
        storage db1 = storage oneDB \<and> indexManager db1 = indexManager oneDB) \<and>
   (\<exists>db1. insertBatch demoEnv demoConfig mixedBatch oneDB = (Inl DimensionMismatchError, db1) \<and>
        storage db1 = storage oneDB \<and> indexManager db1 = indexManager oneDB \<and>
        embeddingCache db1 = embeddingCache oneDB) \<and>
   (\<exists>db1. import demoEnv demoConfig (envelope ''1.0.0'' 512 [] []) defaultImport fixedClock oneDB =
        (Inl DimensionMismatchError, db1) \<and> observable db1 = observable oneDB) \<and>
   fst (import demoEnv demoConfig (envelope ''1.0.0'' 3 [shortVector] []) keepExisting fixedClock
          oneDB) = Inl DimensionMismatchError \<and>
   observable (snd (import demoEnv demoConfig (envelope ''1.0.0'' 3 [shortVector] []) keepExisting
          fixedClock oneDB)) = observable oneDB"
proof -
  have i: "initialized oneDB"
    by (simp add: oneDB_eq emptyDB_def newVectorDB_def)
  have w: "length [0, 1 :: real] \<noteq> dimensions demoConfig"
    by (simp add: demoConfig_def)
  note r = dimension_mismatch_rules [OF i w]
  have 1: "insert_db demoEnv demoConfig (byVector [0, 1]) tick2 oneDB =
      (Inl DimensionMismatchError, oneDB)"
    using r [where data = "byVector [0, 1]" and env = demoEnv and sm = "[]" and tk = tick2]
    by (simp add: byVector_def demoEnv_def)
  have 2: "search demoEnv demoConfig (queryBy [0, 1] 5) oneDB = (Inl DimensionMismatchError, oneDB)"
    using r [where query = "queryBy [0, 1] 5" and env = demoEnv]
    by (simp add: queryBy_def demoEnv_def)
  have 3: "\<exists>db1. update demoEnv demoConfig ''17-abc'' (byVector [0, 1]) tick2 oneDB =
        (Inl DimensionMismatchError, db1) \<and> observable db1 = observable oneDB"
    using r [where data = "byVector [0, 1]" and env = demoEnv and i = "''17-abc''" and tk = tick2
        and existing = "demoRecord tick1 [1, 0, 0]" and sm' = "[]"]
    by (simp add: byVector_def sanitizedFor_def oneDB_eq st_get_def demoRecord_def newRecord_def
        emptyDB_def newVectorDB_def generateId_def decimal.simps tick1_def digit_def)
  have 7: "\<exists>e db1. insertBatch demoEnv demoConfig textBatch oneDB = (Inl e, db1) \<and>
        storage db1 = storage oneDB \<and> indexManager db1 = indexManager oneDB"
    using r [where items = textBatch and env = demoEnv]
    by (simp add: textBatch_def wrongVector_def byVector_def byText_def demoConfig_def)
  have 4: "\<exists>db1. insertBatch demoEnv demoConfig mixedBatch oneDB =
        (Inl DimensionMismatchError, db1) \<and>
        storage db1 = storage oneDB \<and> indexManager db1 = indexManager oneDB \<and>
        embeddingCache db1 = embeddingCache oneDB"
    using r [where items = mixedBatch and env = demoEnv]
    by (simp add: mixedBatch_def hasVector_def sanitizes_def wrongVector_def byVector_def
        demoEnv_def demoConfig_def)
  have 5: "\<exists>db1. import demoEnv demoConfig (envelope ''1.0.0'' 512 [] []) defaultImport fixedClock
        oneDB = (Inl DimensionMismatchError, db1) \<and> observable db1 = observable oneDB"
    using r [where envl = "envelope ''1.0.0'' 512 [] []" and options = defaultImport
        and ver = "''1.0.0''" and env = demoEnv and clock = fixedClock
        and m = "\<lparr>exportedAt = 50, vectorCount = Some 0, dimensions_x = Some 512\<rparr>"]
    by (simp add: envelope_def schemaValid_def truthy_def versionAccepted_def versionParts_def
        parseInt_def isWhiteSpace_def isDigit_def digitValue_def demoConfig_def)
  have 6: "fst (import demoEnv demoConfig (envelope ''1.0.0'' 3 [shortVector] []) keepExisting
          fixedClock oneDB) = Inl DimensionMismatchError \<and>
      observable (snd (import demoEnv demoConfig (envelope ''1.0.0'' 3 [shortVector] [])
          keepExisting fixedClock oneDB)) = observable oneDB"
    using r [where envl = "envelope ''1.0.0'' 3 [shortVector] []" and options = keepExisting
        and ver = "''1.0.0''" and env = demoEnv and clock = fixedClock and vs = "[shortVector]"
        and m = "\<lparr>exportedAt = 50, vectorCount = Some 1, dimensions_x = Some 3\<rparr>"]
    by (simp add: envelope_def schemaValid_def truthy_def versionAccepted_def versionParts_def
        parseInt_def isWhiteSpace_def isDigit_def digitValue_def demoConfig_def
        keepExisting_def shortVector_def wellFormedVector_def wrongLength_def)
  from 1 2 3 4 5 6 7 show ?thesis by blast
qed

text \<open>
  Claim C2 as stated fails in four places. An \<^verbatim>\<open>update\<close> of an id that is not stored,
  given a two-dimensional vector, does not fail: it returns false. An \<^verbatim>\<open>import\<close> with the
  default \<^verbatim>\<open>clearExisting\<close> of an envelope whose one record has a two-dimensional vector
  fails with \<^verbatim>\<open>DimensionMismatch\<close> after \<^verbatim>\<open>clear()\<close> has run: the stored record is gone.
  An \<^verbatim>\<open>insertBatch\<close> whose second document has a two-dimensional vector fails with
  \<^verbatim>\<open>DimensionMismatch\<close> after the first document's record was put into the vector cache.
  An \<^verbatim>\<open>insertBatch\<close> whose first document is a text and whose second has a two-dimensional
  vector fails with \<^verbatim>\<open>DimensionMismatch\<close> after the embedding of the text was cached.
\<close>

theorem dimension_mismatch_counterexample:
  "fst (update demoEnv demoConfig ''absent'' (byVector [0, 1]) tick2 oneDB) = Inr False \<and>
   fst (import demoEnv demoConfig (envelope ''1.0.0'' 3 [shortVector] []) defaultImport fixedClock
          oneDB) = Inl DimensionMismatchError \<and>
   storage oneDB = [demoRecord tick1 [1, 0, 0]] \<and>
   storage (snd (import demoEnv demoConfig (envelope ''1.0.0'' 3 [shortVector] []) defaultImport
          fixedClock oneDB)) = [] \<and>
   fst (insertBatch demoEnv demoConfig mixedBatch oneDB) = Inl DimensionMismatchError \<and>
   vectorCache oneDB = [(''17-abc'', demoRecord tick1 [1, 0, 0], 144)] \<and>
   vectorCache (snd (insertBatch demoEnv demoConfig mixedBatch oneDB)) =
     [(''17-abc'', demoRecord tick1 [1, 0, 0], 144), (''19-abd'', demoRecord tick2 [0, 1, 0], 144)] \<and>
   fst (insertBatch demoEnv demoConfig textBatch oneDB) = Inl DimensionMismatchError \<and>
   embeddingCache oneDB = [] \<and>
   embeddingCache (snd (insertBatch demoEnv demoConfig textBatch oneDB)) =
     [(''hello'', [1, 0, 0])]"
  by (simp add: oneDB_eq update_def storage_get_def st_get_def eval_simps insert_simps run_simps
      toRecords.simps embedText_def getCachedEmbedding_def ensureModelsLoaded_def
      cacheEmbedding_def textBatch_def byText_def)

subsection \<open>Import with a corrupted index\<close>

text \<open>
  Claim C3. Let an envelope pass the checks of \<^verbatim>\<open>import\<close> (schema, version, dimensions,
  count, every record well-formed) and let its non-empty \<^verbatim>\<open>index\<close> field fail to
  deserialize. On an initialized database whose stored vectors have the configured
  dimension (or with \<^verbatim>\<open>clearExisting\<close>), \<^verbatim>\<open>import\<close> does not throw: after the failed
  \<^verbatim>\<open>deserialize\<close> it warns and rebuilds the index by \<^verbatim>\<open>getAll\<close>, \<^verbatim>\<open>clear\<close> and
  \<^verbatim>\<open>addBatch\<close>, so that the index holds exactly the stored records. A following search by
  a vector of the right length (no filter, \<open>k\<close> positive) returns as its first result a
  stored record whose score is the best among all stored records; for a query equal to a
  stored vector no stored record scores better than the top result.
\<close>

theorem import_corrupted_index_rebuilds:
  assumes init: "initialized db"
    and schema: "validateSchema options \<longrightarrow> schemaValid data"
    and ver: "version data = Some ver" "versionAccepted ver"
    and md: "metadata_e data = Some m" "dimensions_x m = Some (int (dimensions cfg))"
    and vs: "vectors data = Some vs" "vectorCount m = Some (int (length vs))"
    and recs: "toRecords (dimensions cfg) clock 0 vs = Inr records"
    and corrupt: "index data \<noteq> []" "deserializeFails env cfg (index data)"
    and dims: "clearExisting options \<or> list_all (hasDimension (dimensions cfg)) (storage db)"
  shows "\<exists>db'. import env cfg data options clock db = (Inr (), db') \<and>
     storage db' = st_putBatch records (if clearExisting options then [] else storage db) \<and>
     indexManager db' = storage db' \<and>
     (\<exists>before. calls db' = before @
        [IndexDeserialize,
         ConsoleWarn ''Failed to deserialize index, rebuilding from vectors...'',
         StorageGetAll, IndexClear] @
        (if storage db' = [] then [] else [IndexAddBatch (map id_r (storage db'))])) \<and>
     (validateSearchQuery env (k_q query) = None \<and> vector_q query = Some v \<and>
      length v = dimensions cfg \<and> filter_q query = None \<and> 0 < k_q query \<and>
      storage db' \<noteq> [] \<longrightarrow>
        (\<exists>top rest db2. search env cfg query db' = (Inr (top # rest), db2) \<and>
           id_s top \<in> id_r ` set (storage db') \<and>
           (\<forall>r\<in>set (storage db').
              rank (metric cfg) (score top) \<le> rank (metric cfg) (similarity env v (vector r)))))"
proof -
  let ?db0 = "afterVersionCheck ver db"
  let ?db1 = "afterClear cfg options ?db0"
  let ?db2 = "?db1\<lparr>storage := st_putBatch records (storage ?db1),
                 calls := calls ?db1 @
                   map (\<lambda>c. StoragePutBatch (map id_r c))
                     (chunked (effectiveChunkSize cfg) records)\<rparr>"
  let ?tail = "[IndexDeserialize,
       ConsoleWarn ''Failed to deserialize index, rebuilding from vectors...'',
       StorageGetAll, IndexClear] @
      (if storage ?db2 = [] then [] else [IndexAddBatch (map id_r (storage ?db2))])"
  let ?db3 = "?db2\<lparr>indexManager := storage ?db2, calls := calls ?db2 @ ?tail\<rparr>"
  have init0: "initialized ?db0" using init by simp
  note c = afterClear_facts [OF init0, where options = options and cfg = cfg]
  have st1: "list_all (hasDimension (dimensions cfg)) (storage ?db1)"
    using dims c(2) by (auto simp: afterVersionCheck_def logCall_def)
  have st2: "list_all (hasDimension (dimensions cfg)) (storage ?db2)"
    using st1 toRecords_dims [OF recs] by (simp add: st_putBatch_all)
  have r: "restoreIndex env cfg (index data) ?db2 = (Inr (), ?db3)"
    using restoreIndex_corrupted [OF corrupt st2] by simp
  have body: "importData env cfg data options clock ?db0 = (Inr (), ?db3)"
    unfolding importData_def
    apply (rule bindI [where x = m and ?db1.0 = ?db0])
     apply (simp add: md return_def)
    apply (rule bindI [where x = vs and ?db1.0 = ?db0])
     apply (simp add: vs return_def)
    apply (rule bindI, rule c(1))
    apply (rule bindI [where x = records and ?db1.0 = ?db1])
     apply (simp add: lift_def recs)
    apply (rule bindI, rule importInBatches_eq)
    apply (rule r)
    done
  have imp: "import env cfg data options clock db = (Inr (), ?db3)"
    using import_checked [OF init schema ver, of env cfg clock] body
    by (simp add: rethrow_def)
  have s3: "storage ?db3 = st_putBatch records (if clearExisting options then [] else storage db)"
    using c(2) by (simp add: afterVersionCheck_def logCall_def)
  have i3: "indexManager ?db3 = storage ?db3" by simp
  have c3: "calls ?db3 = calls ?db2 @
        [IndexDeserialize,
         ConsoleWarn ''Failed to deserialize index, rebuilding from vectors...'',
         StorageGetAll, IndexClear] @
        (if storage ?db3 = [] then [] else [IndexAddBatch (map id_r (storage ?db3))])"
    by simp
  have init3: "initialized ?db3" using c(3) by simp
  have srch: "\<exists>top rest db2. search env cfg query ?db3 = (Inr (top # rest), db2) \<and>
           id_s top \<in> id_r ` set (storage ?db3) \<and>
           (\<forall>r\<in>set (storage ?db3).
              rank (metric cfg) (score top) \<le> rank (metric cfg) (similarity env v (vector r)))"
    if "validateSearchQuery env (k_q query) = None \<and> vector_q query = Some v \<and>
      length v = dimensions cfg \<and> filter_q query = None \<and> 0 < k_q query \<and>
      storage ?db3 \<noteq> []"
    using search_top [OF init3, of env query v cfg] that i3 by auto
  show ?thesis
    apply (rule exI [of _ ?db3])
    apply (intro conjI)
        apply (rule imp)
       apply (rule s3)
      apply (rule i3)
     apply (rule exI [of _ "calls ?db2"], rule c3)
    using srch apply blast
    done
qed

theorem import_corrupted_index_rebuilds_witness:
  "\<exists>db'. import demoEnv demoConfig corruptedExport defaultImport fixedClock oneDB = (Inr (), db') \<and>
     storage db' = [demoRecord tick1 [1, 0, 0]] \<and>
     indexManager db' = [demoRecord tick1 [1, 0, 0]] \<and>
     (\<exists>top rest db2. search demoEnv demoConfig (queryBy [1, 0, 0] 1) db' = (Inr (top # rest), db2) \<and>
        id_s top = ''17-abc'')"
proof -
  let ?m = "\<lparr>exportedAt = 50, vectorCount = Some 1, dimensions_x = Some 3\<rparr>"
  let ?vs = "[toExport (demoRecord tick1 [1, 0, 0])]"
  let ?q = "queryBy [1, 0, 0] 1"
  have i: "initialized oneDB"
    by (simp add: oneDB_eq emptyDB_def newVectorDB_def)
  have h1: "validateSchema defaultImport \<longrightarrow> schemaValid corruptedExport"
    by (simp add: corruptedExport_def envelope_def schemaValid_def truthy_def)
  have h2: "version corruptedExport = Some ''1.0.0''"
    by (simp add: corruptedExport_def envelope_def)
  have h3: "versionAccepted ''1.0.0''"
    by (simp add: versionAccepted_def versionParts_def parseInt_def isWhiteSpace_def isDigit_def
        digitValue_def)
  have h4: "metadata_e corruptedExport = Some ?m"
    by (simp add: corruptedExport_def envelope_def)
  have h5: "dimensions_x ?m = Some (int (dimensions demoConfig))"
    by (simp add: demoConfig_def)
  have h6: "vectors corruptedExport = Some ?vs"
    by (simp add: corruptedExport_def envelope_def)
  have h7: "vectorCount ?m = Some (int (length ?vs))"
    by simp
  have id: "id_r (demoRecord tick1 [1, 0, 0]) = ''17-abc''"
    by (simp add: demoRecord_def newRecord_def generateId_def decimal.simps digit_def tick1_def)
  have h8: "toRecords (dimensions demoConfig) fixedClock 0 ?vs = Inr [demoRecord tick1 [1, 0, 0]]"
    using id
    by (simp add: toExport_def demoConfig_def)
      (simp add: demoRecord_def newRecord_def tick1_def)
  have h9: "index corruptedExport \<noteq> []"
    by (simp add: corruptedExport_def envelope_def)
  have h10: "deserializeFails demoEnv demoConfig (index corruptedExport)"
    by (simp add: corruptedExport_def envelope_def deserializeFails_def demoEnv_def)
  have h11: "clearExisting defaultImport \<or>
      list_all (hasDimension (dimensions demoConfig)) (storage oneDB)"
    by (simp add: defaultImport_def)
  have q: "validateSearchQuery demoEnv (k_q ?q) = None \<and> vector_q ?q = Some [1, 0, 0] \<and>
      length [1, 0, 0 :: real] = dimensions demoConfig \<and> filter_q ?q = None \<and> 0 < k_q ?q"
    by (simp add: queryBy_def demoEnv_def demoConfig_def)
  from import_corrupted_index_rebuilds [OF i h1 h2 h3 h4 h5 h6 h7 h8 h9 h10 h11,
      of ?q "[1, 0, 0]"]
  obtain db' where
    r: "import demoEnv demoConfig corruptedExport defaultImport fixedClock oneDB = (Inr (), db')"
      "storage db' =
         st_putBatch [demoRecord tick1 [1, 0, 0]]
           (if clearExisting defaultImport then [] else storage oneDB)"
      "indexManager db' = storage db'"
      "validateSearchQuery demoEnv (k_q ?q) = None \<and> vector_q ?q = Some [1, 0, 0] \<and>
       length [1, 0, 0 :: real] = dimensions demoConfig \<and> filter_q ?q = None \<and> 0 < k_q ?q \<and>
       storage db' \<noteq> [] \<longrightarrow>
        (\<exists>top rest db2. search demoEnv demoConfig ?q db' = (Inr (top # rest), db2) \<and>
           id_s top \<in> id_r ` set (storage db') \<and>
           (\<forall>r\<in>set (storage db').
              rank (metric demoConfig) (score top) \<le>
              rank (metric demoConfig) (similarity demoEnv [1, 0, 0] (vector r))))"
    by blast
  have s: "storage db' = [demoRecord tick1 [1, 0, 0]]"
    using r(2) by (simp add: defaultImport_def)
  from r(4) q s obtain top rest db2 where
    "search demoEnv demoConfig ?q db' = (Inr (top # rest), db2)"
    "id_s top \<in> id_r ` set (storage db')"
    by auto
  with r(1,3) s id show ?thesis by auto
qed

subsection \<open>Export followed by import\<close>

text \<open>
  The embedding cache stays sound through the preparation of a vector, and a prepared
  vector has the configured dimension.
\<close>

lemma getCachedEmbedding_sound:
  assumes "embeddingsSound env cfg db" "getCachedEmbedding t db = (r, db1)"
  shows "embeddingsSound env cfg db1 \<and> (\<forall>c. r = Some c \<longrightarrow> length c = dimensions cfg)"
proof (cases "map_of (embeddingCache db) t")
  case None
  then show ?thesis using assms by (simp add: getCachedEmbedding_def)
next
  case (Some v)
  then have "(t, v) \<in> set (embeddingCache db)" by (rule map_of_SomeD)
  then show ?thesis
    using assms Some by (fastforce simp: getCachedEmbedding_def embeddingsSound_def)
qed

lemma ensureModelsLoaded_sound:
  assumes "embeddingsSound env cfg db" "ensureModelsLoaded env cfg db = (r, db1)"
  shows "embeddingsSound env cfg db1 \<and> (r = Inr () \<longrightarrow> modelsLoaded db1)"
  using assms
  by (auto simp: ensureModelsLoaded_def embeddingsSound_def split: sum.splits if_splits)

lemma cacheEmbedding_sound:
  assumes "embeddingsSound env cfg db" "modelsLoaded db" "length v = dimensions cfg"
    "embed env t = Inr v"
  shows "embeddingsSound env cfg (cacheEmbedding cfg t v db)"
  using assms
  by (auto simp: cacheEmbedding_def embeddingsSound_def Let_def dest!: in_set_dropD)

lemma embedText_sound:
  assumes "embeddingsSound env cfg db" "embedText env cfg t db = (r, db1)"
  shows "embeddingsSound env cfg db1 \<and> (\<forall>v. r = Inr v \<longrightarrow> length v = dimensions cfg)"
proof -
  obtain r0 db0 where e: "ensureModelsLoaded env cfg db = (r0, db0)"
    by (cases "ensureModelsLoaded env cfg db")
  note s = ensureModelsLoaded_sound [OF assms(1) e]
  show ?thesis
  proof (cases r0)
    case (Inl x)
    then show ?thesis using assms(2) e s by (auto simp: embedText_def andThen_def)
  next
    case (Inr u)
    show ?thesis
    proof (cases "embed env t")
      case (Inl x)
      then show ?thesis
        using assms(2) e s Inr by (auto simp: embedText_def andThen_def lift_def)
    next
      case v: (Inr v)
      show ?thesis
      proof (cases "length v = dimensions cfg")
        case False
        then show ?thesis
          using assms(2) e s Inr v
          by (auto simp: embedText_def andThen_def lift_def validateVector_def throw_def)
      next
        case True
        have "embeddingsSound env cfg (cacheEmbedding cfg t v db0)"
          using cacheEmbedding_sound [of env cfg db0 v t] s Inr True v by simp
        then show ?thesis
          using assms(2) e Inr v True
          by (auto simp: embedText_def andThen_def lift_def validateVector_def return_def)
      qed
    qed
  qed
qed

lemma prepareVector_sound:
  assumes "embeddingsSound env cfg db" "prepareVector env cfg data db = (r, db1)"
  shows "embeddingsSound env cfg db1 \<and> (\<forall>v. r = Inr v \<longrightarrow> length v = dimensions cfg)"
proof (cases "vector_d data")
  case (Some v)
  then show ?thesis
    using assms
    by (auto simp: prepareVector_def andThen_def validateVector_def throw_def return_def
        split: if_splits)
next
  case None
  show ?thesis
  proof (cases "truthy (text_d data)")
    case False
    then show ?thesis using assms None by (auto simp: prepareVector_def throw_def)
  next
    case True
    obtain c db0 where g: "getCachedEmbedding (the (text_d data)) db = (c, db0)"
      by (cases "getCachedEmbedding (the (text_d data)) db")
    note s = getCachedEmbedding_sound [OF assms(1) g]
    show ?thesis
    proof (cases c)
      case (Some cached)
      then show ?thesis using assms(2) None True g s by (auto simp: prepareVector_def)
    next
      case n: None
      then have "embedText env cfg (the (text_d data)) db0 = (r, db1)"
        using assms(2) None True g by (simp add: prepareVector_def)
      from embedText_sound [OF _ this] s show ?thesis by simp
    qed
  qed
qed


lemma st_put_fresh: "id_r r \<notin> id_r ` set s \<Longrightarrow> st_put r s = s @ [r]"
  by (induction s) auto

lemma st_putBatch_fresh:
  "distinct (map id_r rs) \<Longrightarrow> id_r ` set rs \<inter> id_r ` set s = {} \<Longrightarrow>
     st_putBatch rs s = s @ rs"
proof (induction rs arbitrary: s)
  case Nil
  then show ?case by simp
next
  case (Cons r rs)
  have "st_put r s = s @ [r]"
    using Cons.prems(2) by (intro st_put_fresh) auto
  moreover have "st_putBatch rs (s @ [r]) = (s @ [r]) @ rs"
    using Cons.prems by (intro Cons.IH) auto
  ultimately show ?case by simp
qed

lemma set_vc_evict: "set (vc_evict B n c) \<subseteq> set c"
  by (induction c) auto

lemma set_vc_set: "e \<in> set (vc_set B i r n c) \<Longrightarrow> e = (i, r, n) \<or> e \<in> set c"
  using set_vc_evict [of B n "vc_delete i c"]
  by (auto simp: vc_set_def vc_delete_def split: if_splits)

lemma decimal_nonempty: "decimal n \<noteq> []"
  by (subst decimal.simps) simp

lemma generateId_nonempty: "generateId tk \<noteq> []"
  by (simp add: generateId_def decimal_nonempty)

lemma newRecord_fields [simp]:
  "id_r (newRecord sm data tk v) = generateId tk"
  "vector (newRecord sm data tk v) = v"
  "timestamp (newRecord sm data tk v) = recordTime tk"
  by (simp_all add: newRecord_def)

lemma same_id_same_record:
  "distinct (map id_r rs) \<Longrightarrow> x \<in> set rs \<Longrightarrow> y \<in> set rs \<Longrightarrow> id_r x = id_r y \<Longrightarrow> x = y"
  by (meson distinct_map inj_on_def)

lemma insert_preserves:
  assumes inv: "invariant env cfg db" and fresh: "freshTick db tk"
    and step: "insert_db env cfg data tk db = (r, db')"
  shows "invariant env cfg db'"
proof (cases "validateAndSanitizeMetadata env (metadata_d data)")
  case (Inl e)
  then have "db' = db"
    using step inv by (auto simp: insert_db_def andThen_def rethrow_def lift_def invariant_def)
  then show ?thesis using inv by simp
next
  case (Inr sm)
  obtain pr db1 where p: "prepareVector env cfg data db = (pr, db1)"
    by (cases "prepareVector env cfg data db")
  note f = prepareVector_frame [OF p]
  have snd1: "embeddingsSound env cfg db1"
    and len: "\<And>v. pr = Inr v \<Longrightarrow> length v = dimensions cfg"
    using prepareVector_sound [OF _ p] inv by (auto simp: invariant_def)
  have inv1: "invariant env cfg db1"
    using inv f snd1 by (simp add: invariant_def cacheCoherent_def)
  show ?thesis
  proof (cases pr)
    case (Inl e)
    then have "db' = db1"
      using step inv Inr p
      by (auto simp: insert_db_def andThen_def rethrow_def lift_def invariant_def)
    then show ?thesis using inv1 by simp
  next
    case v: (Inr v)
    let ?r = "newRecord sm data tk v"
    let ?i = "generateId tk"
    have lv: "length v = dimensions cfg" using len v by simp
    have d: "db' = db1\<lparr>
       storage := st_put ?r (storage db1),
       vectorCache := vc_set (cacheBytes cfg) ?i ?r (recordSize env ?r) (vectorCache db1),
       indexManager := indexManager db1 @ [?r],
       calls := calls db1 @
         [if batchOptimizer cfg then CoalescerPut ?i else StoragePut ?i, CacheSet ?i, IndexAdd ?i]\<rparr>"
      using step inv Inr p v lv
      by (auto simp: insert_db_def andThen_def rethrow_def lift_def invariant_def
          batch_put_def storage_put_def vectorCache_set_def index_add_def ix_add_def
          logCall_def return_def)
    have fr: "?i \<notin> id_r ` set (storage db1)" "?i \<notin> fst ` set (vectorCache db1)"
      "0 < recordTime tk"
      using fresh f by (simp_all add: freshTick_def)
    have sp: "st_put ?r (storage db1) = storage db1 @ [?r]"
      using fr(1) by (intro st_put_fresh) simp
    have coh: "cacheCoherent db'"
      unfolding cacheCoherent_def
    proof (intro ballI impI)
      fix e x
      assume e: "e \<in> set (vectorCache db')" and x: "x \<in> set (storage db')"
        and eq: "id_r x = fst e"
      from e have "e = (?i, ?r, recordSize env ?r) \<or> e \<in> set (vectorCache db1)"
        by (auto simp: d dest: set_vc_set)
      then show "x = fst (snd e)"
      proof
        assume en: "e = (?i, ?r, recordSize env ?r)"
        then have "id_r x \<notin> id_r ` set (storage db1)" using eq fr(1) by simp
        then have "x \<notin> set (storage db1)" by blast
        with x en show ?thesis by (simp add: d sp)
      next
        assume old: "e \<in> set (vectorCache db1)"
        then have "fst e \<in> fst ` set (vectorCache db1)" by (rule imageI)
        then have "fst e \<noteq> ?i" using fr(2) by metis
        with x eq have "x \<in> set (storage db1)" by (auto simp: d sp)
        with old eq inv1 show ?thesis by (auto simp: invariant_def cacheCoherent_def)
      qed
    qed
    have "embeddingsSound env cfg db'"
      using snd1 by (simp add: d embeddingsSound_def)
    moreover have "distinct (map id_r (storage db'))"
      using inv1 fr(1) by (simp add: d sp invariant_def)
    moreover have "list_all (storedWell (dimensions cfg)) (storage db')"
      using inv1 fr(3) lv by (simp add: d sp invariant_def storedWell_def generateId_nonempty)
    moreover have "indexManager db' = storage db'"
      using inv1 by (simp add: d sp invariant_def)
    moreover have "initialized db' \<and> 0 < dimensions cfg"
      using inv1 by (simp add: d invariant_def)
    ultimately show ?thesis using coh by (simp add: invariant_def)
  qed
qed


lemma prepareRecords_sound:
  "embeddingsSound env cfg db \<Longrightarrow> prepareRecords env cfg items db = (res, db1) \<Longrightarrow>
     embeddingsSound env cfg db1 \<and>
     (\<forall>records. res = Inr records \<longrightarrow>
        map id_r records = map (generateId \<circ> snd) items \<and>
        map timestamp records = map (recordTime \<circ> snd) items \<and>
        list_all (\<lambda>r. length (vector r) = dimensions cfg) records)"
proof (induction items arbitrary: db res db1)
  case Nil
  then show ?case by (auto simp: return_def)
next
  case (Cons item rest)
  show ?case
  proof (cases rule: prepareRecords_Cons_cases [of env item cfg rest db])
    case (bad_metadata e)
    then show ?thesis using Cons.prems by (auto simp del: prepareRecords.simps)
  next
    case (bad_vector sm e dbp)
    then show ?thesis using Cons.prems prepareVector_sound [OF Cons.prems(1) bad_vector(2)]
      by (auto simp del: prepareRecords.simps)
  next
    case (prepared sm v dbp res2 db2)
    have s: "embeddingsSound env cfg dbp" and l: "length v = dimensions cfg"
      using prepareVector_sound [OF Cons.prems(1) prepared(2)] by simp_all
    have "embeddingsSound env cfg
       (logCall (CacheSet (generateId (snd item)))
           (dbp\<lparr>vectorCache := vc_set (cacheBytes cfg) (generateId (snd item))
              (newRecord sm (fst item) (snd item) v)
              (recordSize env (newRecord sm (fst item) (snd item) v)) (vectorCache dbp)\<rparr>))"
      using s by (simp add: embeddingsSound_def logCall_def)
    from Cons.IH [OF this prepared(3)] show ?thesis
      using Cons.prems(2) prepared(4) l
      by (auto simp del: prepareRecords.simps split: sum.splits)
  qed
qed

lemma prepareRecords_cache:
  "prepareRecords env cfg items db = (res, db1) \<Longrightarrow> e \<in> set (vectorCache db1) \<Longrightarrow>
     e \<in> set (vectorCache db) \<or>
     (fst e \<in> set (map (generateId \<circ> snd) items) \<and>
      (\<forall>records. res = Inr records \<longrightarrow> fst (snd e) \<in> set records \<and> id_r (fst (snd e)) = fst e))"
proof (induction items arbitrary: db res db1)
  case Nil
  then show ?case by (auto simp: return_def)
next
  case (Cons item rest)
  show ?case
  proof (cases rule: prepareRecords_Cons_cases [of env item cfg rest db])
    case (bad_metadata e)
    then show ?thesis using Cons.prems by (auto simp del: prepareRecords.simps)
  next
    case (bad_vector sm e dbp)
    then show ?thesis using Cons.prems prepareVector_frame [OF bad_vector(2)]
      by (auto simp del: prepareRecords.simps)
  next
    case (prepared sm v dbp res2 db2)
    let ?r = "newRecord sm (fst item) (snd item) v"
    let ?i = "generateId (snd item)"
    have d: "db1 = db2" "res = (case res2 of Inl e \<Rightarrow> Inl e | Inr records \<Rightarrow> Inr (?r # records))"
      using Cons.prems(1) prepared(4) by (simp_all del: prepareRecords.simps)
    have e2: "e \<in> set (vectorCache db2)" using Cons.prems(2) d by simp
    from Cons.IH [OF prepared(3) e2]
    have "e \<in> set (vc_set (cacheBytes cfg) ?i ?r (recordSize env ?r) (vectorCache dbp)) \<or>
      (fst e \<in> set (map (generateId \<circ> snd) rest) \<and>
      (\<forall>records. res2 = Inr records \<longrightarrow> fst (snd e) \<in> set records \<and> id_r (fst (snd e)) = fst e))"
      by (simp add: logCall_def)
    then consider (new) "e = (?i, ?r, recordSize env ?r)" | (old) "e \<in> set (vectorCache dbp)"
      | (later) "fst e \<in> set (map (generateId \<circ> snd) rest)"
         "\<forall>records. res2 = Inr records \<longrightarrow> fst (snd e) \<in> set records \<and> id_r (fst (snd e)) = fst e"
      using set_vc_set by blast
    then show ?thesis
    proof cases
      case new
      then show ?thesis using d(2) by (auto split: sum.splits)
    next
      case old
      then show ?thesis using prepareVector_frame [OF prepared(2)] by simp
    next
      case later
      then show ?thesis using d(2) by (auto split: sum.splits)
    qed
  qed
qed

lemma insertBatch_state:
  assumes "initialized db" and "prepareRecords env cfg items db = (res, db1)"
    and "\<And>records. res = Inr records \<Longrightarrow>
       list_all (\<lambda>r. length (vector r) = dimensions cfg) records"
  shows "snd (insertBatch env cfg items db) =
     (if items = [] then db else
      case res of Inl e \<Rightarrow> db1
      | Inr records \<Rightarrow> db1\<lparr>storage := st_putBatch records (storage db1),
               indexManager := indexManager db1 @ records,
               calls := calls db1 @ [StoragePutBatch (map id_r records),
                 IndexAddBatch (map id_r records)]\<rparr>)"
proof (cases res)
  case (Inl e)
  then show ?thesis
    using assms(1,2)
    by (simp add: insertBatch_def andThen_def rethrow_def ensureInitialized_def return_def
        split: sum.splits)
next
  case (Inr records)
  then have "\<not> list_ex (\<lambda>r. length (vector r) \<noteq> dimensions cfg) records"
    using assms(3) by (simp add: list_ex_iff list_all_iff)
  then show ?thesis
    using assms(1,2) Inr
    by (simp add: insertBatch_def andThen_def rethrow_def ensureInitialized_def return_def
        storage_putBatch_def index_addBatch_def ix_addBatch_def logCall_def)
qed

lemma insertBatch_preserves:
  assumes inv: "invariant env cfg db" and fresh: "freshTicks db (map snd items)"
    and step: "insertBatch env cfg items db = (r, db')"
  shows "invariant env cfg db'"
proof -
  obtain res db1 where p: "prepareRecords env cfg items db = (res, db1)"
    by (cases "prepareRecords env cfg items db")
  have snd0: "embeddingsSound env cfg db" and ini: "initialized db"
    using inv by (simp_all add: invariant_def)
  note f = prepareRecords_frame [OF p]
  note s = prepareRecords_sound [OF snd0 p]
  have ids: "distinct (map (generateId \<circ> snd) items)"
    and fr: "\<And>i. i \<in> set (map (generateId \<circ> snd) items) \<Longrightarrow>
        i \<notin> id_r ` set (storage db) \<and> i \<notin> fst ` set (vectorCache db)"
    and tm: "\<And>t. t \<in> set (map (recordTime \<circ> snd) items) \<Longrightarrow> 0 < t"
    using fresh by (auto simp: freshTicks_def freshTick_def list_all_iff comp_def)
  have st: "snd (insertBatch env cfg items db) =
     (if items = [] then db else
      case res of Inl e \<Rightarrow> db1
      | Inr records \<Rightarrow> db1\<lparr>storage := st_putBatch records (storage db1),
               indexManager := indexManager db1 @ records,
               calls := calls db1 @ [StoragePutBatch (map id_r records),
                 IndexAddBatch (map id_r records)]\<rparr>)"
    using s by (intro insertBatch_state [OF ini p]) simp
  have coh1: "x = fst (snd e)"
    if "e \<in> set (vectorCache db1)" "x \<in> set (storage db)" "id_r x = fst e" for e x
  proof -
    from prepareRecords_cache [OF p that(1)]
    show ?thesis
    proof
      assume "e \<in> set (vectorCache db)"
      with that inv show ?thesis by (auto simp: invariant_def cacheCoherent_def)
    next
      assume "fst e \<in> set (map (generateId \<circ> snd) items) \<and>
        (\<forall>records. res = Inr records \<longrightarrow> fst (snd e) \<in> set records \<and> id_r (fst (snd e)) = fst e)"
      then have "fst e \<notin> id_r ` set (storage db)" using fr by blast
      then have "id_r x \<notin> id_r ` set (storage db)" using that(3) by simp
      with that(2) show ?thesis by blast
    qed
  qed
  have "cacheCoherent db1"
    unfolding cacheCoherent_def
  proof (intro ballI impI)
    fix e x
    assume "e \<in> set (vectorCache db1)" "x \<in> set (storage db1)" "id_r x = fst e"
    then show "x = fst (snd e)" using coh1 [of e x] f by simp
  qed
  moreover have "embeddingsSound env cfg db1" using s by simp
  ultimately have inv1: "invariant env cfg db1"
    using inv f by (simp add: invariant_def)
  show ?thesis
  proof (cases "items = [] \<or> (\<exists>e. res = Inl e)")
    case True
    then have "db' = db \<or> db' = db1" using st step by auto
    then show ?thesis using inv inv1 by auto
  next
    case False
    then obtain records where r: "res = Inr records" and ne: "items \<noteq> []"
      by (cases res) auto
    have rid: "map id_r records = map (generateId \<circ> snd) items"
      and rtm: "map timestamp records = map (recordTime \<circ> snd) items"
      and rln: "list_all (\<lambda>r. length (vector r) = dimensions cfg) records"
      using s r by simp_all
    have dist: "distinct (map id_r records)" using ids rid by simp
    have idset: "id_r ` set records = set (map (generateId \<circ> snd) items)"
      unfolding rid [symmetric] by simp
    have tmset: "timestamp ` set records = set (map (recordTime \<circ> snd) items)"
      unfolding rtm [symmetric] by simp
    have disj: "id_r ` set records \<inter> id_r ` set (storage db1) = {}"
    proof -
      have "i \<notin> id_r ` set (storage db1)" if "i \<in> id_r ` set records" for i
        using that fr [of i] f idset by simp
      then show ?thesis by blast
    qed
    have sp: "st_putBatch records (storage db1) = storage db1 @ records"
      using dist disj by (rule st_putBatch_fresh)
    have d: "db' = db1\<lparr>storage := storage db1 @ records,
               indexManager := indexManager db1 @ records,
               calls := calls db1 @ [StoragePutBatch (map id_r records),
                 IndexAddBatch (map id_r records)]\<rparr>"
      using st step r ne sp by simp
    have well: "storedWell (dimensions cfg) x" if "x \<in> set records" for x
    proof -
      have "id_r x \<in> set (map (generateId \<circ> snd) items)"
        using that idset by blast
      then obtain it where "id_r x = generateId (snd it)" by auto
      then have a: "id_r x \<noteq> []" by (simp add: generateId_nonempty)
      have "timestamp x \<in> set (map (recordTime \<circ> snd) items)"
        using that tmset by blast
      then have b: "0 < timestamp x" by (rule tm)
      have "length (vector x) = dimensions cfg" using rln that by (simp add: list_all_iff)
      with a b show ?thesis by (simp add: storedWell_def)
    qed
    have coh: "cacheCoherent db'"
      unfolding cacheCoherent_def
    proof (intro ballI impI)
      fix e x
      assume e: "e \<in> set (vectorCache db')" and x: "x \<in> set (storage db')"
        and eq: "id_r x = fst e"
      have e1: "e \<in> set (vectorCache db1)" using e by (simp add: d)
      from x have "x \<in> set (storage db) \<or> x \<in> set records" using f by (auto simp: d)
      then show "x = fst (snd e)"
      proof
        assume "x \<in> set (storage db)"
        then show ?thesis using coh1 e1 eq by blast
      next
        assume xr: "x \<in> set records"
        then have xi: "id_r x \<in> set (map (generateId \<circ> snd) items)"
          using idset by blast
        from prepareRecords_cache [OF p e1] show ?thesis
        proof
          assume "e \<in> set (vectorCache db)"
          then have "fst e \<in> fst ` set (vectorCache db)" by (rule imageI)
          then show ?thesis using fr [OF xi] eq by simp
        next
          assume "fst e \<in> set (map (generateId \<circ> snd) items) \<and>
            (\<forall>records. res = Inr records \<longrightarrow>
               fst (snd e) \<in> set records \<and> id_r (fst (snd e)) = fst e)"
          then have "fst (snd e) \<in> set records" "id_r (fst (snd e)) = id_r x"
            using r eq by simp_all
          then show ?thesis using same_id_same_record [OF dist xr] by metis
        qed
      qed
    qed
    have "embeddingsSound env cfg db'"
      using inv1 by (simp add: d embeddingsSound_def invariant_def)
    moreover have "distinct (map id_r (storage db'))"
      using inv1 dist disj by (auto simp: d invariant_def)
    moreover have "list_all (storedWell (dimensions cfg)) (storage db')"
      using inv1 well by (simp add: d invariant_def list_all_iff) blast
    moreover have "indexManager db' = storage db'"
      using inv1 by (simp add: d invariant_def)
    moreover have "initialized db' \<and> 0 < dimensions cfg"
      using inv1 by (simp add: d invariant_def)
    ultimately show ?thesis using coh by (simp add: invariant_def)
  qed
qed

lemma foldl_snoc: "foldl (\<lambda>allRecords record. allRecords @ [record]) acc xs = acc @ xs"
  by (induction xs arbitrary: acc) simp_all

lemma export_eq:
  assumes "initialized db"
  shows "\<exists>db1. export env cfg options now db =
     (Inr \<lparr>version = Some ''1.0.0'', config_x = cfg,
           vectors = Some (map toExport (storage db)),
           index = (if includeIndex options
                    then encodeIndex env (dimensions cfg, indexManager db) else []),
           metadata_e = Some \<lparr>exportedAt = now, vectorCount = Some (int (length (storage db))),
                              dimensions_x = Some (int (dimensions cfg))\<rparr>\<rparr>, db1) \<and>
     db1 = db\<lparr>calls := calls db1\<rparr>"
  using assms
  by (simp add: export_def andThen_def wrapAll_def ensureInitialized_def batch_flush_def
      storage_count_def streamProcess_def index_serialize_def return_def logCall_def foldl_snoc)

lemma toRecords_toExport:
  "list_all (storedWell D) s \<Longrightarrow> toRecords D clock i (map toExport s) = Inr s"
  by (induction s arbitrary: i) (auto simp: toExport_def storedWell_def)

lemma versionAccepted_current: "versionAccepted ''1.0.0''"
  by (simp add: versionAccepted_def versionParts_def parseInt_def isWhiteSpace_def isDigit_def
      digitValue_def)

lemma afterVersionCheck_current: "afterVersionCheck ''1.0.0'' db = db"
  by (simp add: afterVersionCheck_def versionParts_def parseInt_def isWhiteSpace_def isDigit_def
      digitValue_def)

lemma restoreIndex_roundtrip:
  assumes "list_all (hasDimension (dimensions cfg)) (storage db)"
    and "s \<noteq> [] \<Longrightarrow> decodeIndex env s = Some (dimensions cfg, storage db)"
  shows "\<exists>db'. restoreIndex env cfg s db = (Inr (), db') \<and>
     db' = db\<lparr>indexManager := storage db, calls := calls db'\<rparr>"
proof (cases "s = []")
  case True
  then show ?thesis using rebuildIndex_eq [OF assms(1)] by (simp add: restoreIndex_def)
next
  case False
  then show ?thesis using assms(2)
    by (simp add: restoreIndex_def index_deserialize_def logCall_def)
qed


lemma import_of_export:
  assumes init: "initialized target"
    and dist: "distinct (map id_r s)"
    and well: "list_all (storedWell (dimensions cfg)) s"
    and pos: "0 < dimensions cfg"
    and clr: "clearExisting options"
    and codec: "ix \<noteq> [] \<Longrightarrow> decodeIndex env ix = Some (dimensions cfg, s)"
  shows "\<exists>db2. import env cfg
        \<lparr>version = Some ''1.0.0'', config_x = c,
         vectors = Some (map toExport s), index = ix,
         metadata_e = Some \<lparr>exportedAt = t, vectorCount = Some (int (length s)),
                            dimensions_x = Some (int (dimensions cfg))\<rparr>\<rparr> options clock target
       = (Inr (), db2) \<and>
     db2 = target\<lparr>storage := s, indexManager := s, vectorCache := [], embeddingCache := [],
              calls := calls db2\<rparr>"
proof -
  let ?m = "\<lparr>exportedAt = t, vectorCount = Some (int (length s)),
              dimensions_x = Some (int (dimensions cfg))\<rparr>"
  let ?vs = "map toExport s"
  let ?data = "\<lparr>version = Some ''1.0.0'', config_x = c, vectors = Some ?vs, index = ix,
         metadata_e = Some ?m\<rparr>"
  let ?db1 = "afterClear cfg options target"
  let ?db2 = "?db1\<lparr>storage := st_putBatch s (storage ?db1),
                 calls := calls ?db1 @
                   map (\<lambda>c. StoragePutBatch (map id_r c))
                     (chunked (effectiveChunkSize cfg) s)\<rparr>"
  note c = afterClear_facts [OF init, where options = options and cfg = cfg]
  have d1: "?db1 = target\<lparr>storage := [], indexManager := [], vectorCache := [],
      embeddingCache := [], calls := calls ?db1\<rparr>"
    using init clr by (simp add: afterClear_def clear_ok logCall_def)
  have s1: "storage ?db1 = []" using c(2) clr by simp
  have pb: "st_putBatch s [] = s"
    using st_putBatch_fresh [OF dist, of "[]"] by simp
  have s2: "storage ?db2 = s" using s1 pb by simp
  have "list_all (hasDimension (dimensions cfg)) s"
    using well by (simp add: list_all_iff storedWell_def hasDimension_def)
  then have hd: "list_all (hasDimension (dimensions cfg)) (storage ?db2)"
    using s2 by simp
  have "ix \<noteq> [] \<Longrightarrow> decodeIndex env ix = Some (dimensions cfg, storage ?db2)"
    using codec s2 by simp
  from restoreIndex_roundtrip [OF hd this]
  obtain db3 where r: "restoreIndex env cfg ix ?db2 = (Inr (), db3)"
    and d3: "db3 = ?db2\<lparr>indexManager := storage ?db2, calls := calls db3\<rparr>"
    by blast
  have body: "importData env cfg ?data options clock target = (Inr (), db3)"
    unfolding importData_def
    apply (rule bindI [where x = ?m and ?db1.0 = target])
     apply (simp add: return_def)
    apply (rule bindI [where x = ?vs and ?db1.0 = target])
     apply (simp add: return_def)
    apply (rule bindI, rule c(1))
    apply (rule bindI [where x = s and ?db1.0 = ?db1])
     apply (simp add: lift_def toRecords_toExport [OF well])
    apply (rule bindI, rule importInBatches_eq)
    using r apply simp
    done
  have sv: "validateSchema options \<longrightarrow> schemaValid ?data"
    using pos by (simp add: schemaValid_def truthy_def)
  have imp: "import env cfg ?data options clock target = (Inr (), db3)"
    using import_checked [OF init sv _ versionAccepted_current, of env cfg clock] body
    by (simp add: rethrow_def afterVersionCheck_current)
  have e1: "?db1\<lparr>storage := s, indexManager := s, calls := X\<rparr> =
      target\<lparr>storage := s, indexManager := s, vectorCache := [], embeddingCache := [],
        calls := X\<rparr>"
    for X
    by (subst d1) simp
  have e3: "db3 = ?db1\<lparr>storage := s, indexManager := s, calls := calls db3\<rparr>"
    by (subst d3) (simp add: s1 pb)
  have "db3 = target\<lparr>storage := s, indexManager := s, vectorCache := [], embeddingCache := [],
              calls := calls db3\<rparr>"
    by (subst e3) (rule e1)
  with imp show ?thesis by blast
qed

lemma st_get_member:
  "i \<in> id_r ` set s \<Longrightarrow> \<exists>x. st_get i s = Some x \<and> x \<in> set s \<and> id_r x = i"
  by (induction s) (auto simp: st_get_def)

lemma getVector_coherent:
  assumes coh: "cacheCoherent db" and dist: "distinct (map id_r (storage db))"
    and mem: "i \<in> id_r ` set (storage db)"
  shows "\<exists>db1. getVector env cfg i db = (Inr (st_get i (storage db)), db1) \<and>
     storage db1 = storage db \<and> cacheCoherent db1"
proof -
  from st_get_member [OF mem] obtain x where
    x: "st_get i (storage db) = Some x" "x \<in> set (storage db)" "id_r x = i"
    by blast
  show ?thesis
  proof (cases "find (\<lambda>e. fst e = i) (vectorCache db)")
    case None
    let ?db1 = "logCall (CacheSet i)
       (logCall (StorageGet i) (logCall (CacheGet i) db)
          \<lparr>vectorCache := vc_set (cacheBytes cfg) i x (recordSize env x) (vectorCache db)\<rparr>)"
    have g: "getVector env cfg i db = (Inr (Some x), ?db1)"
      using None x(1)
      by (simp add: getVector_def andThen_def storage_get_def vectorCache_set_def return_def
          logCall_def)
    have "cacheCoherent ?db1"
      unfolding cacheCoherent_def
    proof (intro ballI impI)
      fix e y
      assume e: "e \<in> set (vectorCache ?db1)" and y: "y \<in> set (storage ?db1)"
        and eq: "id_r y = fst e"
      from e have "e = (i, x, recordSize env x) \<or> e \<in> set (vectorCache db)"
        by (auto simp: logCall_def dest: set_vc_set)
      then show "y = fst (snd e)"
      proof
        assume en: "e = (i, x, recordSize env x)"
        have "y \<in> set (storage db)" using y by (simp add: logCall_def)
        then have "y = x" using same_id_same_record [OF dist _ x(2)] eq en x(3) by simp
        then show ?thesis using en by simp
      next
        assume "e \<in> set (vectorCache db)"
        moreover have "y \<in> set (storage db)" using y by (simp add: logCall_def)
        ultimately show ?thesis using coh eq by (auto simp: cacheCoherent_def)
      qed
    qed
    then show ?thesis using g x(1) by (auto simp: logCall_def)
  next
    case (Some e)
    then have e: "e \<in> set (vectorCache db)" "fst e = i"
      by (auto simp: find_Some_iff)
    let ?db1 = "logCall (CacheGet i) (db\<lparr>vectorCache := vc_delete i (vectorCache db) @ [e]\<rparr>)"
    have g: "getVector env cfg i db = (Inr (Some (fst (snd e))), ?db1)"
      using Some by (simp add: getVector_def)
    have "x = fst (snd e)" using coh e x by (auto simp: cacheCoherent_def)
    moreover have "cacheCoherent ?db1"
      using coh e(1) by (auto simp: cacheCoherent_def logCall_def vc_delete_def)
    ultimately show ?thesis using g x(1) by (auto simp: logCall_def)
  qed
qed

lemma hydrate_value:
  assumes "cacheCoherent db" and "distinct (map id_r (storage db))"
    and "id_s ` set rs \<subseteq> id_r ` set (storage db)"
  shows "fst (hydrate env cfg rs db) =
     Inr (map (\<lambda>result. case st_get (id_s result) (storage db) of
                  None \<Rightarrow> result
                | Some r \<Rightarrow> result\<lparr>vector_s := Some (vector r)\<rparr>) rs)"
  using assms
proof (induction rs arbitrary: db)
  case Nil
  then show ?case by (simp add: return_def)
next
  case (Cons result rest)
  have "id_s result \<in> id_r ` set (storage db)" using Cons.prems(3) by simp
  from getVector_coherent [OF Cons.prems(1,2) this, of env cfg]
  obtain db1 where g: "getVector env cfg (id_s result) db =
      (Inr (st_get (id_s result) (storage db)), db1)"
    and f: "storage db1 = storage db" and c1: "cacheCoherent db1"
    by blast
  have "fst (hydrate env cfg rest db1) =
     Inr (map (\<lambda>result. case st_get (id_s result) (storage db1) of
                  None \<Rightarrow> result
                | Some r \<Rightarrow> result\<lparr>vector_s := Some (vector r)\<rparr>) rest)"
    using Cons.prems f by (intro Cons.IH [OF c1]) simp_all
  then show ?case
    using g f
    by (cases "hydrate env cfg rest db1") (simp add: andThen_def return_def)
qed

lemma ix_search_ids: "id_s ` set (ix_search env m ix q n f) \<subseteq> id_r ` set ix"
proof -
  have "set (ix_search env m ix q n f) \<subseteq> set (map (toResult env q) ix)"
    unfolding ix_search_def
    by (rule subset_trans [OF set_take_subset]) auto
  then show ?thesis by (auto simp: toResult_def)
qed

lemma queryVector_frame:
  "queryVector env cfg query db = (r, db1) \<Longrightarrow>
     storage db1 = storage db \<and> indexManager db1 = indexManager db \<and>
     vectorCache db1 = vectorCache db \<and> initialized db1 = initialized db"
  by (auto simp: queryVector_def andThen_def lift_def return_def throw_def cacheEmbedding_def
      Let_def getCachedEmbedding_def
      dest!: ensureModelsLoaded_frame split: option.splits sum.splits prod.splits if_splits)


lemma queryVector_text:
  assumes snd: "embeddingsSound env cfg db" and q: "vector_q query = None" "truthy (text_q query)"
  shows "fst (queryVector env cfg query db) =
      (if modelsLoaded db then embed env (the (text_q query))
       else case generatorInitialize env of
              Inl e \<Rightarrow> Inl e
            | Inr d \<Rightarrow> if d \<noteq> dimensions cfg then Inl DimensionMismatchError
                       else embed env (the (text_q query)))"
proof (cases "map_of (embeddingCache db) (the (text_q query))")
  case None
  then show ?thesis
    using q
    by (auto simp: queryVector_def getCachedEmbedding_def andThen_def ensureModelsLoaded_def
        lift_def return_def split: sum.splits)
next
  case (Some v)
  then have "(the (text_q query), v) \<in> set (embeddingCache db)" by (rule map_of_SomeD)
  then have "embed env (the (text_q query)) = Inr v \<and> modelsLoaded db"
    using snd by (auto simp: embeddingsSound_def)
  then show ?thesis
    using q Some by (simp add: queryVector_def getCachedEmbedding_def)
qed

lemma queryVector_agree:
  assumes "embeddingsSound env cfg db" "embeddingsSound env cfg db'"
    "modelsLoaded db' = modelsLoaded db \<or> vector_q query \<noteq> None \<or> \<not> truthy (text_q query)"
  shows "fst (queryVector env cfg query db') = fst (queryVector env cfg query db)"
proof (cases "vector_q query = None \<and> truthy (text_q query)")
  case True
  then have "modelsLoaded db' = modelsLoaded db" using assms(3) by simp
  then show ?thesis
    using queryVector_text [OF assms(1), of query] queryVector_text [OF assms(2), of query]
      True
    by simp
next
  case False
  then show ?thesis
    by (auto simp: queryVector_def return_def throw_def split: option.splits)
qed

lemma andThen_agree:
  assumes "fst (m db') = fst (m db)"
    and "\<And>x db1 db1'. m db = (Inr x, db1) \<Longrightarrow> m db' = (Inr x, db1') \<Longrightarrow>
       fst (f x db1') = fst (f x db1)"
  shows "fst (andThen m f db') = fst (andThen m f db)"
proof -
  obtain r db1 where a: "m db = (r, db1)" by (cases "m db")
  obtain r' db1' where b: "m db' = (r', db1')" by (cases "m db'")
  have "r' = r" using assms(1) a b by simp
  then show ?thesis
    using a b assms(2) [of _ db1 db1']
    by (cases r) (simp_all add: andThen_def)
qed

lemma rethrow_agree:
  "fst (m db') = fst (m db) \<Longrightarrow> fst (rethrow c m db') = fst (rethrow c m db)"
  by (cases "m db"; cases "m db'") (auto simp: rethrow_def split: sum.splits)

lemma search_agree:
  assumes inv: "invariant env cfg db" and inv': "invariant env cfg db'"
    and st: "storage db' = storage db"
    and ml: "modelsLoaded db' = modelsLoaded db \<or> vector_q query \<noteq> None \<or>
      \<not> truthy (text_q query)"
  shows "fst (search env cfg query db') = fst (search env cfg query db)"
proof -
  let ?K = "\<lambda>results. if includeVectors query then hydrate env cfg results else return results"
  have found: "fst (andThen (index_search env cfg v (k_q query) (filter_q query)) ?K d') =
      fst (andThen (index_search env cfg v (k_q query) (filter_q query)) ?K d)"
    if "storage d' = storage db" "storage d = storage db"
      "indexManager d' = storage db" "indexManager d = storage db"
      "cacheCoherent d'" "cacheCoherent d" for v d d'
  proof (cases "length v \<noteq> dimensions cfg")
    case True
    then show ?thesis by (simp add: andThen_def index_search_def)
  next
    case False
    let ?rs = "ix_search env (metric cfg) (storage db) v (k_q query) (filter_q query)"
    have ids: "id_s ` set ?rs \<subseteq> id_r ` set (storage db)" by (rule ix_search_ids)
    have dist: "distinct (map id_r (storage db))" using inv by (simp add: invariant_def)
    have c: "cacheCoherent (logCall IndexSearch d)" "cacheCoherent (logCall IndexSearch d')"
      using that by (simp_all add: cacheCoherent_def logCall_def)
    have "fst (hydrate env cfg ?rs (logCall IndexSearch d')) =
        fst (hydrate env cfg ?rs (logCall IndexSearch d))"
      using hydrate_value [OF c(1), of ?rs env cfg] hydrate_value [OF c(2), of ?rs env cfg]
        dist ids that
      by (simp add: logCall_def)
    then show ?thesis
      using False that by (simp add: andThen_def index_search_def return_def)
  qed
  have coh: "cacheCoherent db" "cacheCoherent db'" "indexManager db = storage db"
    "indexManager db' = storage db" "embeddingsSound env cfg db" "embeddingsSound env cfg db'"
    "initialized db" "initialized db'"
    using inv inv' st by (simp_all add: invariant_def)
  have body: "fst (andThen (queryVector env cfg query) (\<lambda>v.
        andThen (validateVector v (dimensions cfg)) (\<lambda>_.
        andThen (index_search env cfg v (k_q query) (filter_q query)) ?K)) db') =
     fst (andThen (queryVector env cfg query) (\<lambda>v.
        andThen (validateVector v (dimensions cfg)) (\<lambda>_.
        andThen (index_search env cfg v (k_q query) (filter_q query)) ?K)) db)"
  proof (rule andThen_agree)
    show "fst (queryVector env cfg query db') = fst (queryVector env cfg query db)"
      using coh ml by (intro queryVector_agree)
  next
    fix v db1 db1'
    assume a: "queryVector env cfg query db = (Inr v, db1)"
      and b: "queryVector env cfg query db' = (Inr v, db1')"
    note fa = queryVector_frame [OF a] and fb = queryVector_frame [OF b]
    have "fst (andThen (index_search env cfg v (k_q query) (filter_q query)) ?K db1') =
      fst (andThen (index_search env cfg v (k_q query) (filter_q query)) ?K db1)"
      using fa fb coh st by (intro found) (simp_all add: cacheCoherent_def)
    then show "fst (andThen (validateVector v (dimensions cfg)) (\<lambda>_.
        andThen (index_search env cfg v (k_q query) (filter_q query)) ?K) db1') =
      fst (andThen (validateVector v (dimensions cfg)) (\<lambda>_.
        andThen (index_search env cfg v (k_q query) (filter_q query)) ?K) db1)"
      by (simp add: validateVector_def throw_def)
  qed
  let ?check = "lift (case validateSearchQuery env (k_q query) of
                         Some e \<Rightarrow> Inl e | None \<Rightarrow> Inr ())"
  let ?B = "andThen ?check (\<lambda>_.
        andThen (queryVector env cfg query) (\<lambda>v.
        andThen (validateVector v (dimensions cfg)) (\<lambda>_.
        andThen (index_search env cfg v (k_q query) (filter_q query)) ?K)))"
  have r: "fst (rethrow ''SEARCH_ERROR'' ?B db') = fst (rethrow ''SEARCH_ERROR'' ?B db)"
  proof (rule rethrow_agree, rule andThen_agree)
    show "fst (?check db') = fst (?check db)" by (simp add: lift_def)
  next
    fix x db1 db1'
    assume "?check db = (Inr x, db1)" "?check db' = (Inr x, db1')"
    then have "db1 = db" "db1' = db'" by (simp_all add: lift_def)
    then show "fst (andThen (queryVector env cfg query) (\<lambda>v.
        andThen (validateVector v (dimensions cfg)) (\<lambda>_.
        andThen (index_search env cfg v (k_q query) (filter_q query)) ?K)) db1') =
      fst (andThen (queryVector env cfg query) (\<lambda>v.
        andThen (validateVector v (dimensions cfg)) (\<lambda>_.
        andThen (index_search env cfg v (k_q query) (filter_q query)) ?K)) db1)"
      using body by simp
  qed
  have e: "andThen ensureInitialized f d = f () d" if "initialized d"
    for f :: "unit \<Rightarrow> SearchResult list action" and d
    using that by (simp add: andThen_def)
  show ?thesis
    unfolding search_def
    by (simp only: e [OF coh(7)] e [OF coh(8)] r)
qed

lemma initialize_invariant:
  assumes "validateConfig cfg = None" "initialize_db env cfg newVectorDB = (Inr (), db)"
  shows "invariant env cfg db"
proof -
  have "0 < dimensions cfg"
    using assms(1) by (simp add: validateConfig_def split: if_splits)
  moreover have "db = newVectorDB\<lparr>initialized := True\<rparr> \<or>
      db = newVectorDB\<lparr>modelsLoaded := True, initialized := True\<rparr>"
    using assms(2)
    by (auto simp: initialize_db_def newVectorDB_def split: if_splits sum.splits)
  ultimately show ?thesis
    by (auto simp: invariant_def newVectorDB_def cacheCoherent_def embeddingsSound_def)
qed

lemma reachable_invariant: "reachable env cfg db \<Longrightarrow> invariant env cfg db"
proof (induction rule: reachable.induct)
  case (start db)
  then show ?case by (rule initialize_invariant)
next
  case (insert db tk data r db')
  then show ?case using insert_preserves by blast
next
  case (insertBatch db items rs db')
  then show ?case using insertBatch_preserves by blast
qed

text \<open>
  Claim C1. Let the database be in a state reachable by \<^verbatim>\<open>insert\<close> and \<^verbatim>\<open>insertBatch\<close>,
  and let the index format read back what it wrote for the current index. Then \<^verbatim>\<open>export\<close>
  succeeds, and \<^verbatim>\<open>import\<close> of the exported envelope with \<^verbatim>\<open>clearExisting\<close> into any
  initialized database of the same configuration, whatever it holds in Storage, in the
  index and in its caches (the exporting database itself, that database after
  \<^verbatim>\<open>clear()\<close>, or another one), succeeds, whatever the other options of either call. The
  importing database then has the stored records of the exporting one (ids, vectors,
  metadata and timestamps, in the same order) and its index members; every export of it,
  taken at the same time with the same options, is the export of the original; and a
  search returns in it what it returns in the original, for every query by vector, and
  for a query by text when the two databases agree on whether the models are loaded.
\<close>

theorem export_import_roundtrip:
  assumes reach: "reachable env cfg db"
    and codec: "decodeIndex env (encodeIndex env (dimensions cfg, indexManager db)) =
       Some (dimensions cfg, indexManager db)"
    and target: "initialized target"
    and clr: "clearExisting importOptions"
  shows "\<exists>data db1 db2.
     export env cfg exportOptions now db = (Inr data, db1) \<and>
     import env cfg data importOptions clock target = (Inr (), db2) \<and>
     storage db2 = storage db \<and>
     indexManager db2 = indexManager db \<and>
     (\<forall>query. modelsLoaded target = modelsLoaded db \<or> vector_q query \<noteq> None \<or>
        \<not> truthy (text_q query) \<longrightarrow>
        fst (search env cfg query db2) = fst (search env cfg query db)) \<and>
     (\<forall>options t. fst (export env cfg options t db2) = fst (export env cfg options t db))"
proof -
  have inv: "invariant env cfg db" using reach by (rule reachable_invariant)
  then have i: "initialized db" and ix: "indexManager db = storage db"
    and dist: "distinct (map id_r (storage db))"
    and well: "list_all (storedWell (dimensions cfg)) (storage db)"
    and pos: "0 < dimensions cfg"
    by (simp_all add: invariant_def)
  let ?ix = "if includeIndex exportOptions
             then encodeIndex env (dimensions cfg, indexManager db) else []"
  let ?data = "\<lparr>version = Some ''1.0.0'', config_x = cfg,
           vectors = Some (map toExport (storage db)), index = ?ix,
           metadata_e = Some \<lparr>exportedAt = now, vectorCount = Some (int (length (storage db))),
                              dimensions_x = Some (int (dimensions cfg))\<rparr>\<rparr>"
  from export_eq [OF i, of env cfg exportOptions now] obtain db1 where
    ex: "export env cfg exportOptions now db = (Inr ?data, db1)"
    by blast
  have c1: "?ix \<noteq> [] \<Longrightarrow> decodeIndex env ?ix = Some (dimensions cfg, storage db)"
    using codec ix by (simp split: if_splits)
  from import_of_export [OF target dist well pos clr c1, of cfg now clock]
  obtain db2 where
    im: "import env cfg ?data importOptions clock target = (Inr (), db2)"
    and d2: "db2 = target\<lparr>storage := storage db, indexManager := storage db,
              vectorCache := [], embeddingCache := [], calls := calls db2\<rparr>"
    by auto
  have f2: "initialized db2" "storage db2 = storage db" "modelsLoaded db2 = modelsLoaded target"
    "indexManager db2 = storage db" "vectorCache db2 = []" "embeddingCache db2 = []"
    by (subst d2, simp add: target)+
  have inv2: "invariant env cfg db2"
    using f2 dist well pos by (simp add: invariant_def cacheCoherent_def embeddingsSound_def)
  have s: "fst (search env cfg query db2) = fst (search env cfg query db)"
    if "modelsLoaded target = modelsLoaded db \<or> vector_q query \<noteq> None \<or>
        \<not> truthy (text_q query)" for query
    using search_agree [OF inv inv2 f2(2)] that f2(3) by simp
  have e: "fst (export env cfg options t db2) = fst (export env cfg options t db)" for options t
    using export_eq [OF i, of env cfg options t] export_eq [OF f2(1), of env cfg options t]
      f2(2,4) ix
    by auto
  show ?thesis
    using ex im f2(2) f2(4) ix s e by auto
qed

theorem export_import_roundtrip_witness:
  "reachable demoEnv demoConfig oneDB \<and>
   decodeIndex demoEnv (encodeIndex demoEnv (dimensions demoConfig, indexManager oneDB)) =
     Some (dimensions demoConfig, indexManager oneDB) \<and>
   initialized threeDB \<and>
   clearExisting defaultImport \<and>
   length (storage threeDB) = 3 \<and>
   (\<exists>data db1 db2.
     export demoEnv demoConfig defaultExport 50 oneDB = (Inr data, db1) \<and>
     import demoEnv demoConfig data defaultImport fixedClock threeDB = (Inr (), db2) \<and>
     storage db2 = [demoRecord tick1 [1, 0, 0]] \<and>
     indexManager db2 = [demoRecord tick1 [1, 0, 0]] \<and>
     (\<forall>query. fst (search demoEnv demoConfig query db2) =
        fst (search demoEnv demoConfig query oneDB)) \<and>
     (\<forall>options t. fst (export demoEnv demoConfig options t db2) =
        fst (export demoEnv demoConfig options t oneDB)))"
proof -
  have r0: "reachable demoEnv demoConfig emptyDB"
    by (rule reachable.start)
      (simp_all add: validateConfig_def demoConfig_def initialize_db_def newVectorDB_def
        demoEnv_def emptyDB_def)
  have ft: "freshTick emptyDB tick1"
    by (simp add: freshTick_def emptyDB_def newVectorDB_def tick1_def)
  have r1: "reachable demoEnv demoConfig oneDB"
    using reachable.insert [OF r0 ft, of "byVector [1, 0, 0]"
        "fst (insert_db demoEnv demoConfig (byVector [1, 0, 0]) tick1 emptyDB)" oneDB]
    by (simp add: oneDB_def)
  have h2: "decodeIndex demoEnv (encodeIndex demoEnv (dimensions demoConfig, indexManager oneDB)) =
     Some (dimensions demoConfig, indexManager oneDB)"
    by (simp add: oneDB_eq demoEnv_def demoConfig_def emptyDB_def newVectorDB_def)
  have h3: "initialized threeDB"
    by (simp add: threeDB_eq emptyDB_def newVectorDB_def)
  have h4: "clearExisting defaultImport"
    by (simp add: defaultImport_def)
  have l: "length (storage threeDB) = 3"
    by (simp add: threeDB_eq)
  have ml: "modelsLoaded threeDB = modelsLoaded oneDB"
    by (simp add: threeDB_eq oneDB_eq)
  have st: "storage oneDB = [demoRecord tick1 [1, 0, 0]]"
    "indexManager oneDB = [demoRecord tick1 [1, 0, 0]]"
    by (simp_all add: oneDB_eq)
  show ?thesis
    using export_import_roundtrip [OF r1 h2 h3 h4, where exportOptions = defaultExport
        and now = 50 and clock = fixedClock] r1 h2 h3 h4 l ml st
    by (elim exE conjE, intro conjI exI) simp_all
qed

end
